theory Spec2Isabelle
  imports Complex_Main
begin

section \<open>Data model of the Values format reader\<close>

text \<open>
  The development embeds \<^verbatim>\<open>src/Processors/Formats/Impl/ValuesBlockInputFormat.cpp\<close>.
  The three parsing tiers of a column, as the enumeration \<^verbatim>\<open>ParserType\<close> names them in
  the source.
\<close>

datatype ParserType = Streaming | BatchTemplate | SingleExpressionEvaluation

text \<open>
  The error codes the source names in \<^verbatim>\<open>namespace ErrorCodes\<close>, the code thrown by
  \<^verbatim>\<open>assertChar\<close> and \<^verbatim>\<open>throwAtAssertionFailed\<close>, and every other code as a number. An
  exception carries its code and, once \<^verbatim>\<open>read\<close> has added the message, the row ordinal.
\<close>

datatype ErrorCode =
    LOGICAL_ERROR
  | SYNTAX_ERROR
  | TYPE_MISMATCH
  | SUPPORT_IS_DISABLED
  | ARGUMENT_OUT_OF_BOUND
  | CANNOT_READ_ALL_DATA
  | CANNOT_PARSE_INPUT_ASSERTION_FAILED
  | OtherError int

datatype Exception = Exception (code: ErrorCode) (at_row: "nat option")

text \<open>
  The settings of \<^verbatim>\<open>FormatSettings\<close> the source reads: \<^verbatim>\<open>null_as_default\<close>,
  \<^verbatim>\<open>values.interpret_expressions\<close> and \<^verbatim>\<open>values.deduce_templates_of_expressions\<close>.
\<close>

record FormatSettings =
  null_as_default :: bool
  interpret_expressions :: bool
  deduce_templates_of_expressions :: bool

text \<open>
  \<^verbatim>\<open>PeekableReadBuffer\<close>: the input as one sequence of bytes, the read position, and the
  position saved by the \<^verbatim>\<open>PeekableReadBufferCheckpoint\<close> that \<^verbatim>\<open>readRow\<close> takes before
  each column. The chunking of the underlying buffer is not represented: \<^verbatim>\<open>eof()\<close> is
  true exactly when no byte is left, and \<^verbatim>\<open>count()\<close> is the read position.
\<close>

record PeekableReadBuffer =
  bytes :: string
  position :: nat
  checkpoint :: nat

text \<open>
  Modelled from the spec: the token kinds of the tokenizer (\<^verbatim>\<open>Parsers/Lexer.h\<close> is not in
  src), "literal, identifier, punctuation, comma, closing-parenthesis, end, error". A token
  records where it begins in the input.
\<close>

datatype TokenType =
    Literal
  | Identifier
  | Punctuation
  | Comma
  | ClosingRoundBracket
  | EndOfStream
  | ErrorToken

record Token =
  tok_type :: TokenType
  tok_begin :: nat

text \<open>
  The token sequence of a row (\<^verbatim>\<open>Tokens\<close>) is the list of its significant tokens, which the
  tokenizer ends with the end token; \<^verbatim>\<open>tokenAt\<close> is \<^verbatim>\<open>*token_iterator\<close> for an iterator at
  the given index. The source never moves an iterator past the end token; a read there
  answers an end token in the model.
\<close>

type_synonym Tokens = "Token list"

definition tokenAt :: "Tokens \<Rightarrow> nat \<Rightarrow> Token" where
  "tokenAt toks i =
     (if i < length toks then toks ! i else \<lparr>tok_type = EndOfStream, tok_begin = 0\<rparr>)"

definition isError :: "Token \<Rightarrow> bool" where
  "isError t = (tok_type t = ErrorToken)"

definition isEnd :: "Token \<Rightarrow> bool" where
  "isEnd t = (tok_type t = EndOfStream)"

text \<open>
  Values (\<^verbatim>\<open>Field\<close>) and data types (\<^verbatim>\<open>IDataType\<close>), with the variants that the source
  distinguishes: the null value, tuples, arrays and maps (a map is a list of two-element
  tuples), and the Nullable, LowCardinality, Tuple, Array and Map types. A column
  (\<^verbatim>\<open>IColumn\<close>) is the list of its values.
\<close>

datatype Field =
    Null
  | Int64 int
  | String string
  | Tuple "Field list"
  | Array "Field list"
  | Map "Field list"

datatype DataType =
    DataTypeInt32
  | DataTypeString
  | DataTypeDateTime
  | DataTypeOther string
  | DataTypeNullable DataType
  | DataTypeLowCardinality DataType
  | DataTypeTuple "DataType list"
  | DataTypeArray DataType
  | DataTypeMap DataType DataType

type_synonym IColumn = "Field list"

fun isNull :: "Field \<Rightarrow> bool" where
  "isNull Null = True"
| "isNull _ = False"

fun isNullable :: "DataType \<Rightarrow> bool" where
  "isNullable (DataTypeNullable _) = True"
| "isNullable _ = False"

fun isLowCardinalityNullable :: "DataType \<Rightarrow> bool" where
  "isLowCardinalityNullable (DataTypeLowCardinality t) = isNullable t"
| "isLowCardinalityNullable _ = False"

definition isNullableOrLowCardinalityNullable :: "DataType \<Rightarrow> bool" where
  "isNullableOrLowCardinalityNullable t = (isNullable t \<or> isLowCardinalityNullable t)"

text \<open>
  The members of \<^verbatim>\<open>ValuesBlockInputFormat\<close> that the functions below read and write. The
  per-column vectors are lists of length \<^verbatim>\<open>num_columns\<close>; the counters are \<^verbatim>\<open>size_t\<close> in
  the source and natural numbers here (no claim depends on their wrap-around at \<open>2^64\<close>).
  \<^verbatim>\<open>got_exception\<close> is the flag inherited from the base class. The template type and the
  template cache are not in src and stay abstract.
\<close>

record ('tpl, 'cache) ValuesBlockInputFormat =
  buf :: PeekableReadBuffer
  tokens :: "Tokens option"
  token_iterator :: "nat option"
  parser_type_for_column :: "ParserType list"
  attempts_to_deduce_template :: "nat list"
  attempts_to_deduce_template_cached :: "nat list"
  rows_parsed_using_template :: "nat list"
  templates :: "'tpl option list"
  templates_cache :: 'cache
  block_missing_values :: "(nat \<times> nat) set"
  total_rows :: nat
  got_exception :: bool

text \<open>
  The result of a function that may throw: the exception or the returned value, together
  with the object as the function left it (a C++ exception does not undo the writes made
  before it) and, for the functions that take the column by reference, the column.
\<close>

type_synonym ('a, 'tpl, 'cache) result =
  "(Exception + 'a) \<times> ('tpl, 'cache) ValuesBlockInputFormat \<times> IColumn"

text \<open>
  What the functions read and never write, and the collaborators whose code is not in src,
  taken as parameters:
  \<^item> \<^verbatim>\<open>format_settings\<close>, \<^verbatim>\<open>num_columns\<close>, \<^verbatim>\<open>types\<close> (the header's data types),
    \<^verbatim>\<open>params.max_block_size\<close> and \<^verbatim>\<open>need_only_count\<close>;
  \<^item> \<^verbatim>\<open>isWhitespaceASCII\<close>, \<^verbatim>\<open>isParseError\<close>, \<^verbatim>\<open>skipBOMIfExists\<close> and the base class's
    \<^verbatim>\<open>IInputFormat::resetParser\<close>;
  \<^item> the tokenizer (\<^verbatim>\<open>Tokens(begin, end)\<close>), the expression parser (\<^verbatim>\<open>parser.parse\<close>: the
    iterator after the expression and the syntax tree, or nothing when it does not parse)
    and the test \<^verbatim>\<open>dynamic_cast<const ASTLiteral *>\<close>;
  \<^item> the two literal deserializers of a column's serialization, which write to the column
    and read from the buffer, and may throw;
  \<^item> the template cache's \<^verbatim>\<open>getFromCacheOrConstruct\<close>, the construction of a template
    from a structure (\<^verbatim>\<open>templates[column_idx].emplace(structure)\<close>), and the template's
    \<^verbatim>\<open>parseExpression\<close>, \<^verbatim>\<open>evaluateAll\<close> and \<^verbatim>\<open>rowsCount\<close>;
  \<^item> \<^verbatim>\<open>evaluateConstantExpression\<close>, \<^verbatim>\<open>convertFieldToType\<close> and a type's
    \<^verbatim>\<open>getDefault\<close>.

  A collaborator that reads from the buffer answers the read position it leaves the buffer
  at, also when it throws: it cannot change the bytes or the checkpoint. A collaborator
  that writes to a column or to a template answers the column or the template as it
  leaves it.
\<close>

record ('ast, 'st, 'tpl, 'cache) Env =
  format_settings :: FormatSettings
  num_columns :: nat
  types :: "DataType list"
  max_block_size :: nat
  need_only_count :: bool
  isWhitespaceASCII :: "char \<Rightarrow> bool"
  isParseError :: "ErrorCode \<Rightarrow> bool"
  skipBOMIfExists :: "PeekableReadBuffer \<Rightarrow> nat"
  IInputFormat_resetParser ::
    "('tpl, 'cache) ValuesBlockInputFormat \<Rightarrow> ('tpl, 'cache) ValuesBlockInputFormat"
  Tokens_ctor :: "string \<Rightarrow> nat \<Rightarrow> nat \<Rightarrow> Tokens"
  parser_parse :: "Tokens \<Rightarrow> nat \<Rightarrow> Exception + (nat \<times> 'ast) option"
  isASTLiteral :: "'ast \<Rightarrow> bool"
  deserializeTextQuoted ::
    "nat \<Rightarrow> IColumn \<Rightarrow> PeekableReadBuffer \<Rightarrow> (Exception + unit) \<times> IColumn \<times> nat"
  deserializeNullAsDefaultOrNestedTextQuoted ::
    "nat \<Rightarrow> IColumn \<Rightarrow> PeekableReadBuffer \<Rightarrow> (Exception + bool) \<times> IColumn \<times> nat"
  getFromCacheOrConstruct ::
    "'cache \<Rightarrow> DataType \<Rightarrow> bool \<Rightarrow> Tokens \<Rightarrow> nat \<Rightarrow> nat \<Rightarrow> 'ast \<Rightarrow> string
       \<Rightarrow> (Exception + 'st \<times> bool) \<times> 'cache"
  ConstantExpressionTemplate_ctor :: "'st \<Rightarrow> 'tpl"
  template_parseExpression ::
    "'tpl \<Rightarrow> PeekableReadBuffer \<Rightarrow> Tokens \<Rightarrow> nat
       \<Rightarrow> (Exception + bool) \<times> 'tpl \<times> nat \<times> nat"
  template_evaluateAll ::
    "'tpl \<Rightarrow> (nat \<times> nat) set \<Rightarrow> nat \<Rightarrow> DataType \<Rightarrow> nat
       \<Rightarrow> (Exception + IColumn) \<times> 'tpl \<times> (nat \<times> nat) set"
  template_rowsCount :: "'tpl \<Rightarrow> nat"
  evaluateConstantExpression :: "'ast \<Rightarrow> Exception + Field \<times> DataType"
  convertFieldToType :: "Field \<Rightarrow> DataType \<Rightarrow> DataType \<Rightarrow> Exception + Field"
  getDefault :: "DataType \<Rightarrow> Field"

text \<open>
  The constructor (lines 51-63): every column starts in \<^verbatim>\<open>Streaming\<close>, with its counters
  at zero and no template.
\<close>

definition ValuesBlockInputFormat_ctor ::
  "PeekableReadBuffer \<Rightarrow> nat \<Rightarrow> 'cache \<Rightarrow> ('tpl, 'cache) ValuesBlockInputFormat" where
  "ValuesBlockInputFormat_ctor b n cache =
     \<lparr>buf = b, tokens = None, token_iterator = None,
      parser_type_for_column = replicate n Streaming,
      attempts_to_deduce_template = replicate n 0,
      attempts_to_deduce_template_cached = replicate n 0,
      rows_parsed_using_template = replicate n 0,
      templates = replicate n None,
      templates_cache = cache,
      block_missing_values = {},
      total_rows = 0,
      got_exception = False\<rparr>"

section \<open>The deduction heuristic\<close>

text \<open>
  \<^verbatim>\<open>shouldDeduceNewTemplate\<close> (lines 597-621). The source computes the weighted score and
  the ratio in \<^verbatim>\<open>double\<close>; the model computes them in the reals. The two agree when both
  attempt counters are below \<open>2^51\<close> and the rows parsed with templates are below \<open>2^53\<close>:
  then \<open>3 * attempts + cached < 2^53\<close>, so the two products and their sum (also when
  the compiler contracts them into one fused operation) and the conversion of the third
  counter are exact, and the rounded quotient of two such numbers exceeds 1 exactly when
  the quotient does. Outside this range the result of the source depends on the rounding,
  and the theorem about this function is stated inside the range.
\<close>

definition max_attempts :: nat where
  "max_attempts = 100"

definition attempts_weighted :: "('tpl, 'cache) ValuesBlockInputFormat \<Rightarrow> nat \<Rightarrow> real" where
  "attempts_weighted s column_idx =
     1.5 * real (attempts_to_deduce_template s ! column_idx)
       + 0.5 * real (attempts_to_deduce_template_cached s ! column_idx)"

definition shouldDeduceNewTemplate ::
  "('ast, 'st, 'tpl, 'cache) Env \<Rightarrow> ('tpl, 'cache) ValuesBlockInputFormat \<Rightarrow> nat
     \<Rightarrow> bool \<times> ('tpl, 'cache) ValuesBlockInputFormat" where
  "shouldDeduceNewTemplate env s column_idx =
     (if \<not> deduce_templates_of_expressions (format_settings env) then (False, s)
      else if attempts_weighted s column_idx < real max_attempts then (True, s)
      else if real (rows_parsed_using_template s ! column_idx) / attempts_weighted s column_idx > 1
      then (True,
            s\<lparr>attempts_to_deduce_template := (attempts_to_deduce_template s)[column_idx := 0],
              attempts_to_deduce_template_cached :=
                (attempts_to_deduce_template_cached s)[column_idx := 0],
              rows_parsed_using_template := (rows_parsed_using_template s)[column_idx := 0]\<rparr>)
      else (False, s))"

section \<open>Reading from the buffer\<close>

text \<open>
  Modelled from the spec: the helpers of \<^verbatim>\<open>IO/ReadHelpers.h\<close> and \<^verbatim>\<open>base/find_symbols.h\<close>, which
  are not in src. The spec's grammar has a "whitespace skip" before each value, the
  delimiters comma and closing parenthesis, and the marker DEFAULT "(case-insensitive)".
  \<^verbatim>\<open>skipWhitespaceIfAny\<close> moves over the whitespace at the read position;
  \<^verbatim>\<open>checkChar\<close> consumes the given byte when it is the next one and says whether it did;
  \<^verbatim>\<open>assertChar\<close> throws when it is not; \<^verbatim>\<open>find_first_symbols\<close> is the first position at or
  after the given one that holds one of the given bytes, or the end.
\<close>

definition eof :: "PeekableReadBuffer \<Rightarrow> bool" where
  "eof b = (length (bytes b) \<le> position b)"

definition peek :: "PeekableReadBuffer \<Rightarrow> char" where
  "peek b = bytes b ! position b"

definition skipWhitespaceIfAny :: "(char \<Rightarrow> bool) \<Rightarrow> PeekableReadBuffer \<Rightarrow> PeekableReadBuffer" where
  "skipWhitespaceIfAny ws b =
     b\<lparr>position := position b + length (takeWhile ws (drop (position b) (bytes b)))\<rparr>"

definition checkChar :: "char \<Rightarrow> PeekableReadBuffer \<Rightarrow> bool \<times> PeekableReadBuffer" where
  "checkChar c b =
     (if eof b \<or> peek b \<noteq> c then (False, b) else (True, b\<lparr>position := position b + 1\<rparr>))"

definition assertChar :: "char \<Rightarrow> PeekableReadBuffer \<Rightarrow> (Exception + unit) \<times> PeekableReadBuffer" where
  "assertChar c b =
     (case checkChar c b of
        (True, b') \<Rightarrow> (Inr (), b')
      | (False, b') \<Rightarrow> (Inl (Exception CANNOT_PARSE_INPUT_ASSERTION_FAILED None), b'))"

definition rollbackToCheckpoint :: "PeekableReadBuffer \<Rightarrow> PeekableReadBuffer" where
  "rollbackToCheckpoint b = b\<lparr>position := checkpoint b\<rparr>"

definition setCheckpoint :: "PeekableReadBuffer \<Rightarrow> PeekableReadBuffer" where
  "setCheckpoint b = b\<lparr>checkpoint := position b\<rparr>"

fun find_first_symbols :: "char list \<Rightarrow> string \<Rightarrow> nat \<Rightarrow> nat" where
  "find_first_symbols syms [] p = p"
| "find_first_symbols syms (c # cs) p =
     (if c \<in> set syms then p else find_first_symbols syms cs (Suc p))"

definition toLowerIfAlphaASCII :: "char \<Rightarrow> char" where
  "toLowerIfAlphaASCII c =
     (case map_of (zip ''ABCDEFGHIJKLMNOPQRSTUVWXYZ'' ''abcdefghijklmnopqrstuvwxyz'') c of
        Some l \<Rightarrow> l
      | None \<Rightarrow> c)"

definition equalsCaseInsensitive :: "char \<Rightarrow> char \<Rightarrow> bool" where
  "equalsCaseInsensitive a b = (toLowerIfAlphaASCII a = toLowerIfAlphaASCII b)"

fun assertStringCaseInsensitive ::
  "string \<Rightarrow> PeekableReadBuffer \<Rightarrow> (Exception + unit) \<times> PeekableReadBuffer" where
  "assertStringCaseInsensitive [] b = (Inr (), b)"
| "assertStringCaseInsensitive (c # cs) b =
     (if eof b \<or> \<not> equalsCaseInsensitive (peek b) c
      then (Inl (Exception CANNOT_PARSE_INPUT_ASSERTION_FAILED None), b)
      else assertStringCaseInsensitive cs (b\<lparr>position := position b + 1\<rparr>))"

definition checkStringByFirstCharacterAndAssertTheRestCaseInsensitive ::
  "string \<Rightarrow> PeekableReadBuffer \<Rightarrow> (Exception + bool) \<times> PeekableReadBuffer" where
  "checkStringByFirstCharacterAndAssertTheRestCaseInsensitive str b =
     (if eof b then (Inr False, b)
      else if \<not> equalsCaseInsensitive (hd str) (peek b) then (Inr False, b)
      else case assertStringCaseInsensitive str b of
             (Inl e, b') \<Rightarrow> (Inl e, b')
           | (Inr _, b') \<Rightarrow> (Inr True, b'))"

section \<open>Row-boundary scan\<close>

text \<open>
  \<^verbatim>\<open>skipToNextRow\<close> (lines 66-107). \<^verbatim>\<open>skipToNextRow_step\<close> is the body of the loop and
  \<^verbatim>\<open>skipToNextRow_cond\<close> its condition, on the buffer, the balance (a C++ \<^verbatim>\<open>int\<close>, here an
  integer) and the quoted flag.
\<close>

definition skipToNextRow_step ::
  "PeekableReadBuffer \<times> int \<times> bool \<Rightarrow> PeekableReadBuffer \<times> int \<times> bool" where
  "skipToNextRow_step st =
     (case st of (b, balance, quoted) \<Rightarrow>
        let p = find_first_symbols [CHR 0x5C, CHR 0x27, CHR '')'', CHR ''(''] 
                  (drop (position b) (bytes b)) (position b);
            b1 = b\<lparr>position := p\<rparr>
        in if p = length (bytes b) then (b1, balance, quoted)
           else if peek b1 = CHR 0x5C then
             (let b2 = b1\<lparr>position := p + 1\<rparr>
              in (if \<not> eof b2 then b2\<lparr>position := p + 2\<rparr> else b2, balance, quoted))
           else if peek b1 = CHR 0x27 then (b1\<lparr>position := p + 1\<rparr>, balance, \<not> quoted)
           else if peek b1 = CHR '')'' then
             (b1\<lparr>position := p + 1\<rparr>, if \<not> quoted then balance - 1 else balance, quoted)
           else if peek b1 = CHR ''('' then
             (b1\<lparr>position := p + 1\<rparr>, if \<not> quoted then balance + 1 else balance, quoted)
           else (b1, balance, quoted))"

definition skipToNextRow_cond ::
  "nat \<Rightarrow> nat \<Rightarrow> PeekableReadBuffer \<times> int \<times> bool \<Rightarrow> bool" where
  "skipToNextRow_cond min_chunk_bytes chunk_begin_buf_count st =
     (case st of (b, balance, quoted) \<Rightarrow>
        \<not> eof b \<and> (balance \<noteq> 0 \<or> position b - chunk_begin_buf_count < min_chunk_bytes))"

lemma find_first_symbols_bounds:
  "p \<le> find_first_symbols syms cs p \<and> find_first_symbols syms cs p \<le> p + length cs"
proof (induction cs arbitrary: p)
  case Nil
  show ?case by simp
next
  case (Cons c cs)
  from Cons.IH [of "Suc p"] show ?case by simp
qed

lemma find_first_symbols_hit:
  "find_first_symbols syms cs p < p + length cs
     \<Longrightarrow> cs ! (find_first_symbols syms cs p - p) \<in> set syms"
proof (induction cs arbitrary: p)
  case Nil
  then show ?case by simp
next
  case (Cons c cs)
  show ?case
  proof (cases "c \<in> set syms")
    case True
    then show ?thesis by simp
  next
    case False
    have ge: "Suc p \<le> find_first_symbols syms cs (Suc p)"
      using find_first_symbols_bounds [of "Suc p" syms cs] by simp
    from False Cons.prems have "find_first_symbols syms cs (Suc p) < Suc p + length cs"
      by simp
    from Cons.IH [OF this] False ge show ?thesis
      by (simp add: Suc_diff_le)
  qed
qed

lemma skipToNextRow_step_bytes:
  "bytes (fst (skipToNextRow_step (b, balance, quoted))) = bytes b"
  by (simp add: skipToNextRow_step_def Let_def eof_def)

lemma skipToNextRow_step_advances:
  assumes "\<not> eof b"
  shows "position b < position (fst (skipToNextRow_step (b, balance, quoted)))"
proof -
  let ?p = "find_first_symbols [CHR 0x5C, CHR 0x27, CHR '')'', CHR ''(''] 
              (drop (position b) (bytes b)) (position b)"
  have bounds: "position b \<le> ?p" "?p \<le> length (bytes b)"
    using find_first_symbols_bounds [of "position b" _ "drop (position b) (bytes b)"] assms
    by (simp_all add: eof_def)
  have hit: "bytes b ! ?p \<in> {CHR 0x5C, CHR 0x27, CHR '')'', CHR ''(''}" if "?p < length (bytes b)"
  proof -
    from that assms
    have "?p < position b + length (drop (position b) (bytes b))"
      by (simp add: eof_def)
    from find_first_symbols_hit [OF this] bounds that show ?thesis
      by simp
  qed
  show ?thesis
  proof (cases "?p = length (bytes b)")
    case True
    with assms show ?thesis
      by (simp add: skipToNextRow_step_def Let_def eof_def)
  next
    case False
    with bounds have "?p < length (bytes b)"
      by simp
    from hit [OF this] bounds False show ?thesis
      by (auto simp: skipToNextRow_step_def Let_def eof_def peek_def)
  qed
qed

function skipToNextRow_loop ::
  "nat \<Rightarrow> nat \<Rightarrow> PeekableReadBuffer \<times> int \<times> bool \<Rightarrow> PeekableReadBuffer \<times> int \<times> bool" where
  "skipToNextRow_loop min_chunk_bytes chunk_begin_buf_count st =
     (if skipToNextRow_cond min_chunk_bytes chunk_begin_buf_count st
      then skipToNextRow_loop min_chunk_bytes chunk_begin_buf_count (skipToNextRow_step st)
      else st)"
  by pat_completeness auto
termination
proof (relation "measure (\<lambda>(m, c, st). length (bytes (fst st)) - position (fst st))")
  show "wf (measure (\<lambda>(m, c, st). length (bytes (fst st)) - position (fst st)))"
    by simp
next
  fix min_chunk_bytes chunk_begin_buf_count :: nat
  fix st :: "PeekableReadBuffer \<times> int \<times> bool"
  assume c: "skipToNextRow_cond min_chunk_bytes chunk_begin_buf_count st"
  obtain b balance quoted where st: "st = (b, balance, quoted)"
    by (cases st) auto
  from c st have ne: "\<not> eof b"
    by (simp add: skipToNextRow_cond_def)
  from skipToNextRow_step_advances [OF ne, of balance quoted]
       skipToNextRow_step_bytes [of b balance quoted] ne st
  show "((min_chunk_bytes, chunk_begin_buf_count, skipToNextRow_step st),
         (min_chunk_bytes, chunk_begin_buf_count, st))
        \<in> measure (\<lambda>(m, c, st). length (bytes (fst st)) - position (fst st))"
    by (simp add: eof_def)
qed

definition skipToNextRow ::
  "(char \<Rightarrow> bool) \<Rightarrow> PeekableReadBuffer \<Rightarrow> nat \<Rightarrow> int \<Rightarrow> bool \<times> PeekableReadBuffer" where
  "skipToNextRow ws b0 min_chunk_bytes balance =
     (let b = skipWhitespaceIfAny ws b0
      in if eof b \<or> peek b = CHR '';'' then (False, b)
         else
           let chunk_begin_buf_count = position b;
               b' = fst (skipToNextRow_loop min_chunk_bytes chunk_begin_buf_count
                           (b, balance, False))
           in (True,
               if \<not> eof b' \<and> peek b' = CHR '','' then b'\<lparr>position := position b' + 1\<rparr>
               else b'))"

section \<open>Tokenizing the rest of the row\<close>

text \<open>
  \<^verbatim>\<open>readUntilTheEndOfRowAndReTokenize\<close> (lines 187-220). When the token sequence of the row
  is still there, the iterator moves to the first token that does not begin before the
  read position; when that token is neither an error nor the end, nothing else happens.
  Otherwise the row is scanned to its end (\<^verbatim>\<open>skipToNextRow\<close> with minimum 0 and balance 1),
  the buffer goes back to the checkpoint, and the bytes from there to the end of the row
  are tokenized anew. The test that the tokens' memory is still the buffer's compares
  addresses in the source and offsets here. The function returns the token sequence and
  the iterator that its callers then dereference.
\<close>

definition advanceTokenIterator :: "Tokens \<Rightarrow> nat \<Rightarrow> nat \<Rightarrow> nat" where
  "advanceTokenIterator toks ti pos =
     ti + length (takeWhile (\<lambda>t. tok_begin t < pos \<and> \<not> isError t \<and> \<not> isEnd t) (drop ti toks))"

definition reTokenize ::
  "('ast, 'st, 'tpl, 'cache) Env \<Rightarrow> ('tpl, 'cache) ValuesBlockInputFormat
     \<Rightarrow> (Exception + Tokens \<times> nat) \<times> ('tpl, 'cache) ValuesBlockInputFormat" where
  "reTokenize env s =
     (let row_end = position (snd (skipToNextRow (isWhitespaceASCII env) (buf s) 0 1));
          b = rollbackToCheckpoint (buf s);
          toks = Tokens_ctor env (bytes b) (position b) row_end;
          s' = s\<lparr>buf := b, tokens := Some toks, token_iterator := Some 0\<rparr>;
          first = tokenAt toks 0
      in if isError first \<or> isEnd first then (Inl (Exception SYNTAX_ERROR None), s')
         else (Inr (toks, 0), s'))"

definition readUntilTheEndOfRowAndReTokenize ::
  "('ast, 'st, 'tpl, 'cache) Env \<Rightarrow> ('tpl, 'cache) ValuesBlockInputFormat
     \<Rightarrow> (Exception + Tokens \<times> nat) \<times> ('tpl, 'cache) ValuesBlockInputFormat" where
  "readUntilTheEndOfRowAndReTokenize env s =
     (case (tokens s, token_iterator s) of
        (Some toks, Some ti) \<Rightarrow>
          if tok_begin (tokenAt toks ti) \<le> length (bytes (buf s)) then
            (let ti' = advanceTokenIterator toks ti (position (buf s));
                 s' = s\<lparr>token_iterator := Some ti'\<rparr>
             in if \<not> isError (tokenAt toks ti') \<and> \<not> isEnd (tokenAt toks ti')
                then (Inr (toks, ti'), s')
                else reTokenize env s')
          else reTokenize env s
      | _ \<Rightarrow> reTokenize env s)"

section \<open>The delimiter after a value\<close>

text \<open>
  \<^verbatim>\<open>checkDelimiterAfterValue\<close> (lines 582-595) and \<^verbatim>\<open>assertDelimiterAfterValue\<close>
  (lines 576-580), on the bytes of the buffer.
\<close>

definition checkDelimiterAfterValue ::
  "('ast, 'st, 'tpl, 'cache) Env \<Rightarrow> PeekableReadBuffer \<Rightarrow> nat \<Rightarrow> bool \<times> PeekableReadBuffer" where
  "checkDelimiterAfterValue env b0 column_idx =
     (let b = skipWhitespaceIfAny (isWhitespaceASCII env) b0
      in if column_idx + 1 \<noteq> num_columns env then checkChar CHR '','' b
         else case checkChar CHR '','' b of
                (True, b') \<Rightarrow> checkChar CHR '')'' (skipWhitespaceIfAny (isWhitespaceASCII env) b')
              | (False, b') \<Rightarrow> checkChar CHR '')'' b')"

definition assertDelimiterAfterValue ::
  "('ast, 'st, 'tpl, 'cache) Env \<Rightarrow> PeekableReadBuffer \<Rightarrow> nat
     \<Rightarrow> (Exception + unit) \<times> PeekableReadBuffer" where
  "assertDelimiterAfterValue env b column_idx =
     (case checkDelimiterAfterValue env b column_idx of
        (True, b') \<Rightarrow> (Inr (), b')
      | (False, b') \<Rightarrow> (Inl (Exception CANNOT_PARSE_INPUT_ASSERTION_FAILED None), b'))"

section \<open>Nulls inside tuples, arrays and maps\<close>

text \<open>
  \<^verbatim>\<open>tryToReplaceNullFieldsInComplexTypesWithDefaultValues\<close> (lines 336-412) changes the
  value in place; the model returns the changed value, or the exception of the first
  element that throws. \<^verbatim>\<open>mapExc\<close> is the loop over the elements. An entry of a map must
  be a tuple, or \<^verbatim>\<open>safeGet\<close> throws (code 170, \<^verbatim>\<open>BAD_GET\<close>); its elements 0 and 1 are the
  key and the value, and further elements are left as they are. The source reads a tuple
  of fewer than two elements out of range, which is undefined; the model answers the
  same exception there. The stack check \<^verbatim>\<open>checkStackSize\<close> is not modelled.
\<close>

fun mapExc :: "('a \<Rightarrow> Exception + 'b) \<Rightarrow> 'a list \<Rightarrow> Exception + 'b list" where
  "mapExc f [] = Inr []"
| "mapExc f (x # xs) =
     (case f x of
        Inl e \<Rightarrow> Inl e
      | Inr y \<Rightarrow> (case mapExc f xs of Inl e \<Rightarrow> Inl e | Inr ys \<Rightarrow> Inr (y # ys)))"

lemma mapExc_cong [fundef_cong]:
  "xs = ys \<Longrightarrow> (\<And>x. x \<in> set ys \<Longrightarrow> f x = g x) \<Longrightarrow> mapExc f xs = mapExc g ys"
  by (induction ys arbitrary: xs) (auto split: sum.splits)

lemma size_member:
  "t \<in> set ts \<Longrightarrow> size (t::DataType) \<le> size_list size ts"
  by (induction ts) auto

lemma size_zip_snd:
  "(v, t) \<in> set (zip vs ts) \<Longrightarrow> size (t::DataType) < Suc (size_list size ts)"
  using size_member [of t ts] by (auto dest: set_zip_rightD)

function tryToReplaceNullFieldsInComplexTypesWithDefaultValues ::
  "(DataType \<Rightarrow> Field) \<Rightarrow> Field \<Rightarrow> DataType \<Rightarrow> Exception + Field" where
  "tryToReplaceNullFieldsInComplexTypesWithDefaultValues type_default val data_type =
     (case (data_type, val) of
        (DataTypeTuple elements, Tuple tuple_value) \<Rightarrow>
          if length tuple_value \<noteq> length elements then Inl (Exception TYPE_MISMATCH None)
          else
            (case mapExc
                    (\<lambda>(v, element_type).
                       tryToReplaceNullFieldsInComplexTypesWithDefaultValues type_default
                         (if isNull v \<and> \<not> isNullable element_type then type_default element_type
                          else v)
                         element_type)
                    (zip tuple_value elements) of
               Inl e \<Rightarrow> Inl e
             | Inr vs \<Rightarrow> Inr (Tuple vs))
      | (DataTypeArray element_type, Array array_value) \<Rightarrow>
          if isNullable element_type then Inr val
          else
            (case mapExc
                    (\<lambda>v. tryToReplaceNullFieldsInComplexTypesWithDefaultValues type_default
                           (if isNull v then type_default element_type else v) element_type)
                    array_value of
               Inl e \<Rightarrow> Inl e
             | Inr vs \<Rightarrow> Inr (Array vs))
      | (DataTypeMap key_type value_type, Map map_value) \<Rightarrow>
          (case mapExc
                  (\<lambda>map_entry.
                     case map_entry of
                       Tuple (entry_key # entry_value # others) \<Rightarrow>
                         (case tryToReplaceNullFieldsInComplexTypesWithDefaultValues type_default
                                 (if isNull entry_key \<and> \<not> isNullable key_type
                                  then type_default key_type else entry_key)
                                 key_type of
                            Inl e \<Rightarrow> Inl e
                          | Inr k \<Rightarrow>
                              (case tryToReplaceNullFieldsInComplexTypesWithDefaultValues type_default
                                      (if isNull entry_value \<and> \<not> isNullable value_type
                                       then type_default value_type else entry_value)
                                      value_type of
                                 Inl e \<Rightarrow> Inl e
                               | Inr v \<Rightarrow> Inr (Tuple (k # v # others))))
                     | _ \<Rightarrow> Inl (Exception (OtherError 170) None))
                  map_value of
             Inl e \<Rightarrow> Inl e
           | Inr es \<Rightarrow> Inr (Map es))
      | _ \<Rightarrow> Inr val)"
  by pat_completeness auto
termination
  by (relation "measure (\<lambda>(g, v, t). size t)") (auto dest: size_zip_snd)

section \<open>The full-expression path\<close>

text \<open>
  \<^verbatim>\<open>parseExpression\<close> (lines 415-574), in the four parts in which the source runs it.

  First (lines 417-450): tokenize the row if needed, parse one expression, and require the
  token after it to be the delimiter of this column; the iterator then moves past the
  delimiter. The result is the token sequence, the iterator at the start of the expression
  (\<^verbatim>\<open>ti_start\<close>), the iterator after the delimiter, and the syntax tree.
\<close>

definition parseExpression_parse ::
  "('ast, 'st, 'tpl, 'cache) Env \<Rightarrow> ('tpl, 'cache) ValuesBlockInputFormat \<Rightarrow> nat
     \<Rightarrow> (Exception + Tokens \<times> nat \<times> nat \<times> 'ast) \<times> ('tpl, 'cache) ValuesBlockInputFormat" where
  "parseExpression_parse env s column_idx =
     (case readUntilTheEndOfRowAndReTokenize env s of
        (Inl e, s1) \<Rightarrow> (Inl e, s1)
      | (Inr (toks, ti), s1) \<Rightarrow>
          if \<not> isError (tokenAt toks ti) \<and> \<not> isEnd (tokenAt toks ti) then
            (case parser_parse env toks ti of
               Inl e \<Rightarrow> (Inl e, s1)
             | Inr None \<Rightarrow> (Inl (Exception SYNTAX_ERROR None), s1)
             | Inr (Some (ti', ast)) \<Rightarrow>
                 if (if column_idx + 1 \<noteq> num_columns env
                     then tok_type (tokenAt toks ti') = Comma
                     else tok_type (tokenAt toks ti') = ClosingRoundBracket)
                 then (Inr (toks, ti, ti' + 1, ast), s1\<lparr>token_iterator := Some (ti' + 1)\<rparr>)
                 else (Inl (Exception SYNTAX_ERROR None), s1\<lparr>token_iterator := Some ti'\<rparr>))
          else (Inl (Exception SYNTAX_ERROR None), s1))"

text \<open>
  Second (lines 452-481): when the column is not in \<^verbatim>\<open>Streaming\<close> and the expression is a
  literal, try the literal deserializer once more. \<^verbatim>\<open>popBack\<close> removes the last values of a
  column.
\<close>

definition popBack :: "nat \<Rightarrow> IColumn \<Rightarrow> IColumn" where
  "popBack n column = take (length column - n) column"

definition parseExpression_probe ::
  "('ast, 'st, 'tpl, 'cache) Env \<Rightarrow> ('tpl, 'cache) ValuesBlockInputFormat \<Rightarrow> IColumn \<Rightarrow> nat
     \<Rightarrow> 'ast \<Rightarrow> (bool, 'tpl, 'cache) result" where
  "parseExpression_probe env s column column_idx ast =
     (if parser_type_for_column s ! column_idx \<noteq> Streaming \<and> isASTLiteral env ast then
        (case deserializeTextQuoted env column_idx column (buf s) of
           (Inl e, column1, p1) \<Rightarrow>
             if \<not> isParseError env (code e) \<or> code e = ARGUMENT_OUT_OF_BOUND
             then (Inl e, s\<lparr>buf := (buf s)\<lparr>position := p1\<rparr>\<rparr>, column1)
             else (Inr False, s\<lparr>buf := (buf s)\<lparr>position := p1\<rparr>\<rparr>, column1)
         | (Inr _, column1, p1) \<Rightarrow>
             (case checkDelimiterAfterValue env
                     (skipWhitespaceIfAny (isWhitespaceASCII env) ((buf s)\<lparr>position := p1\<rparr>))
                     column_idx of
                (True, b2) \<Rightarrow>
                  (Inr True,
                   s\<lparr>buf := b2,
                     parser_type_for_column := (parser_type_for_column s)[column_idx := Streaming]\<rparr>,
                   column1)
              | (False, b2) \<Rightarrow> (Inr False, s\<lparr>buf := b2\<rparr>, popBack 1 column1)))
      else (Inr False, s, column))"

text \<open>
  Third (lines 486-541): when the heuristic allows it, take a template from the cache or
  construct one and match the row against it. The result \<open>True\<close> is the return of
  \<^verbatim>\<open>parseExpression\<close> with \<open>true\<close>; \<open>False\<close> goes on to the evaluation. The \<^verbatim>\<open>catch (...)\<close>
  keeps the exception of the cache or of the template, which is thrown again when
  expressions are not interpreted.
\<close>

definition incrementAt :: "nat list \<Rightarrow> nat \<Rightarrow> nat list" where
  "incrementAt counters i = counters[i := counters ! i + 1]"

definition parseExpression_deduce ::
  "('ast, 'st, 'tpl, 'cache) Env \<Rightarrow> ('tpl, 'cache) ValuesBlockInputFormat \<Rightarrow> nat
     \<Rightarrow> Tokens \<Rightarrow> nat \<Rightarrow> nat \<Rightarrow> 'ast
     \<Rightarrow> (Exception + bool) \<times> ('tpl, 'cache) ValuesBlockInputFormat" where
  "parseExpression_deduce env s0 column_idx toks ti_start ti ast =
     (case shouldDeduceNewTemplate env s0 column_idx of
        (False, s) \<Rightarrow> (Inr False, s)
      | (True, s) \<Rightarrow>
          if templates s ! column_idx \<noteq> None then (Inl (Exception LOGICAL_ERROR None), s)
          else
            let result_type = types env ! column_idx;
                delimiter = (if column_idx + 1 = num_columns env then '')'' else '','');
                tried =
                  (case getFromCacheOrConstruct env (templates_cache s) result_type
                          (\<not> isNullable result_type \<and> null_as_default (format_settings env))
                          toks ti_start ti ast delimiter of
                     (Inl e, cache) \<Rightarrow> (Inl e, s\<lparr>templates_cache := cache\<rparr>)
                   | (Inr (structure, found_in_cache), cache) \<Rightarrow>
                       let s1 = s\<lparr>templates_cache := cache,
                                  templates := (templates s)
                                    [column_idx := Some (ConstantExpressionTemplate_ctor env structure)]\<rparr>;
                           s2 = (if found_in_cache
                                 then s1\<lparr>attempts_to_deduce_template_cached :=
                                          incrementAt (attempts_to_deduce_template_cached s1) column_idx\<rparr>
                                 else s1\<lparr>attempts_to_deduce_template :=
                                          incrementAt (attempts_to_deduce_template s1) column_idx\<rparr>);
                           s3 = s2\<lparr>buf := rollbackToCheckpoint (buf s2)\<rparr>
                       in case template_parseExpression env
                                 (ConstantExpressionTemplate_ctor env structure) (buf s3) toks ti_start of
                            (Inl e, tpl, p, _) \<Rightarrow>
                              (Inl e,
                               s3\<lparr>templates := (templates s3)[column_idx := Some tpl],
                                  buf := (buf s3)\<lparr>position := p\<rparr>\<rparr>)
                          | (Inr matched, tpl, p, _) \<Rightarrow>
                              (Inr matched,
                               s3\<lparr>templates := (templates s3)[column_idx := Some tpl],
                                  buf := (buf s3)\<lparr>position := p\<rparr>\<rparr>))
            in case tried of
                 (Inr True, s4) \<Rightarrow>
                   (Inr True,
                    s4\<lparr>rows_parsed_using_template :=
                         incrementAt (rows_parsed_using_template s4) column_idx,
                       parser_type_for_column :=
                         (parser_type_for_column s4)[column_idx := BatchTemplate]\<rparr>)
               | (outcome, s4) \<Rightarrow>
                   if \<not> interpret_expressions (format_settings env) then
                     (case outcome of
                        Inl e \<Rightarrow> (Inl e, s4)
                      | Inr _ \<Rightarrow>
                          (Inl (Exception SYNTAX_ERROR None),
                           s4\<lparr>buf := rollbackToCheckpoint (buf s4)\<rparr>))
                   else (Inr False, s4\<lparr>templates := (templates s4)[column_idx := None]\<rparr>))"

text \<open>
  Fourth (lines 543-573): evaluate the expression, convert the value to the column's type,
  and insert it, or the type's default for a null that the type does not admit. The
  iterator \<open>ti\<close> is the one after the delimiter, where the buffer is positioned.
\<close>

definition parseExpression_evaluate ::
  "('ast, 'st, 'tpl, 'cache) Env \<Rightarrow> ('tpl, 'cache) ValuesBlockInputFormat \<Rightarrow> IColumn \<Rightarrow> nat
     \<Rightarrow> Tokens \<Rightarrow> nat \<Rightarrow> 'ast \<Rightarrow> (bool, 'tpl, 'cache) result" where
  "parseExpression_evaluate env s0 column column_idx toks ti ast =
     (if \<not> interpret_expressions (format_settings env)
      then (Inl (Exception SUPPORT_IS_DISABLED None), s0, column)
      else
        let type = types env ! column_idx;
            s = s0\<lparr>buf := (buf s0)\<lparr>position := tok_begin (tokenAt toks ti)\<rparr>\<rparr>
        in case evaluateConstantExpression env ast of
             Inl e \<Rightarrow> (Inl e, s, column)
           | Inr (value_raw, value_type) \<Rightarrow>
               (case (if null_as_default (format_settings env)
                      then tryToReplaceNullFieldsInComplexTypesWithDefaultValues
                             (getDefault env) value_raw type
                      else Inr value_raw) of
                  Inl e \<Rightarrow> (Inl e, s, column)
                | Inr expression_value \<Rightarrow>
                    (case convertFieldToType env expression_value type value_type of
                       Inl e \<Rightarrow> (Inl e, s, column)
                     | Inr val \<Rightarrow>
                         if isNull val \<and> \<not> isNullable type \<and> \<not> isLowCardinalityNullable type
                         then
                           if null_as_default (format_settings env)
                           then (Inr False, s, column @ [getDefault env type])
                           else (Inl (Exception TYPE_MISMATCH None),
                                 s\<lparr>buf := rollbackToCheckpoint (buf s)\<rparr>, column)
                         else (Inr True, s, column @ [val]))))"

definition parseExpression ::
  "('ast, 'st, 'tpl, 'cache) Env \<Rightarrow> ('tpl, 'cache) ValuesBlockInputFormat \<Rightarrow> IColumn \<Rightarrow> nat
     \<Rightarrow> (bool, 'tpl, 'cache) result" where
  "parseExpression env s column column_idx =
     (case parseExpression_parse env s column_idx of
        (Inl e, s1) \<Rightarrow> (Inl e, s1, column)
      | (Inr (toks, ti_start, ti, ast), s1) \<Rightarrow>
          (case parseExpression_probe env s1 column column_idx ast of
             (Inl e, s2, column2) \<Rightarrow> (Inl e, s2, column2)
           | (Inr True, s2, column2) \<Rightarrow> (Inr True, s2, column2)
           | (Inr False, s2, column2) \<Rightarrow>
               (case parseExpression_deduce env
                       (s2\<lparr>parser_type_for_column :=
                             (parser_type_for_column s2)[column_idx := SingleExpressionEvaluation]\<rparr>)
                       column_idx toks ti_start ti ast of
                  (Inl e, s3) \<Rightarrow> (Inl e, s3, column2)
                | (Inr True, s3) \<Rightarrow> (Inr True, s3, column2)
                | (Inr False, s3) \<Rightarrow>
                    parseExpression_evaluate env s3 column2 column_idx toks ti ast)))"

section \<open>The streaming path\<close>

text \<open>
  \<^verbatim>\<open>tryReadValue\<close> (lines 291-332). \<^verbatim>\<open>tryReadValue_try\<close> is the \<^verbatim>\<open>try\<close> block; its last
  component is \<^verbatim>\<open>rollback_on_exception\<close> as it stands when the block is left.
  \<^verbatim>\<open>tryReadValue_deserialize\<close> is the choice of the literal deserializer (lines 304-309).
  \<^verbatim>\<open>column.insertDefault()\<close> appends the default of the column's type.
\<close>

definition tryReadValue_deserialize ::
  "('ast, 'st, 'tpl, 'cache) Env \<Rightarrow> nat \<Rightarrow> IColumn \<Rightarrow> PeekableReadBuffer
     \<Rightarrow> (Exception + bool) \<times> IColumn \<times> nat" where
  "tryReadValue_deserialize env column_idx column b =
     (if null_as_default (format_settings env)
         \<and> \<not> isNullableOrLowCardinalityNullable (types env ! column_idx)
      then deserializeNullAsDefaultOrNestedTextQuoted env column_idx column b
      else (case deserializeTextQuoted env column_idx column b of
              (Inl e, column1, p1) \<Rightarrow> (Inl e, column1, p1)
            | (Inr _, column1, p1) \<Rightarrow> (Inr True, column1, p1)))"

definition tryReadValue_try ::
  "('ast, 'st, 'tpl, 'cache) Env \<Rightarrow> ('tpl, 'cache) ValuesBlockInputFormat \<Rightarrow> IColumn \<Rightarrow> nat
     \<Rightarrow> (Exception + bool) \<times> ('tpl, 'cache) ValuesBlockInputFormat \<times> IColumn \<times> bool" where
  "tryReadValue_try env s column column_idx =
     (case checkStringByFirstCharacterAndAssertTheRestCaseInsensitive ''DEFAULT'' (buf s) of
        (Inl e, b) \<Rightarrow> (Inl e, s\<lparr>buf := b\<rparr>, column, False)
      | (Inr default_value, b) \<Rightarrow>
          (case (if default_value
                 then (Inr False, column @ [getDefault env (types env ! column_idx)], position b)
                 else tryReadValue_deserialize env column_idx column b) of
             (Inl e, column1, p1) \<Rightarrow> (Inl e, s\<lparr>buf := b\<lparr>position := p1\<rparr>\<rparr>, column1, False)
           | (Inr read, column1, p1) \<Rightarrow>
               (case assertDelimiterAfterValue env
                       (skipWhitespaceIfAny (isWhitespaceASCII env) (b\<lparr>position := p1\<rparr>))
                       column_idx of
                  (Inl e, b2) \<Rightarrow> (Inl e, s\<lparr>buf := b2\<rparr>, column1, True)
                | (Inr _, b2) \<Rightarrow> (Inr read, s\<lparr>buf := b2\<rparr>, column1, True))))"

definition tryReadValue ::
  "('ast, 'st, 'tpl, 'cache) Env \<Rightarrow> ('tpl, 'cache) ValuesBlockInputFormat \<Rightarrow> IColumn \<Rightarrow> nat
     \<Rightarrow> (bool, 'tpl, 'cache) result" where
  "tryReadValue env s column column_idx =
     (case tryReadValue_try env s column column_idx of
        (Inr read, s1, column1, _) \<Rightarrow> (Inr read, s1, column1)
      | (Inl e, s1, column1, rollback_on_exception) \<Rightarrow>
          if \<not> isParseError env (code e) \<or> code e = ARGUMENT_OUT_OF_BOUND
          then (Inl e, s1, column1)
          else parseExpression env
                 (s1\<lparr>buf := rollbackToCheckpoint (buf s1)\<rparr>)
                 (if rollback_on_exception then popBack 1 column1 else column1)
                 column_idx)"

section \<open>The template path\<close>

text \<open>
  \<^verbatim>\<open>tryParseExpressionUsingTemplate\<close> (lines 257-289). The source dereferences
  \<^verbatim>\<open>templates[column_idx]\<close> without a test; a column is in \<^verbatim>\<open>BatchTemplate\<close> only with a
  template, and the model answers \<^verbatim>\<open>LOGICAL_ERROR\<close> where there is none.
\<close>

definition tryParseExpressionUsingTemplate ::
  "('ast, 'st, 'tpl, 'cache) Env \<Rightarrow> ('tpl, 'cache) ValuesBlockInputFormat \<Rightarrow> IColumn \<Rightarrow> nat
     \<Rightarrow> (bool, 'tpl, 'cache) result" where
  "tryParseExpressionUsingTemplate env s column column_idx =
     (case readUntilTheEndOfRowAndReTokenize env s of
        (Inl e, s1) \<Rightarrow> (Inl e, s1, column)
      | (Inr (toks, start), s1) \<Rightarrow>
          (case templates s1 ! column_idx of
             None \<Rightarrow> (Inl (Exception LOGICAL_ERROR None), s1, column)
           | Some tpl \<Rightarrow>
               (case template_parseExpression env tpl (buf s1) toks start of
                  (Inl e, tpl1, p1, ti1) \<Rightarrow>
                    (Inl e,
                     s1\<lparr>templates := (templates s1)[column_idx := Some tpl1],
                        buf := (buf s1)\<lparr>position := p1\<rparr>,
                        token_iterator := Some ti1\<rparr>,
                     column)
                | (Inr True, tpl1, p1, ti1) \<Rightarrow>
                    (Inr True,
                     s1\<lparr>templates := (templates s1)[column_idx := Some tpl1],
                        buf := (buf s1)\<lparr>position := p1\<rparr>,
                        token_iterator := Some ti1,
                        rows_parsed_using_template :=
                          incrementAt (rows_parsed_using_template s1) column_idx\<rparr>,
                     column)
                | (Inr False, tpl1, p1, ti1) \<Rightarrow>
                    (case template_evaluateAll env tpl1 (block_missing_values s1) column_idx
                            (types env ! column_idx)
                            (if column = [] then 0 else length column) of
                       (Inl e, tpl2, missing) \<Rightarrow>
                         (Inl e,
                          s1\<lparr>templates := (templates s1)[column_idx := Some tpl2],
                             buf := (buf s1)\<lparr>position := p1\<rparr>,
                             token_iterator := Some ti1, block_missing_values := missing\<rparr>,
                          column)
                     | (Inr evaluated, tpl2, missing) \<Rightarrow>
                         parseExpression env
                           (s1\<lparr>templates := (templates s1)[column_idx := None],
                              buf := rollbackToCheckpoint (buf s1),
                              token_iterator := Some start,
                              block_missing_values := missing\<rparr>)
                           (if column = [] then evaluated else column @ evaluated)
                           column_idx))))"

section \<open>Rows and batches\<close>

text \<open>
  \<^verbatim>\<open>readRow\<close> (lines 222-255). \<^verbatim>\<open>readRow_column\<close> is the body of its loop for one column: the
  whitespace is skipped, the checkpoint is taken, the column's parser runs, and the bit of
  the cell is set in the mask when the parser returned false.
\<close>

definition readRow_column ::
  "('ast, 'st, 'tpl, 'cache) Env \<Rightarrow> ('tpl, 'cache) ValuesBlockInputFormat \<Rightarrow> IColumn list
     \<Rightarrow> nat \<Rightarrow> nat
     \<Rightarrow> (Exception + unit) \<times> ('tpl, 'cache) ValuesBlockInputFormat \<times> IColumn list" where
  "readRow_column env s0 columns row_num column_idx =
     (let s = s0\<lparr>buf := setCheckpoint (skipWhitespaceIfAny (isWhitespaceASCII env) (buf s0))\<rparr>
      in case (if parser_type_for_column s ! column_idx = Streaming
               then tryReadValue env s (columns ! column_idx) column_idx
               else if parser_type_for_column s ! column_idx = BatchTemplate
               then tryParseExpressionUsingTemplate env s (columns ! column_idx) column_idx
               else parseExpression env s (columns ! column_idx) column_idx) of
           (Inl e, s1, column) \<Rightarrow> (Inl e, s1, columns[column_idx := column])
         | (Inr read, s1, column) \<Rightarrow>
             (Inr (),
              if \<not> read
              then s1\<lparr>block_missing_values := insert (column_idx, row_num) (block_missing_values s1)\<rparr>
              else s1,
              columns[column_idx := column]))"

fun readRow_columns ::
  "('ast, 'st, 'tpl, 'cache) Env \<Rightarrow> nat \<Rightarrow> nat list
     \<Rightarrow> ('tpl, 'cache) ValuesBlockInputFormat \<Rightarrow> IColumn list
     \<Rightarrow> (Exception + unit) \<times> ('tpl, 'cache) ValuesBlockInputFormat \<times> IColumn list" where
  "readRow_columns env row_num [] s columns = (Inr (), s, columns)"
| "readRow_columns env row_num (column_idx # rest) s columns =
     (case readRow_column env s columns row_num column_idx of
        (Inl e, s1, columns1) \<Rightarrow> (Inl e, s1, columns1)
      | (Inr _, s1, columns1) \<Rightarrow> readRow_columns env row_num rest s1 columns1)"

definition readRow ::
  "('ast, 'st, 'tpl, 'cache) Env \<Rightarrow> ('tpl, 'cache) ValuesBlockInputFormat \<Rightarrow> IColumn list
     \<Rightarrow> nat
     \<Rightarrow> (Exception + unit) \<times> ('tpl, 'cache) ValuesBlockInputFormat \<times> IColumn list" where
  "readRow env s0 columns row_num =
     (let s = s0\<lparr>tokens := None, token_iterator := None\<rparr>
      in case assertChar CHR ''('' (buf s) of
           (Inl e, b) \<Rightarrow> (Inl e, s\<lparr>buf := b\<rparr>, columns)
         | (Inr _, b) \<Rightarrow>
             (case readRow_columns env row_num [0..<num_columns env] (s\<lparr>buf := b\<rparr>) columns of
                (Inl e, s1, columns1) \<Rightarrow> (Inl e, s1, columns1)
              | (Inr _, s1, columns1) \<Rightarrow>
                  let b1 = skipWhitespaceIfAny (isWhitespaceASCII env) (buf s1);
                      b2 = (if \<not> eof b1 \<and> peek b1 = CHR '','' then b1\<lparr>position := position b1 + 1\<rparr>
                            else b1)
                  in (Inr (), s1\<lparr>buf := b2, total_rows := total_rows s1 + 1\<rparr>, columns1)))"

text \<open>
  \<^verbatim>\<open>readSuffix\<close> (lines 629-642).

  Modelled from the spec: \<^verbatim>\<open>PeekableReadBuffer::hasUnreadData\<close> (the class is not in src). The
  spec has "a statement terminator followed by any non-whitespace is an error": with the
  whole input held by the buffer, there is unread data exactly when a byte is left.
\<close>

definition hasUnreadData :: "PeekableReadBuffer \<Rightarrow> bool" where
  "hasUnreadData b = (position b < length (bytes b))"

definition readSuffix ::
  "('ast, 'st, 'tpl, 'cache) Env \<Rightarrow> PeekableReadBuffer
     \<Rightarrow> (Exception + unit) \<times> PeekableReadBuffer" where
  "readSuffix env b =
     (if \<not> eof b \<and> peek b = CHR '';'' then
        (let b1 = skipWhitespaceIfAny (isWhitespaceASCII env) (b\<lparr>position := position b + 1\<rparr>)
         in if hasUnreadData b1 then (Inl (Exception CANNOT_READ_ALL_DATA None), b1)
            else (Inr (), b1))
      else if hasUnreadData b \<or> \<not> eof b then (Inl (Exception LOGICAL_ERROR None), b)
      else (Inr (), b))"

text \<open>
  \<^verbatim>\<open>read\<close> (lines 109-181). \<^verbatim>\<open>read_rows\<close> is the loop over the rows of the block, with the
  number of iterations left and \<^verbatim>\<open>rows_in_block\<close>; a parse error leaves it with the row
  ordinal added. \<^verbatim>\<open>read_evaluate\<close> is the loop that evaluates the rows the templates have
  accumulated. The result \<open>None\<close> is the empty chunk \<^verbatim>\<open>{}\<close> that signals the end.

  Modelled from the spec: \<^verbatim>\<open>getChunkForCount\<close> (not in src), "returning only a row count":
  a chunk without columns.
\<close>

datatype Chunk = Chunk (chunk_columns: "IColumn list") (num_rows: nat)

definition getChunkForCount :: "nat \<Rightarrow> Chunk" where
  "getChunkForCount rows = Chunk [] rows"

fun read_rows ::
  "('ast, 'st, 'tpl, 'cache) Env \<Rightarrow> nat \<Rightarrow> nat
     \<Rightarrow> ('tpl, 'cache) ValuesBlockInputFormat \<Rightarrow> IColumn list
     \<Rightarrow> (Exception + nat) \<times> ('tpl, 'cache) ValuesBlockInputFormat \<times> IColumn list" where
  "read_rows env 0 rows_in_block s columns = (Inr rows_in_block, s, columns)"
| "read_rows env (Suc left) rows_in_block s0 columns =
     (let b = skipWhitespaceIfAny (isWhitespaceASCII env) (buf s0);
          s = s0\<lparr>buf := b\<rparr>
      in if eof b \<or> peek b = CHR '';'' then (Inr rows_in_block, s, columns)
         else if need_only_count env then
           read_rows env left (rows_in_block + 1)
             (s\<lparr>buf := snd (skipToNextRow (isWhitespaceASCII env) b 1 0)\<rparr>) columns
         else
           (case readRow env s columns rows_in_block of
              (Inl e, s1, columns1) \<Rightarrow>
                (Inl (if isParseError env (code e)
                      then Exception (code e) (Some (total_rows s1)) else e),
                 s1, columns1)
            | (Inr _, s1, columns1) \<Rightarrow> read_rows env left (rows_in_block + 1) s1 columns1))"

fun read_evaluate ::
  "('ast, 'st, 'tpl, 'cache) Env \<Rightarrow> nat list
     \<Rightarrow> ('tpl, 'cache) ValuesBlockInputFormat \<Rightarrow> IColumn list
     \<Rightarrow> (Exception + unit) \<times> ('tpl, 'cache) ValuesBlockInputFormat \<times> IColumn list" where
  "read_evaluate env [] s columns = (Inr (), s, columns)"
| "read_evaluate env (i # rest) s columns =
     (case templates s ! i of
        None \<Rightarrow> read_evaluate env rest s columns
      | Some tpl \<Rightarrow>
          if template_rowsCount env tpl = 0 then read_evaluate env rest s columns
          else
            (case template_evaluateAll env tpl (block_missing_values s) i (types env ! i)
                    (if columns ! i = [] then 0 else length (columns ! i)) of
               (Inl e, tpl1, missing) \<Rightarrow>
                 (Inl e,
                  s\<lparr>templates := (templates s)[i := Some tpl1], block_missing_values := missing\<rparr>,
                  columns)
             | (Inr evaluated, tpl1, missing) \<Rightarrow>
                 read_evaluate env rest
                   (s\<lparr>templates := (templates s)[i := Some tpl1], block_missing_values := missing\<rparr>)
                   (columns[i := (if columns ! i = [] then evaluated
                                  else columns ! i @ evaluated)])))"

definition read ::
  "('ast, 'st, 'tpl, 'cache) Env \<Rightarrow> ('tpl, 'cache) ValuesBlockInputFormat
     \<Rightarrow> (Exception + Chunk option) \<times> ('tpl, 'cache) ValuesBlockInputFormat" where
  "read env s0 =
     (let s = (if total_rows s0 = 0
               then s0\<lparr>buf := (buf s0)\<lparr>position := skipBOMIfExists env (buf s0)\<rparr>\<rparr> else s0)
                \<lparr>block_missing_values := {}\<rparr>
      in case read_rows env (max_block_size env) 0 s (replicate (num_columns env) []) of
           (Inl e, s1, columns) \<Rightarrow> (Inl e, s1)
         | (Inr rows_in_block, s1, columns) \<Rightarrow>
             if need_only_count env then
               (if rows_in_block = 0 then
                  (case readSuffix env (buf s1) of
                     (Inl e, b) \<Rightarrow> (Inl e, s1\<lparr>buf := b\<rparr>)
                   | (Inr _, b) \<Rightarrow> (Inr None, s1\<lparr>buf := b\<rparr>))
                else (Inr (Some (getChunkForCount rows_in_block)),
                      s1\<lparr>total_rows := total_rows s1 + rows_in_block\<rparr>))
             else
               (case read_evaluate env [0..<length columns] s1 columns of
                  (Inl e, s2, columns2) \<Rightarrow> (Inl e, s2)
                | (Inr _, s2, columns2) \<Rightarrow>
                    if columns2 = [] \<or> hd columns2 = [] then
                      (case readSuffix env (buf s2) of
                         (Inl e, b) \<Rightarrow> (Inl e, s2\<lparr>buf := b\<rparr>)
                       | (Inr _, b) \<Rightarrow> (Inr None, s2\<lparr>buf := b\<rparr>))
                    else (Inr (Some (Chunk columns2 (length (hd columns2)))), s2)))"

section \<open>Resetting the parser\<close>

text \<open>
  \<^verbatim>\<open>resetParser\<close> (lines 644-661). \<^verbatim>\<open>resetParser_columns\<close> is the loop over the columns
  that runs when \<^verbatim>\<open>got_exception\<close> is set.
\<close>

fun resetParser_columns ::
  "nat list \<Rightarrow> ('tpl, 'cache) ValuesBlockInputFormat \<Rightarrow> ('tpl, 'cache) ValuesBlockInputFormat" where
  "resetParser_columns [] s = s"
| "resetParser_columns (i # rest) s =
     resetParser_columns rest
       (s\<lparr>templates := (templates s)[i := None],
          parser_type_for_column := (parser_type_for_column s)[i := Streaming]\<rparr>)"

definition resetParser ::
  "('ast, 'st, 'tpl, 'cache) Env \<Rightarrow> ('tpl, 'cache) ValuesBlockInputFormat
     \<Rightarrow> ('tpl, 'cache) ValuesBlockInputFormat" where
  "resetParser env s =
     (IInputFormat_resetParser env
        (if got_exception s then resetParser_columns [0..<num_columns env] s else s))
       \<lparr>total_rows := 0\<rparr>"

section \<open>An environment for the examples\<close>

text \<open>
  Small collaborators on which the theorems below are instantiated: a tokenizer that makes
  one token of a run of digits, of a run of letters and of any other byte; a parser whose
  expressions are a number, a name, or two of them around an operator; a deserializer of
  unsigned numbers; templates that record where the matched expressions begin. Two columns
  of type Int32.
\<close>

definition example_isWhitespaceASCII :: "char \<Rightarrow> bool" where
  "example_isWhitespaceASCII c = (c \<in> set [CHR '' '', CHR 0x09, CHR 0x0A, CHR 0x0B, CHR 0x0C, CHR 0x0D])"

definition example_isParseError :: "ErrorCode \<Rightarrow> bool" where
  "example_isParseError c =
     (c \<in> set [CANNOT_PARSE_INPUT_ASSERTION_FAILED, CANNOT_READ_ALL_DATA, ARGUMENT_OUT_OF_BOUND,
                OtherError 72])"

definition example_isDigit :: "char \<Rightarrow> bool" where
  "example_isDigit c = (c \<in> set ''0123456789'')"

definition example_isLetter :: "char \<Rightarrow> bool" where
  "example_isLetter c =
     (c \<in> set ''ABCDEFGHIJKLMNOPQRSTUVWXYZabcdefghijklmnopqrstuvwxyz'')"

fun example_lex :: "string \<Rightarrow> nat \<Rightarrow> TokenType option \<Rightarrow> Token list" where
  "example_lex [] p word = [\<lparr>tok_type = EndOfStream, tok_begin = p\<rparr>]"
| "example_lex (c # cs) p word =
     (if example_isWhitespaceASCII c then example_lex cs (p + 1) None
      else if c = CHR '','' then \<lparr>tok_type = Comma, tok_begin = p\<rparr> # example_lex cs (p + 1) None
      else if c = CHR '')''
        then \<lparr>tok_type = ClosingRoundBracket, tok_begin = p\<rparr> # example_lex cs (p + 1) None
      else if example_isDigit c then
        (if word = Some Literal then example_lex cs (p + 1) word
         else \<lparr>tok_type = Literal, tok_begin = p\<rparr> # example_lex cs (p + 1) (Some Literal))
      else if example_isLetter c then
        (if word = Some Identifier then example_lex cs (p + 1) word
         else \<lparr>tok_type = Identifier, tok_begin = p\<rparr> # example_lex cs (p + 1) (Some Identifier))
      else \<lparr>tok_type = Punctuation, tok_begin = p\<rparr> # example_lex cs (p + 1) None)"

definition example_Tokens_ctor :: "string \<Rightarrow> nat \<Rightarrow> nat \<Rightarrow> Tokens" where
  "example_Tokens_ctor data begin_pos end_pos =
     example_lex (take (end_pos - begin_pos) (drop begin_pos data)) begin_pos None"

datatype ExampleAST = ASTLiteral | ASTIdentifier | ASTFunction

definition example_atom :: "Tokens \<Rightarrow> nat \<Rightarrow> bool" where
  "example_atom toks i = (tok_type (tokenAt toks i) \<in> set [Literal, Identifier])"

definition example_parse :: "Tokens \<Rightarrow> nat \<Rightarrow> Exception + (nat \<times> ExampleAST) option" where
  "example_parse toks i =
     Inr (if example_atom toks i then
            (if tok_type (tokenAt toks (i + 1)) = Punctuation \<and> example_atom toks (i + 2)
             then Some (i + 3, ASTFunction)
             else Some (i + 1,
                        if tok_type (tokenAt toks i) = Literal then ASTLiteral else ASTIdentifier))
          else None)"

definition example_digit_value :: "char \<Rightarrow> int" where
  "example_digit_value c = int (length (takeWhile (\<lambda>d. d \<noteq> c) ''0123456789''))"

definition example_deserializeTextQuoted ::
  "nat \<Rightarrow> IColumn \<Rightarrow> PeekableReadBuffer \<Rightarrow> (Exception + unit) \<times> IColumn \<times> nat" where
  "example_deserializeTextQuoted column_idx column b =
     (let digits = takeWhile example_isDigit (drop (position b) (bytes b))
      in if digits = [] then (Inl (Exception (OtherError 72) None), column, position b)
         else (Inr (),
               column @ [Int64 (foldl (\<lambda>n c. 10 * n + example_digit_value c) 0 digits)],
               position b + length digits))"

definition example_deserializeNullAsDefaultOrNestedTextQuoted ::
  "nat \<Rightarrow> IColumn \<Rightarrow> PeekableReadBuffer \<Rightarrow> (Exception + bool) \<times> IColumn \<times> nat" where
  "example_deserializeNullAsDefaultOrNestedTextQuoted column_idx column b =
     (if take 4 (drop (position b) (bytes b)) = ''NULL''
      then (Inr False, column @ [Int64 0], position b + 4)
      else case example_deserializeTextQuoted column_idx column b of
             (Inl e, column1, p1) \<Rightarrow> (Inl e, column1, p1)
           | (Inr _, column1, p1) \<Rightarrow> (Inr True, column1, p1))"

record ExampleTemplate =
  shape :: ExampleAST
  rows :: "nat list"

definition example_getFromCacheOrConstruct ::
  "ExampleAST list \<Rightarrow> DataType \<Rightarrow> bool \<Rightarrow> Tokens \<Rightarrow> nat \<Rightarrow> nat \<Rightarrow> ExampleAST \<Rightarrow> string
     \<Rightarrow> (Exception + ExampleAST \<times> bool) \<times> ExampleAST list" where
  "example_getFromCacheOrConstruct cache result_type null_as_default_flag toks ti_start ti ast
       delimiter =
     (if ast = ASTIdentifier then (Inl (Exception (OtherError 47) None), cache)
      else if ast \<in> set cache then (Inr (ast, True), cache)
      else (Inr (ast, False), ast # cache))"

definition example_template_parseExpression ::
  "ExampleTemplate \<Rightarrow> PeekableReadBuffer \<Rightarrow> Tokens \<Rightarrow> nat
     \<Rightarrow> (Exception + bool) \<times> ExampleTemplate \<times> nat \<times> nat" where
  "example_template_parseExpression tpl b toks ti =
     (case example_parse toks ti of
        Inr (Some (ti', ast)) \<Rightarrow>
          if ast = shape tpl
             \<and> tok_type (tokenAt toks ti') \<in> set [Comma, ClosingRoundBracket]
          then (Inr True, tpl\<lparr>rows := rows tpl @ [tok_begin (tokenAt toks ti)]\<rparr>,
                tok_begin (tokenAt toks ti') + 1, ti' + 1)
          else (Inr False, tpl, position b, ti)
      | _ \<Rightarrow> (Inr False, tpl, position b, ti))"

definition example_template_evaluateAll ::
  "ExampleTemplate \<Rightarrow> (nat \<times> nat) set \<Rightarrow> nat \<Rightarrow> DataType \<Rightarrow> nat
     \<Rightarrow> (Exception + IColumn) \<times> ExampleTemplate \<times> (nat \<times> nat) set" where
  "example_template_evaluateAll tpl missing column_idx expected_type offset =
     (Inr (map (\<lambda>p. Int64 (int p)) (rows tpl)), tpl\<lparr>rows := []\<rparr>, missing)"

definition example_evaluateConstantExpression :: "ExampleAST \<Rightarrow> Exception + Field \<times> DataType" where
  "example_evaluateConstantExpression ast =
     (case ast of
        ASTLiteral \<Rightarrow> Inr (Int64 1, DataTypeInt32)
      | ASTIdentifier \<Rightarrow> Inl (Exception (OtherError 47) None)
      | ASTFunction \<Rightarrow> Inr (Int64 2, DataTypeInt32))"

definition example_getDefault :: "DataType \<Rightarrow> Field" where
  "example_getDefault t = (case t of DataTypeString \<Rightarrow> String [] | _ \<Rightarrow> Int64 0)"

definition example_env :: "(ExampleAST, ExampleAST, ExampleTemplate, ExampleAST list) Env" where
  "example_env =
     \<lparr>format_settings =
        \<lparr>null_as_default = False, interpret_expressions = True,
         deduce_templates_of_expressions = True\<rparr>,
      num_columns = 2,
      types = [DataTypeInt32, DataTypeInt32],
      max_block_size = 3,
      need_only_count = False,
      isWhitespaceASCII = example_isWhitespaceASCII,
      isParseError = example_isParseError,
      skipBOMIfExists = position,
      IInputFormat_resetParser = (\<lambda>s. s\<lparr>got_exception := False\<rparr>),
      Tokens_ctor = example_Tokens_ctor,
      parser_parse = example_parse,
      isASTLiteral = (\<lambda>ast. ast = ASTLiteral),
      deserializeTextQuoted = example_deserializeTextQuoted,
      deserializeNullAsDefaultOrNestedTextQuoted =
        example_deserializeNullAsDefaultOrNestedTextQuoted,
      getFromCacheOrConstruct = example_getFromCacheOrConstruct,
      ConstantExpressionTemplate_ctor = (\<lambda>st. \<lparr>shape = st, rows = []\<rparr>),
      template_parseExpression = example_template_parseExpression,
      template_evaluateAll = example_template_evaluateAll,
      template_rowsCount = (\<lambda>tpl. length (rows tpl)),
      evaluateConstantExpression = example_evaluateConstantExpression,
      convertFieldToType = (\<lambda>v to_type from_type. Inr v),
      getDefault = example_getDefault\<rparr>"

text \<open>
  The same environment with an evaluator that answers the null value for every expression,
  and with null-as-default as given.
\<close>

definition example_null_env ::
  "bool \<Rightarrow> (ExampleAST, ExampleAST, ExampleTemplate, ExampleAST list) Env" where
  "example_null_env flag =
     example_env
       \<lparr>format_settings := (format_settings example_env)\<lparr>null_as_default := flag\<rparr>,
         evaluateConstantExpression := (\<lambda>ast. Inr (Null, DataTypeNullable DataTypeInt32))\<rparr>"

definition example_state ::
  "string \<Rightarrow> (ExampleTemplate, ExampleAST list) ValuesBlockInputFormat" where
  "example_state input =
     ValuesBlockInputFormat_ctor \<lparr>bytes = input, position = 0, checkpoint = 0\<rparr> 2 []"

section \<open>Properties of the row-boundary scan\<close>

lemma find_first_symbols_skipped:
  "i < find_first_symbols syms cs p - p \<Longrightarrow> cs ! i \<notin> set syms"
proof (induction cs arbitrary: p i)
  case Nil
  then show ?case by simp
next
  case (Cons c cs)
  show ?case
  proof (cases "c \<in> set syms")
    case True
    with Cons.prems show ?thesis by simp
  next
    case False
    show ?thesis
    proof (cases i)
      case 0
      with False show ?thesis by simp
    next
      case (Suc j)
      with Cons.prems False have "j < find_first_symbols syms cs (Suc p) - Suc p"
        by simp
      from Cons.IH [OF this] Suc show ?thesis by simp
    qed
  qed
qed

lemma skipToNextRow_loop_stops:
  "\<not> skipToNextRow_cond m c (skipToNextRow_loop m c st)"
proof (induction m c st rule: skipToNextRow_loop.induct)
  case (1 m c st)
  show ?case
  proof (cases "skipToNextRow_cond m c st")
    case True
    with "1.IH" show ?thesis
      by (subst skipToNextRow_loop.simps) simp
  next
    case False
    then show ?thesis
      by (subst skipToNextRow_loop.simps) simp
  qed
qed

lemma skipToNextRow_loop_final:
  "skipToNextRow_loop m c st = (b', balance', quoted')
     \<Longrightarrow> eof b' \<or> (balance' = 0 \<and> m \<le> position b' - c)"
  using skipToNextRow_loop_stops [of m c st]
  by (auto simp: skipToNextRow_cond_def)

lemma skipToNextRow_step_at:
  assumes "p = find_first_symbols [CHR 0x5C, CHR 0x27, CHR '')'', CHR ''(''] 
                 (drop (position b) (bytes b)) (position b)"
    and "p < length (bytes b)"
  shows "skipToNextRow_step (b, balance, quoted) =
      (if bytes b ! p = CHR 0x5C
         then (b\<lparr>position := min (p + 2) (length (bytes b))\<rparr>, balance, quoted)
       else if bytes b ! p = CHR 0x27
         then (b\<lparr>position := p + 1\<rparr>, balance, \<not> quoted)
       else if bytes b ! p = CHR '')''
         then (b\<lparr>position := p + 1\<rparr>, if quoted then balance else balance - 1, quoted)
       else (b\<lparr>position := p + 1\<rparr>, if quoted then balance else balance + 1, quoted))"
proof -
  have bounds: "position b \<le> p"
    using find_first_symbols_bounds [of "position b" _ "drop (position b) (bytes b)"] assms
    by simp
  from assms bounds
  have "p < position b + length (drop (position b) (bytes b))"
    by simp
  from find_first_symbols_hit [OF this [unfolded assms(1)]] bounds assms
  have hit: "bytes b ! p \<in> {CHR 0x5C, CHR 0x27, CHR '')'', CHR ''(''}"
    by simp
  from hit assms show ?thesis
    by (auto simp: skipToNextRow_step_def Let_def eof_def peek_def min_def)
qed

lemma skipToNextRow_false_iff:
  "fst (skipToNextRow ws b0 m balance)
     \<longleftrightarrow> \<not> (eof (skipWhitespaceIfAny ws b0) \<or> peek (skipWhitespaceIfAny ws b0) = CHR '';'')"
  by (simp add: skipToNextRow_def Let_def)

lemma skipToNextRow_false_buf:
  "eof (skipWhitespaceIfAny ws b0) \<or> peek (skipWhitespaceIfAny ws b0) = CHR '';''
    \<Longrightarrow> snd (skipToNextRow ws b0 m balance) = skipWhitespaceIfAny ws b0"
  by (simp add: skipToNextRow_def Let_def)

text \<open>
  C8, as the claim states it, does not hold. The claim lets the scan stop once the balance
  is back at the caller's starting value, or once the minimum number of bytes is consumed
  inside an unbalanced region. The loop of the source runs while the balance is not zero
  or fewer than \<^verbatim>\<open>min_chunk_bytes\<close> bytes are consumed. Called as
  \<^verbatim>\<open>readUntilTheEndOfRowAndReTokenize\<close> calls it (minimum 0, starting balance 1) on the
  input \<^verbatim>\<open>(x))z\<close>, the scan is at position 3 with the balance back at 1 and goes on to
  position 4, where the balance is 0. Called as \<^verbatim>\<open>read\<close> calls it (minimum 1, starting
  balance 0) on \<^verbatim>\<open>((a)bbbb)z\<close>, it is at position 4 with 4 bytes consumed and balance 1,
  and goes on to position 9.
\<close>

theorem C8_stop_condition_counterexample:
  "skipToNextRow_step (skipToNextRow_step
       (\<lparr>bytes = ''(x))z'', position = 0, checkpoint = 0\<rparr>, 1, False))
     = (\<lparr>bytes = ''(x))z'', position = 3, checkpoint = 0\<rparr>, 1, False)
   \<and> skipToNextRow_cond 0 0 (\<lparr>bytes = ''(x))z'', position = 3, checkpoint = 0\<rparr>, 1, False)
   \<and> skipToNextRow_loop 0 0 (\<lparr>bytes = ''(x))z'', position = 0, checkpoint = 0\<rparr>, 1, False)
     = (\<lparr>bytes = ''(x))z'', position = 4, checkpoint = 0\<rparr>, 0, False)
   \<and> skipToNextRow_step (skipToNextRow_step (skipToNextRow_step
       (\<lparr>bytes = ''((a)bbbb)z'', position = 0, checkpoint = 0\<rparr>, 0, False)))
     = (\<lparr>bytes = ''((a)bbbb)z'', position = 4, checkpoint = 0\<rparr>, 1, False)
   \<and> skipToNextRow_cond 1 0 (\<lparr>bytes = ''((a)bbbb)z'', position = 4, checkpoint = 0\<rparr>, 1, False)
   \<and> skipToNextRow_loop 1 0 (\<lparr>bytes = ''((a)bbbb)z'', position = 0, checkpoint = 0\<rparr>, 0, False)
     = (\<lparr>bytes = ''((a)bbbb)z'', position = 9, checkpoint = 0\<rparr>, 0, False)"
  by code_simp

lemma skipToNextRow_loop_first_stop:
  "\<exists>n. skipToNextRow_loop m c st = (skipToNextRow_step ^^ n) st
       \<and> \<not> skipToNextRow_cond m c ((skipToNextRow_step ^^ n) st)
       \<and> (\<forall>k < n. skipToNextRow_cond m c ((skipToNextRow_step ^^ k) st))"
proof (induction m c st rule: skipToNextRow_loop.induct)
  case (1 m c st)
  show ?case
  proof (cases "skipToNextRow_cond m c st")
    case False
    then have "skipToNextRow_loop m c st = (skipToNextRow_step ^^ 0) st
       \<and> \<not> skipToNextRow_cond m c ((skipToNextRow_step ^^ 0) st)
       \<and> (\<forall>k < 0. skipToNextRow_cond m c ((skipToNextRow_step ^^ k) st))"
      by (subst skipToNextRow_loop.simps) simp
    then show ?thesis
      by blast
  next
    case True
    from "1.IH" [OF True] obtain n where
      n: "skipToNextRow_loop m c (skipToNextRow_step st)
            = (skipToNextRow_step ^^ n) (skipToNextRow_step st)"
        "\<not> skipToNextRow_cond m c ((skipToNextRow_step ^^ n) (skipToNextRow_step st))"
        "\<forall>k < n. skipToNextRow_cond m c ((skipToNextRow_step ^^ k) (skipToNextRow_step st))"
      by blast
    have l: "skipToNextRow_loop m c st = skipToNextRow_loop m c (skipToNextRow_step st)"
      using True by (subst skipToNextRow_loop.simps) simp
    have all: "skipToNextRow_cond m c ((skipToNextRow_step ^^ k) st)" if "k < Suc n" for k
    proof (cases k)
      case 0
      with True show ?thesis by simp
    next
      case (Suc j)
      with that n(3) have "skipToNextRow_cond m c ((skipToNextRow_step ^^ j) (skipToNextRow_step st))"
        by simp
      with Suc show ?thesis
        by (simp add: funpow_swap1)
    qed
    from l n(1,2) all
    have "skipToNextRow_loop m c st = (skipToNextRow_step ^^ Suc n) st
       \<and> \<not> skipToNextRow_cond m c ((skipToNextRow_step ^^ Suc n) st)
       \<and> (\<forall>k < Suc n. skipToNextRow_cond m c ((skipToNextRow_step ^^ k) st))"
      by (simp add: funpow_swap1)
    then show ?thesis
      by blast
  qed
qed

lemma skipToNextRow_true:
  "\<not> (eof (skipWhitespaceIfAny ws b0) \<or> peek (skipWhitespaceIfAny ws b0) = CHR '';'')
     \<Longrightarrow> skipToNextRow ws b0 m balance
       = (True,
          if \<not> eof (fst (skipToNextRow_loop m (position (skipWhitespaceIfAny ws b0))
                           (skipWhitespaceIfAny ws b0, balance, False)))
             \<and> peek (fst (skipToNextRow_loop m (position (skipWhitespaceIfAny ws b0))
                           (skipWhitespaceIfAny ws b0, balance, False))) = CHR '',''
          then (fst (skipToNextRow_loop m (position (skipWhitespaceIfAny ws b0))
                           (skipWhitespaceIfAny ws b0, balance, False)))
                 \<lparr>position :=
                    position (fst (skipToNextRow_loop m (position (skipWhitespaceIfAny ws b0))
                           (skipWhitespaceIfAny ws b0, balance, False))) + 1\<rparr>
          else fst (skipToNextRow_loop m (position (skipWhitespaceIfAny ws b0))
                           (skipWhitespaceIfAny ws b0, balance, False)))"
  by (simp add: skipToNextRow_def Let_def del: skipToNextRow_loop.simps)

lemma skipToNextRow_scan_parts:
  "(fst (skipToNextRow ws b0 m balance)
      \<longleftrightarrow> \<not> (eof (skipWhitespaceIfAny ws b0) \<or> peek (skipWhitespaceIfAny ws b0) = CHR '';''))
   \<and> (eof (skipWhitespaceIfAny ws b0) \<or> peek (skipWhitespaceIfAny ws b0) = CHR '';''
        \<longrightarrow> snd (skipToNextRow ws b0 m balance) = skipWhitespaceIfAny ws b0)
   \<and> (skipToNextRow_loop m c st = (b', balance', quoted')
        \<longrightarrow> eof b' \<or> (balance' = 0 \<and> m \<le> position b' - c))
   \<and> (skipToNextRow_cond m c st
        \<longrightarrow> skipToNextRow_loop m c st = skipToNextRow_loop m c (skipToNextRow_step st))
   \<and> (p = find_first_symbols [CHR 0x5C, CHR 0x27, CHR '')'', CHR ''('']
              (drop (position b) (bytes b)) (position b)
        \<longrightarrow> position b \<le> p
          \<and> (\<forall>i. position b \<le> i \<and> i < p
                \<longrightarrow> bytes b ! i \<notin> {CHR 0x5C, CHR 0x27, CHR '')'', CHR ''(''})
          \<and> (p < length (bytes b) \<longrightarrow>
               skipToNextRow_step (b, bal, quoted) =
                 (if bytes b ! p = CHR 0x5C
                    then (b\<lparr>position := min (p + 2) (length (bytes b))\<rparr>, bal, quoted)
                  else if bytes b ! p = CHR 0x27
                    then (b\<lparr>position := p + 1\<rparr>, bal, \<not> quoted)
                  else if bytes b ! p = CHR '')''
                    then (b\<lparr>position := p + 1\<rparr>, if quoted then bal else bal - 1, quoted)
                  else (b\<lparr>position := p + 1\<rparr>, if quoted then bal else bal + 1, quoted))))"
proof -
  have skipped: "bytes b ! i \<notin> {CHR 0x5C, CHR 0x27, CHR '')'', CHR ''(''}"
    if "position b \<le> i"
      and "i < find_first_symbols [CHR 0x5C, CHR 0x27, CHR '')'', CHR ''('']
                 (drop (position b) (bytes b)) (position b)"
    for i
  proof -
    let ?cs = "drop (position b) (bytes b)"
    have le: "find_first_symbols [CHR 0x5C, CHR 0x27, CHR '')'', CHR ''(''] ?cs (position b)
                \<le> position b + length ?cs"
      using find_first_symbols_bounds [of "position b" _ ?cs] by simp
    from that have "i - position b
        < find_first_symbols [CHR 0x5C, CHR 0x27, CHR '')'', CHR ''(''] ?cs (position b)
            - position b"
      by simp
    from find_first_symbols_skipped [OF this] that le show ?thesis
      by simp
  qed
  show ?thesis
    using skipToNextRow_false_iff [of ws b0 m balance]
      skipToNextRow_false_buf [of ws b0 m balance]
      skipToNextRow_loop_final [of m c st b' balance' quoted']
      skipToNextRow_loop.simps [of m c st]
      find_first_symbols_bounds [of "position b"
        "[CHR 0x5C, CHR 0x27, CHR '')'', CHR ''('']" "drop (position b) (bytes b)"]
      skipToNextRow_step_at [of p b bal quoted]
      skipped
    by (intro conjI impI allI) (simp_all del: skipToNextRow_loop.simps)
qed

text \<open>
  C8, amended. \<^verbatim>\<open>skipToNextRow\<close> returns false exactly when, after the whitespace, the input
  is exhausted or at a semicolon, and then it has consumed the whitespace only. Otherwise
  it returns true, and its buffer is where the loop ends, after one more byte when that
  byte is a comma; the loop starts after the whitespace, at the caller's balance and
  unquoted, and counts the bytes from there. The loop ends at the first iteration after
  which the condition fails, that is at the end of the input or with the balance at
  zero and at least \<^verbatim>\<open>min_chunk_bytes\<close> bytes consumed since the scan began, never
  earlier. Each iteration moves to the next backslash, quote or parenthesis \<open>p\<close> (no
  byte before it is one of them); a backslash consumes itself and the byte after it when
  there is one, a quote flips the quoted flag, and a parenthesis changes the balance by
  one only when the flag is off. When none of these bytes is left, the iteration moves
  to the end of the input and changes nothing else.
\<close>

theorem C8_skipToNextRow_scan:
  "(fst (skipToNextRow ws b0 m balance)
      \<longleftrightarrow> \<not> (eof (skipWhitespaceIfAny ws b0) \<or> peek (skipWhitespaceIfAny ws b0) = CHR '';''))
   \<and> (eof (skipWhitespaceIfAny ws b0) \<or> peek (skipWhitespaceIfAny ws b0) = CHR '';''
        \<longrightarrow> snd (skipToNextRow ws b0 m balance) = skipWhitespaceIfAny ws b0)
   \<and> (skipToNextRow_loop m c st = (b', balance', quoted')
        \<longrightarrow> eof b' \<or> (balance' = 0 \<and> m \<le> position b' - c))
   \<and> (skipToNextRow_cond m c st
        \<longrightarrow> skipToNextRow_loop m c st = skipToNextRow_loop m c (skipToNextRow_step st))
   \<and> (p = find_first_symbols [CHR 0x5C, CHR 0x27, CHR '')'', CHR ''('']
              (drop (position b) (bytes b)) (position b)
        \<longrightarrow> position b \<le> p
          \<and> (\<forall>i. position b \<le> i \<and> i < p
                \<longrightarrow> bytes b ! i \<notin> {CHR 0x5C, CHR 0x27, CHR '')'', CHR ''(''})
          \<and> (p < length (bytes b) \<longrightarrow>
               skipToNextRow_step (b, bal, quoted) =
                 (if bytes b ! p = CHR 0x5C
                    then (b\<lparr>position := min (p + 2) (length (bytes b))\<rparr>, bal, quoted)
                  else if bytes b ! p = CHR 0x27
                    then (b\<lparr>position := p + 1\<rparr>, bal, \<not> quoted)
                  else if bytes b ! p = CHR '')''
                    then (b\<lparr>position := p + 1\<rparr>, if quoted then bal else bal - 1, quoted)
                  else (b\<lparr>position := p + 1\<rparr>, if quoted then bal else bal + 1, quoted))))
   \<and> (\<not> (eof (skipWhitespaceIfAny ws b0) \<or> peek (skipWhitespaceIfAny ws b0) = CHR '';'')
        \<longrightarrow> skipToNextRow ws b0 m balance
          = (True,
             if \<not> eof (fst (skipToNextRow_loop m (position (skipWhitespaceIfAny ws b0))
                              (skipWhitespaceIfAny ws b0, balance, False)))
                \<and> peek (fst (skipToNextRow_loop m (position (skipWhitespaceIfAny ws b0))
                              (skipWhitespaceIfAny ws b0, balance, False))) = CHR '',''
             then (fst (skipToNextRow_loop m (position (skipWhitespaceIfAny ws b0))
                              (skipWhitespaceIfAny ws b0, balance, False)))
                    \<lparr>position :=
                       position (fst (skipToNextRow_loop m (position (skipWhitespaceIfAny ws b0))
                              (skipWhitespaceIfAny ws b0, balance, False))) + 1\<rparr>
             else fst (skipToNextRow_loop m (position (skipWhitespaceIfAny ws b0))
                              (skipWhitespaceIfAny ws b0, balance, False))))
   \<and> (\<exists>n. skipToNextRow_loop m c st = (skipToNextRow_step ^^ n) st
          \<and> \<not> skipToNextRow_cond m c ((skipToNextRow_step ^^ n) st)
          \<and> (\<forall>k < n. skipToNextRow_cond m c ((skipToNextRow_step ^^ k) st)))
   \<and> (skipToNextRow_cond m c (b, bal, quoted)
        \<longleftrightarrow> \<not> eof b \<and> (bal \<noteq> 0 \<or> position b - c < m))
   \<and> (find_first_symbols [CHR 0x5C, CHR 0x27, CHR '')'', CHR ''(''] 
          (drop (position b) (bytes b)) (position b) = length (bytes b)
        \<longrightarrow> skipToNextRow_step (b, bal, quoted) = (b\<lparr>position := length (bytes b)\<rparr>, bal, quoted))"
proof -
  have none: "find_first_symbols [CHR 0x5C, CHR 0x27, CHR '')'', CHR ''(''] 
          (drop (position b) (bytes b)) (position b) = length (bytes b)
        \<longrightarrow> skipToNextRow_step (b, bal, quoted) = (b\<lparr>position := length (bytes b)\<rparr>, bal, quoted)"
    by (simp add: skipToNextRow_step_def Let_def)
  note parts = skipToNextRow_scan_parts [of ws b0 m balance c st b' balance' quoted' p b bal quoted]
  have t: "\<not> (eof (skipWhitespaceIfAny ws b0) \<or> peek (skipWhitespaceIfAny ws b0) = CHR '';'')
        \<longrightarrow> skipToNextRow ws b0 m balance
          = (True,
             if \<not> eof (fst (skipToNextRow_loop m (position (skipWhitespaceIfAny ws b0))
                              (skipWhitespaceIfAny ws b0, balance, False)))
                \<and> peek (fst (skipToNextRow_loop m (position (skipWhitespaceIfAny ws b0))
                              (skipWhitespaceIfAny ws b0, balance, False))) = CHR '',''
             then (fst (skipToNextRow_loop m (position (skipWhitespaceIfAny ws b0))
                              (skipWhitespaceIfAny ws b0, balance, False)))
                    \<lparr>position :=
                       position (fst (skipToNextRow_loop m (position (skipWhitespaceIfAny ws b0))
                              (skipWhitespaceIfAny ws b0, balance, False))) + 1\<rparr>
             else fst (skipToNextRow_loop m (position (skipWhitespaceIfAny ws b0))
                              (skipWhitespaceIfAny ws b0, balance, False)))"
    using skipToNextRow_true [of ws b0 m balance] by blast
  have c: "skipToNextRow_cond m c (b, bal, quoted)
        \<longleftrightarrow> \<not> eof b \<and> (bal \<noteq> 0 \<or> position b - c < m)"
    by (simp add: skipToNextRow_cond_def)
  note p1 = parts [THEN conjunct1]
  note p2 = parts [THEN conjunct2, THEN conjunct1]
  note p3 = parts [THEN conjunct2, THEN conjunct2, THEN conjunct1]
  note p4 = parts [THEN conjunct2, THEN conjunct2, THEN conjunct2, THEN conjunct1]
  note p5 = parts [THEN conjunct2, THEN conjunct2, THEN conjunct2, THEN conjunct2]
  show ?thesis
    by (intro conjI, rule p1, rule p2, rule p3, rule p4, rule p5, rule t,
        rule skipToNextRow_loop_first_stop, rule c, rule none)
qed

theorem C8_skipToNextRow_scan_witness:
  "fst (skipToNextRow (\<lambda>c. c = CHR '' '')
          \<lparr>bytes = '' (a), (b)'', position = 0, checkpoint = 0\<rparr> 1 0)
   \<and> snd (skipToNextRow (\<lambda>c. c = CHR '' '')
          \<lparr>bytes = '' (a), (b)'', position = 0, checkpoint = 0\<rparr> 1 0)
       = \<lparr>bytes = '' (a), (b)'', position = 5, checkpoint = 0\<rparr>
   \<and> snd (skipToNextRow (\<lambda>c. c = CHR '' '')
          \<lparr>bytes = ''  ;'', position = 0, checkpoint = 0\<rparr> 1 0)
       = \<lparr>bytes = ''  ;'', position = 2, checkpoint = 0\<rparr>
   \<and> skipToNextRow_loop 1 1 (\<lparr>bytes = '' (a), (b)'', position = 1, checkpoint = 0\<rparr>, 0, False)
       = (\<lparr>bytes = '' (a), (b)'', position = 4, checkpoint = 0\<rparr>, 0, False)
   \<and> skipToNextRow_step (\<lparr>bytes = '' (a), (b)'', position = 2, checkpoint = 0\<rparr>, 1, False)
       = (\<lparr>bytes = '' (a), (b)'', position = 4, checkpoint = 0\<rparr>, 0, False)"
proof -
  have ev:
    "skipWhitespaceIfAny (\<lambda>c. c = CHR '' '')
        \<lparr>bytes = '' (a), (b)'', position = 0, checkpoint = 0\<rparr>
       = \<lparr>bytes = '' (a), (b)'', position = 1, checkpoint = 0\<rparr>"
    "skipWhitespaceIfAny (\<lambda>c. c = CHR '' '')
        \<lparr>bytes = ''  ;'', position = 0, checkpoint = 0\<rparr>
       = \<lparr>bytes = ''  ;'', position = 2, checkpoint = 0\<rparr>"
    "peek \<lparr>bytes = ''  ;'', position = 2, checkpoint = 0\<rparr> = CHR '';''"
    "\<not> eof \<lparr>bytes = '' (a), (b)'', position = 1, checkpoint = 0\<rparr>"
    "peek \<lparr>bytes = '' (a), (b)'', position = 1, checkpoint = 0\<rparr> \<noteq> CHR '';''"
    "skipToNextRow_cond 1 1 (\<lparr>bytes = '' (a), (b)'', position = 1, checkpoint = 0\<rparr>, 0, False)"
    "skipToNextRow_step (\<lparr>bytes = '' (a), (b)'', position = 1, checkpoint = 0\<rparr>, 0, False)
       = (\<lparr>bytes = '' (a), (b)'', position = 2, checkpoint = 0\<rparr>, 1, False)"
    "skipToNextRow_cond 1 1 (\<lparr>bytes = '' (a), (b)'', position = 2, checkpoint = 0\<rparr>, 1, False)"
    "\<not> skipToNextRow_cond 1 1 (\<lparr>bytes = '' (a), (b)'', position = 4, checkpoint = 0\<rparr>, 0, False)"
    "find_first_symbols [CHR 0x5C, CHR 0x27, CHR '')'', CHR ''('']
        (drop 2 '' (a), (b)'') 2 = 3"
    "skipToNextRow (\<lambda>c. c = CHR '' '')
        \<lparr>bytes = '' (a), (b)'', position = 0, checkpoint = 0\<rparr> 1 0
       = (True, \<lparr>bytes = '' (a), (b)'', position = 5, checkpoint = 0\<rparr>)"
    by code_simp+
  note inst = C8_skipToNextRow_scan
      [of "\<lambda>c. c = CHR '' ''" "\<lparr>bytes = '' (a), (b)'', position = 0, checkpoint = 0\<rparr>" 1 0
          1 "(\<lparr>bytes = '' (a), (b)'', position = 1, checkpoint = 0\<rparr>, 0, False)"
          "\<lparr>bytes = '' (a), (b)'', position = 4, checkpoint = 0\<rparr>" 0 False
          3 "\<lparr>bytes = '' (a), (b)'', position = 2, checkpoint = 0\<rparr>" 1 False]
  have a: "fst (skipToNextRow (\<lambda>c. c = CHR '' '')
          \<lparr>bytes = '' (a), (b)'', position = 0, checkpoint = 0\<rparr> 1 0)"
    using inst ev by simp
  have c: "skipToNextRow_step (\<lparr>bytes = '' (a), (b)'', position = 2, checkpoint = 0\<rparr>, 1, False)
       = (\<lparr>bytes = '' (a), (b)'', position = 4, checkpoint = 0\<rparr>, 0, False)"
    using inst ev by simp
  have b: "snd (skipToNextRow (\<lambda>c. c = CHR '' '')
          \<lparr>bytes = ''  ;'', position = 0, checkpoint = 0\<rparr> 1 0)
       = \<lparr>bytes = ''  ;'', position = 2, checkpoint = 0\<rparr>"
    using C8_skipToNextRow_scan
      [of "\<lambda>c. c = CHR '' ''" "\<lparr>bytes = ''  ;'', position = 0, checkpoint = 0\<rparr>" 1 0
          1 "(\<lparr>bytes = '' (a), (b)'', position = 1, checkpoint = 0\<rparr>, 0, False)"
          "\<lparr>bytes = '' (a), (b)'', position = 4, checkpoint = 0\<rparr>" 0 False
          3 "\<lparr>bytes = '' (a), (b)'', position = 2, checkpoint = 0\<rparr>" 1 False]
      ev by simp
  have d: "skipToNextRow_loop 1 1 (\<lparr>bytes = '' (a), (b)'', position = 1, checkpoint = 0\<rparr>, 0, False)
       = (\<lparr>bytes = '' (a), (b)'', position = 4, checkpoint = 0\<rparr>, 0, False)"
    by code_simp
  from a b c d ev show ?thesis
    by simp
qed

section \<open>Properties of the deduction heuristic and of the reset\<close>

lemma shouldDeduceNewTemplate_false:
  "\<not> fst (shouldDeduceNewTemplate env s column_idx)
     \<Longrightarrow> shouldDeduceNewTemplate env s column_idx = (False, s)"
  by (simp add: shouldDeduceNewTemplate_def split: if_splits)

lemma parseExpression_unfold:
  assumes "parseExpression_parse env s column_idx = (Inr (toks, ti_start, ti, ast), s1)"
    and "parseExpression_probe env s1 column column_idx ast = (r2, s2, c2)"
  shows "parseExpression env s column column_idx =
     (case r2 of
        Inl e \<Rightarrow> (Inl e, s2, c2)
      | Inr True \<Rightarrow> (Inr True, s2, c2)
      | Inr False \<Rightarrow>
               (case parseExpression_deduce env
                       (s2\<lparr>parser_type_for_column :=
                             (parser_type_for_column s2)[column_idx := SingleExpressionEvaluation]\<rparr>)
                       column_idx toks ti_start ti ast of
                  (Inl e, s3) \<Rightarrow> (Inl e, s3, c2)
                | (Inr True, s3) \<Rightarrow> (Inr True, s3, c2)
                | (Inr False, s3) \<Rightarrow>
                    parseExpression_evaluate env s3 c2 column_idx toks ti ast))"
proof (cases r2)
  case (Inl e)
  with assms show ?thesis
    by (simp add: parseExpression_def)
next
  case (Inr b)
  with assms show ?thesis
    by (cases b) (simp_all add: parseExpression_def)
qed

text \<open>
  C2, as the claim states it, does not hold: with template deduction switched off
  (\<^verbatim>\<open>deduce_templates_of_expressions\<close>), \<^verbatim>\<open>shouldDeduceNewTemplate\<close> returns false for a
  column whose counters are all zero, whose weighted score 0 is below 100.
\<close>

theorem C2_deduction_disabled_counterexample:
  "attempts_weighted (example_state '''') 0 < 100
   \<and> fst (shouldDeduceNewTemplate
          (example_env\<lparr>format_settings :=
             (format_settings example_env)\<lparr>deduce_templates_of_expressions := False\<rparr>\<rparr>)
          (example_state '''') 0) = False"
  by (simp add: shouldDeduceNewTemplate_def attempts_weighted_def example_state_def
        ValuesBlockInputFormat_ctor_def example_env_def)

text \<open>
  C2, amended. When template deduction is disabled, \<^verbatim>\<open>shouldDeduceNewTemplate\<close> returns false
  and changes nothing, whatever the counters are. When it is enabled, and the counters of
  the column are in the range in which the source's \<^verbatim>\<open>double\<close> arithmetic is exact (both
  attempt counters below \<open>2^51\<close>, the rows parsed with templates below \<open>2^53\<close>), it returns
  true and leaves the counters alone whenever the weighted score of the column is below
  100; at a score of 100 or more it returns true exactly when the rows parsed with
  templates divided by the score exceed 1, and then the three counters of the column are
  set to zero and nothing else changes; otherwise it returns false and changes nothing.
  After 67 cold attempts and no row parsed with a template the score is 100.5 and it
  returns false. Whenever it returns false, the deduction step of \<^verbatim>\<open>parseExpression\<close>
  constructs no template and changes nothing, so that \<^verbatim>\<open>parseExpression\<close>, once the
  expression is parsed and is not read as a literal, is the evaluation of the expression.
\<close>

theorem C2_shouldDeduceNewTemplate:
  assumes "column_idx < length (attempts_to_deduce_template s)"
    and "column_idx < length (attempts_to_deduce_template_cached s)"
    and "column_idx < length (rows_parsed_using_template s)"
  shows "(\<not> deduce_templates_of_expressions (format_settings env)
            \<longrightarrow> shouldDeduceNewTemplate env s column_idx = (False, s))
     \<and> (deduce_templates_of_expressions (format_settings env)
          \<and> attempts_to_deduce_template s ! column_idx < 2 ^ 51
          \<and> attempts_to_deduce_template_cached s ! column_idx < 2 ^ 51
          \<and> rows_parsed_using_template s ! column_idx < 2 ^ 53
          \<longrightarrow>
            (attempts_weighted s column_idx < 100
               \<longrightarrow> shouldDeduceNewTemplate env s column_idx = (True, s))
          \<and> (100 \<le> attempts_weighted s column_idx
               \<and> real (rows_parsed_using_template s ! column_idx) / attempts_weighted s column_idx > 1
             \<longrightarrow> shouldDeduceNewTemplate env s column_idx
                   = (True,
                      s\<lparr>attempts_to_deduce_template := (attempts_to_deduce_template s)[column_idx := 0],
                        attempts_to_deduce_template_cached :=
                          (attempts_to_deduce_template_cached s)[column_idx := 0],
                        rows_parsed_using_template :=
                          (rows_parsed_using_template s)[column_idx := 0]\<rparr>)
               \<and> attempts_to_deduce_template (snd (shouldDeduceNewTemplate env s column_idx))
                     ! column_idx = 0
               \<and> attempts_to_deduce_template_cached (snd (shouldDeduceNewTemplate env s column_idx))
                     ! column_idx = 0
               \<and> rows_parsed_using_template (snd (shouldDeduceNewTemplate env s column_idx))
                     ! column_idx = 0)
          \<and> (100 \<le> attempts_weighted s column_idx
               \<and> \<not> real (rows_parsed_using_template s ! column_idx) / attempts_weighted s column_idx > 1
             \<longrightarrow> shouldDeduceNewTemplate env s column_idx = (False, s)))
     \<and> (attempts_to_deduce_template s ! column_idx = 67
            \<and> attempts_to_deduce_template_cached s ! column_idx = 0
            \<and> rows_parsed_using_template s ! column_idx = 0
          \<longrightarrow> attempts_weighted s column_idx = 100.5
            \<and> shouldDeduceNewTemplate env s column_idx = (False, s))
     \<and> (\<not> fst (shouldDeduceNewTemplate env s column_idx)
          \<longrightarrow> parseExpression_deduce env s column_idx toks ti_start ti ast = (Inr False, s))
     \<and> (parseExpression_parse env s0 column_idx = (Inr (toks, ti_start, ti, ast), s1)
          \<and> parseExpression_probe env s1 column column_idx ast = (Inr False, s2, column2)
          \<and> s = s2\<lparr>parser_type_for_column :=
                     (parser_type_for_column s2)[column_idx := SingleExpressionEvaluation]\<rparr>
          \<and> \<not> fst (shouldDeduceNewTemplate env s column_idx)
          \<longrightarrow> parseExpression env s0 column column_idx
                = parseExpression_evaluate env s column2 column_idx toks ti ast)"
proof -
  have off: "\<not> deduce_templates_of_expressions (format_settings env)
            \<longrightarrow> shouldDeduceNewTemplate env s column_idx = (False, s)"
    by (simp add: shouldDeduceNewTemplate_def)
  have on: "deduce_templates_of_expressions (format_settings env)
          \<and> attempts_to_deduce_template s ! column_idx < 2 ^ 51
          \<and> attempts_to_deduce_template_cached s ! column_idx < 2 ^ 51
          \<and> rows_parsed_using_template s ! column_idx < 2 ^ 53
          \<longrightarrow>
            (attempts_weighted s column_idx < 100
               \<longrightarrow> shouldDeduceNewTemplate env s column_idx = (True, s))
          \<and> (100 \<le> attempts_weighted s column_idx
               \<and> real (rows_parsed_using_template s ! column_idx) / attempts_weighted s column_idx > 1
             \<longrightarrow> shouldDeduceNewTemplate env s column_idx
                   = (True,
                      s\<lparr>attempts_to_deduce_template := (attempts_to_deduce_template s)[column_idx := 0],
                        attempts_to_deduce_template_cached :=
                          (attempts_to_deduce_template_cached s)[column_idx := 0],
                        rows_parsed_using_template :=
                          (rows_parsed_using_template s)[column_idx := 0]\<rparr>)
               \<and> attempts_to_deduce_template (snd (shouldDeduceNewTemplate env s column_idx))
                     ! column_idx = 0
               \<and> attempts_to_deduce_template_cached (snd (shouldDeduceNewTemplate env s column_idx))
                     ! column_idx = 0
               \<and> rows_parsed_using_template (snd (shouldDeduceNewTemplate env s column_idx))
                     ! column_idx = 0)
          \<and> (100 \<le> attempts_weighted s column_idx
               \<and> \<not> real (rows_parsed_using_template s ! column_idx) / attempts_weighted s column_idx > 1
             \<longrightarrow> shouldDeduceNewTemplate env s column_idx = (False, s))"
    using assms by (simp add: shouldDeduceNewTemplate_def max_attempts_def)
  have cold: "attempts_to_deduce_template s ! column_idx = 67
            \<and> attempts_to_deduce_template_cached s ! column_idx = 0
            \<and> rows_parsed_using_template s ! column_idx = 0
          \<longrightarrow> attempts_weighted s column_idx = 100.5
            \<and> shouldDeduceNewTemplate env s column_idx = (False, s)"
    by (simp add: shouldDeduceNewTemplate_def max_attempts_def attempts_weighted_def)
  have ded: "\<not> fst (shouldDeduceNewTemplate env s column_idx)
          \<longrightarrow> parseExpression_deduce env s column_idx toks ti_start ti ast = (Inr False, s)"
    using shouldDeduceNewTemplate_false [of env s column_idx]
    by (auto simp: parseExpression_deduce_def)
  have full: "parseExpression_parse env s0 column_idx = (Inr (toks, ti_start, ti, ast), s1)
          \<and> parseExpression_probe env s1 column column_idx ast = (Inr False, s2, column2)
          \<and> s = s2\<lparr>parser_type_for_column :=
                     (parser_type_for_column s2)[column_idx := SingleExpressionEvaluation]\<rparr>
          \<and> \<not> fst (shouldDeduceNewTemplate env s column_idx)
          \<longrightarrow> parseExpression env s0 column column_idx
                = parseExpression_evaluate env s column2 column_idx toks ti ast"
  proof (intro impI, elim conjE)
    assume p: "parseExpression_parse env s0 column_idx = (Inr (toks, ti_start, ti, ast), s1)"
      and q: "parseExpression_probe env s1 column column_idx ast = (Inr False, s2, column2)"
      and s: "s = s2\<lparr>parser_type_for_column :=
                     (parser_type_for_column s2)[column_idx := SingleExpressionEvaluation]\<rparr>"
      and n: "\<not> fst (shouldDeduceNewTemplate env s column_idx)"
    from ded n have "parseExpression_deduce env s column_idx toks ti_start ti ast = (Inr False, s)"
      by blast
    with parseExpression_unfold [OF p q] s
    show "parseExpression env s0 column column_idx
                = parseExpression_evaluate env s column2 column_idx toks ti ast"
      by simp
  qed
  show ?thesis
    by (intro conjI, rule off, rule on, rule cold, rule ded, rule full)
qed

theorem C2_shouldDeduceNewTemplate_witness:
  "shouldDeduceNewTemplate example_env
      ((example_state '''')\<lparr>attempts_to_deduce_template := [67, 0]\<rparr>) 0
     = (False, (example_state '''')\<lparr>attempts_to_deduce_template := [67, 0]\<rparr>)
   \<and> shouldDeduceNewTemplate example_env
      ((example_state '''')\<lparr>attempts_to_deduce_template := [66, 0]\<rparr>) 0
     = (True, (example_state '''')\<lparr>attempts_to_deduce_template := [66, 0]\<rparr>)
   \<and> shouldDeduceNewTemplate example_env
      ((example_state '''')\<lparr>attempts_to_deduce_template := [67, 0],
           rows_parsed_using_template := [101, 0]\<rparr>) 0
     = (True, (example_state '''')\<lparr>attempts_to_deduce_template := [0, 0],
           rows_parsed_using_template := [0, 0]\<rparr>)
   \<and> shouldDeduceNewTemplate
        (example_env\<lparr>format_settings :=
           (format_settings example_env)\<lparr>deduce_templates_of_expressions := False\<rparr>\<rparr>)
        ((example_state '''')\<lparr>attempts_to_deduce_template := [66, 0]\<rparr>) 0
     = (False, (example_state '''')\<lparr>attempts_to_deduce_template := [66, 0]\<rparr>)
   \<and> parseExpression example_env
        ((example_state ''1+2, 3)'')
           \<lparr>attempts_to_deduce_template := [67, 0],
             parser_type_for_column := [SingleExpressionEvaluation, Streaming]\<rparr>) [] 0
     = parseExpression_evaluate example_env
        ((example_state ''1+2, 3)'')
           \<lparr>tokens := Some [\<lparr>tok_type = Literal, tok_begin = 0\<rparr>,
                            \<lparr>tok_type = Punctuation, tok_begin = 1\<rparr>,
                            \<lparr>tok_type = Literal, tok_begin = 2\<rparr>,
                            \<lparr>tok_type = Comma, tok_begin = 3\<rparr>,
                            \<lparr>tok_type = Literal, tok_begin = 5\<rparr>,
                            \<lparr>tok_type = ClosingRoundBracket, tok_begin = 6\<rparr>,
                            \<lparr>tok_type = EndOfStream, tok_begin = 7\<rparr>],
             token_iterator := Some 4,
             attempts_to_deduce_template := [67, 0],
             parser_type_for_column := [SingleExpressionEvaluation, Streaming]\<rparr>) [] 0
        [\<lparr>tok_type = Literal, tok_begin = 0\<rparr>,
         \<lparr>tok_type = Punctuation, tok_begin = 1\<rparr>,
         \<lparr>tok_type = Literal, tok_begin = 2\<rparr>,
         \<lparr>tok_type = Comma, tok_begin = 3\<rparr>,
         \<lparr>tok_type = Literal, tok_begin = 5\<rparr>,
         \<lparr>tok_type = ClosingRoundBracket, tok_begin = 6\<rparr>,
         \<lparr>tok_type = EndOfStream, tok_begin = 7\<rparr>] 4 ASTFunction"
proof -
  let ?off = "example_env\<lparr>format_settings :=
           (format_settings example_env)\<lparr>deduce_templates_of_expressions := False\<rparr>\<rparr>"
  let ?a = "(example_state '''')\<lparr>attempts_to_deduce_template := [67, 0]\<rparr>"
  let ?b = "(example_state '''')\<lparr>attempts_to_deduce_template := [66, 0]\<rparr>"
  let ?c = "(example_state '''')\<lparr>attempts_to_deduce_template := [67, 0],
           rows_parsed_using_template := [101, 0]\<rparr>"
  let ?toks = "[\<lparr>tok_type = Literal, tok_begin = 0\<rparr>,
         \<lparr>tok_type = Punctuation, tok_begin = 1\<rparr>,
         \<lparr>tok_type = Literal, tok_begin = 2\<rparr>,
         \<lparr>tok_type = Comma, tok_begin = 3\<rparr>,
         \<lparr>tok_type = Literal, tok_begin = 5\<rparr>,
         \<lparr>tok_type = ClosingRoundBracket, tok_begin = 6\<rparr>,
         \<lparr>tok_type = EndOfStream, tok_begin = 7\<rparr>]"
  let ?s0 = "(example_state ''1+2, 3)'')
           \<lparr>attempts_to_deduce_template := [67, 0],
             parser_type_for_column := [SingleExpressionEvaluation, Streaming]\<rparr>"
  let ?s1 = "(example_state ''1+2, 3)'')
           \<lparr>tokens := Some ?toks, token_iterator := Some 4,
             attempts_to_deduce_template := [67, 0],
             parser_type_for_column := [SingleExpressionEvaluation, Streaming]\<rparr>"
  have rep: "replicate 2 x = [x, x]" for x :: nat
    by (simp add: numeral_2_eq_2)
  have on: "deduce_templates_of_expressions (format_settings example_env)"
    and off: "\<not> deduce_templates_of_expressions (format_settings ?off)"
    by (simp_all add: example_env_def)
  have "shouldDeduceNewTemplate example_env ?a 0 = (False, ?a)"
    using C2_shouldDeduceNewTemplate
      [of 0 ?a example_env ?toks 0 4 ASTFunction ?s0 ?s1 "[]" ?s1 "[]"]
    by (simp add: example_state_def ValuesBlockInputFormat_ctor_def)
  moreover have "shouldDeduceNewTemplate example_env ?b 0 = (True, ?b)"
    using C2_shouldDeduceNewTemplate
      [of 0 ?b example_env ?toks 0 4 ASTFunction ?s0 ?s1 "[]" ?s1 "[]"] on
    by (simp add: attempts_weighted_def example_state_def ValuesBlockInputFormat_ctor_def)
  moreover have "shouldDeduceNewTemplate example_env ?c 0
      = (True, (example_state '''')\<lparr>attempts_to_deduce_template := [0, 0],
           rows_parsed_using_template := [0, 0]\<rparr>)"
    using C2_shouldDeduceNewTemplate
      [of 0 ?c example_env ?toks 0 4 ASTFunction ?s0 ?s1 "[]" ?s1 "[]"] on
    by (simp add: attempts_weighted_def example_state_def ValuesBlockInputFormat_ctor_def rep)
  moreover have "shouldDeduceNewTemplate ?off ?b 0 = (False, ?b)"
    using C2_shouldDeduceNewTemplate
      [of 0 ?b ?off ?toks 0 4 ASTFunction ?s0 ?s1 "[]" ?s1 "[]"] off
    by (simp add: example_state_def ValuesBlockInputFormat_ctor_def)
  moreover have "parseExpression example_env ?s0 [] 0
      = parseExpression_evaluate example_env ?s1 [] 0 ?toks 4 ASTFunction"
  proof -
    have p: "parseExpression_parse example_env ?s0 0 = (Inr (?toks, 0, 4, ASTFunction), ?s1)"
      by code_simp
    have q: "parseExpression_probe example_env ?s1 [] 0 ASTFunction = (Inr False, ?s1, [])"
      by (simp add: parseExpression_probe_def example_env_def)
    have m: "?s1 = ?s1\<lparr>parser_type_for_column :=
                     (parser_type_for_column ?s1)[0 := SingleExpressionEvaluation]\<rparr>"
      by simp
    have n: "\<not> fst (shouldDeduceNewTemplate example_env ?s1 0)"
      by (simp add: shouldDeduceNewTemplate_def attempts_weighted_def max_attempts_def
          example_env_def example_state_def ValuesBlockInputFormat_ctor_def)
    have l: "0 < length (attempts_to_deduce_template ?s1)"
      "0 < length (attempts_to_deduce_template_cached ?s1)"
      "0 < length (rows_parsed_using_template ?s1)"
      by (simp_all add: example_state_def ValuesBlockInputFormat_ctor_def)
    from C2_shouldDeduceNewTemplate
      [of 0 ?s1 example_env ?toks 0 4 ASTFunction ?s0 ?s1 "[]" ?s1 "[]", OF l] p q m n
    show ?thesis
      by blast
  qed
  ultimately show ?thesis
    by blast
qed

lemma resetParser_columns_other:
  "buf (resetParser_columns is s) = buf s
   \<and> got_exception (resetParser_columns is s) = got_exception s
   \<and> length (templates (resetParser_columns is s)) = length (templates s)
   \<and> length (parser_type_for_column (resetParser_columns is s))
       = length (parser_type_for_column s)"
  by (induction "is" arbitrary: s) simp_all

lemma resetParser_columns_reset:
  "i \<in> set is \<Longrightarrow> i < length (templates s) \<Longrightarrow> i < length (parser_type_for_column s)
     \<Longrightarrow> templates (resetParser_columns is s) ! i = None
       \<and> parser_type_for_column (resetParser_columns is s) ! i = Streaming"
proof (induction "is" arbitrary: s)
  case Nil
  then show ?case by simp
next
  case (Cons j js)
  let ?s = "s\<lparr>templates := (templates s)[j := None],
               parser_type_for_column := (parser_type_for_column s)[j := Streaming]\<rparr>"
  show ?case
  proof (cases "i \<in> set js")
    case True
    with Cons.IH [of ?s] Cons.prems show ?thesis by simp
  next
    case False
    with Cons.prems have ij: "i = j" by simp
    have keep: "templates (resetParser_columns js t) ! i = templates t ! i
        \<and> parser_type_for_column (resetParser_columns js t) ! i = parser_type_for_column t ! i"
      if "i \<notin> set js" for t
      using that by (induction js arbitrary: t) auto
    from keep [OF False, of ?s] ij Cons.prems show ?thesis by simp
  qed
qed

text \<open>
  C7. \<^verbatim>\<open>got_exception\<close> is the flag of the base class that is set when a session ends
  with an exception. The base class's \<^verbatim>\<open>IInputFormat::resetParser\<close> is not in src; it
  cannot reach the private members of this class, which is the first hypothesis.
\<close>

theorem C7_resetParser:
  assumes "\<And>t. templates (IInputFormat_resetParser env t) = templates t
                \<and> parser_type_for_column (IInputFormat_resetParser env t)
                    = parser_type_for_column t"
    and "length (templates s) = num_columns env"
    and "length (parser_type_for_column s) = num_columns env"
  shows "(got_exception s \<longrightarrow>
            (\<forall>i < num_columns env.
               templates (resetParser env s) ! i = None
               \<and> parser_type_for_column (resetParser env s) ! i = Streaming))
     \<and> (\<not> got_exception s \<longrightarrow>
            templates (resetParser env s) = templates s
            \<and> parser_type_for_column (resetParser env s) = parser_type_for_column s)
     \<and> total_rows (resetParser env s) = 0"
proof -
  have "templates (resetParser_columns [0..<num_columns env] s) ! i = None
        \<and> parser_type_for_column (resetParser_columns [0..<num_columns env] s) ! i = Streaming"
    if "i < num_columns env" for i
    using resetParser_columns_reset [of i "[0..<num_columns env]" s] that assms(2,3)
    by simp
  with assms(1) show ?thesis
    by (simp add: resetParser_def)
qed

theorem C7_resetParser_witness:
  "templates (resetParser example_env
      ((example_state '''')
         \<lparr>templates := [None, Some \<lparr>shape = ASTFunction, rows = []\<rparr>],
           parser_type_for_column := [SingleExpressionEvaluation, BatchTemplate],
           got_exception := True\<rparr>)) = [None, None]
   \<and> parser_type_for_column (resetParser example_env
      ((example_state '''')
         \<lparr>templates := [None, Some \<lparr>shape = ASTFunction, rows = []\<rparr>],
           parser_type_for_column := [SingleExpressionEvaluation, BatchTemplate],
           got_exception := True\<rparr>)) = [Streaming, Streaming]
   \<and> templates (resetParser example_env
      ((example_state '''')
         \<lparr>templates := [None, Some \<lparr>shape = ASTFunction, rows = []\<rparr>],
           parser_type_for_column := [SingleExpressionEvaluation, BatchTemplate]\<rparr>))
     = [None, Some \<lparr>shape = ASTFunction, rows = []\<rparr>]
   \<and> parser_type_for_column (resetParser example_env
      ((example_state '''')
         \<lparr>templates := [None, Some \<lparr>shape = ASTFunction, rows = []\<rparr>],
           parser_type_for_column := [SingleExpressionEvaluation, BatchTemplate]\<rparr>))
     = [SingleExpressionEvaluation, BatchTemplate]"
proof -
  let ?s = "(example_state '''')
         \<lparr>templates := [None, Some \<lparr>shape = ASTFunction, rows = []\<rparr>],
           parser_type_for_column := [SingleExpressionEvaluation, BatchTemplate]\<rparr>"
  have frame: "\<And>t. templates (IInputFormat_resetParser example_env t) = templates t
                \<and> parser_type_for_column (IInputFormat_resetParser example_env t)
                    = parser_type_for_column t"
    by (simp add: example_env_def)
  have n: "num_columns example_env = 2"
    by (simp add: example_env_def)
  have len: "length (templates ?s) = num_columns example_env"
    "length (parser_type_for_column ?s) = num_columns example_env"
    "length (templates (?s\<lparr>got_exception := True\<rparr>)) = num_columns example_env"
    "length (parser_type_for_column (?s\<lparr>got_exception := True\<rparr>)) = num_columns example_env"
    by (simp_all add: n)
  have ge: "\<not> got_exception ?s" "got_exception (?s\<lparr>got_exception := True\<rparr>)"
    by (simp_all add: example_state_def ValuesBlockInputFormat_ctor_def)
  note a = C7_resetParser [of example_env "?s\<lparr>got_exception := True\<rparr>", OF frame len(3,4)]
  note b = C7_resetParser [of example_env ?s, OF frame len(1,2)]
  have l2: "length (templates (resetParser example_env (?s\<lparr>got_exception := True\<rparr>))) = 2"
    "length (parser_type_for_column (resetParser example_env (?s\<lparr>got_exception := True\<rparr>))) = 2"
    using resetParser_columns_other [of "[0..<2]" "?s\<lparr>got_exception := True\<rparr>"] frame
    by (simp_all add: resetParser_def n)
  have two: "xs = [xs ! 0, xs ! 1]" if "length xs = 2" for xs :: "'a list"
    using that by (cases xs; cases "tl xs") auto
  from a ge n have
    "templates (resetParser example_env (?s\<lparr>got_exception := True\<rparr>)) ! 0 = None"
    "templates (resetParser example_env (?s\<lparr>got_exception := True\<rparr>)) ! 1 = None"
    "parser_type_for_column (resetParser example_env (?s\<lparr>got_exception := True\<rparr>)) ! 0 = Streaming"
    "parser_type_for_column (resetParser example_env (?s\<lparr>got_exception := True\<rparr>)) ! 1 = Streaming"
    by simp_all
  with two [OF l2(1)] two [OF l2(2)] have
    "templates (resetParser example_env (?s\<lparr>got_exception := True\<rparr>)) = [None, None]"
    "parser_type_for_column (resetParser example_env (?s\<lparr>got_exception := True\<rparr>))
       = [Streaming, Streaming]"
    by simp_all
  moreover from b ge have "templates (resetParser example_env ?s) = templates ?s"
    "parser_type_for_column (resetParser example_env ?s) = parser_type_for_column ?s"
    by simp_all
  ultimately show ?thesis
    by simp
qed

section \<open>The buffer helpers change the read position only\<close>

lemma assertStringCaseInsensitive_frame:
  "bytes (snd (assertStringCaseInsensitive str b)) = bytes b
   \<and> checkpoint (snd (assertStringCaseInsensitive str b)) = checkpoint b"
  by (induction str arbitrary: b) simp_all

lemma checkString_frame:
  "checkStringByFirstCharacterAndAssertTheRestCaseInsensitive str b = (r, b')
     \<Longrightarrow> bytes b' = bytes b \<and> checkpoint b' = checkpoint b"
  using assertStringCaseInsensitive_frame [of str b]
  by (auto simp: checkStringByFirstCharacterAndAssertTheRestCaseInsensitive_def
      split: if_splits prod.splits sum.splits)

lemma checkString_False:
  "checkStringByFirstCharacterAndAssertTheRestCaseInsensitive str b = (Inr False, b')
     \<Longrightarrow> b' = b"
  by (auto simp: checkStringByFirstCharacterAndAssertTheRestCaseInsensitive_def
      split: if_splits prod.splits sum.splits)

lemma skipWhitespaceIfAny_frame:
  "bytes (skipWhitespaceIfAny ws b) = bytes b
   \<and> checkpoint (skipWhitespaceIfAny ws b) = checkpoint b"
  by (simp add: skipWhitespaceIfAny_def)

lemma checkChar_frame:
  "bytes (snd (checkChar c b)) = bytes b \<and> checkpoint (snd (checkChar c b)) = checkpoint b"
  by (simp add: checkChar_def)

lemma checkDelimiterAfterValue_frame:
  "bytes (snd (checkDelimiterAfterValue env b column_idx)) = bytes b
   \<and> checkpoint (snd (checkDelimiterAfterValue env b column_idx)) = checkpoint b"
  by (simp add: checkDelimiterAfterValue_def Let_def checkChar_frame skipWhitespaceIfAny_frame
      split: prod.splits bool.splits)
    (metis checkChar_frame skipWhitespaceIfAny_frame snd_conv)

lemma assertDelimiterAfterValue_frame:
  "assertDelimiterAfterValue env b column_idx = (r, b')
     \<Longrightarrow> bytes b' = bytes b \<and> checkpoint b' = checkpoint b"
  using checkDelimiterAfterValue_frame [of env b column_idx]
  by (auto simp: assertDelimiterAfterValue_def split: prod.splits bool.splits)

lemma rollbackToCheckpoint_frame:
  "bytes b' = bytes b \<Longrightarrow> checkpoint b' = checkpoint b
     \<Longrightarrow> rollbackToCheckpoint b' = b\<lparr>position := checkpoint b\<rparr>"
  by (cases b; cases b') (simp add: rollbackToCheckpoint_def)

section \<open>Properties of the streaming path\<close>

lemma tryReadValue_try_frame:
  "tryReadValue_try env s column column_idx = (r, s1, column1, rb)
     \<Longrightarrow> \<exists>p. s1 = s\<lparr>buf := (buf s)\<lparr>position := p\<rparr>\<rparr>"
proof -
  assume a: "tryReadValue_try env s column column_idx = (r, s1, column1, rb)"
  have eq: "b' = (buf s)\<lparr>position := position b'\<rparr>"
    if "bytes b' = bytes (buf s)" "checkpoint b' = checkpoint (buf s)" for b'
    using that by (cases b'; cases "buf s") simp
  obtain d b where d: "checkStringByFirstCharacterAndAssertTheRestCaseInsensitive ''DEFAULT'' (buf s) = (d, b)"
    by (cases "checkStringByFirstCharacterAndAssertTheRestCaseInsensitive ''DEFAULT'' (buf s)")
  note fb = checkString_frame [OF d]
  show ?thesis
  proof (cases d)
    case (Inl e)
    with a d have "s1 = s\<lparr>buf := b\<rparr>"
      by (simp add: tryReadValue_try_def)
    with eq [of b] fb show ?thesis by metis
  next
    case (Inr dv)
    obtain r1 c1 p1 where v: "(if dv
                 then (Inr False, column @ [getDefault env (types env ! column_idx)], position b)
                 else tryReadValue_deserialize env column_idx column b) = (r1, c1, p1)"
      by (metis prod_cases3)
    show ?thesis
    proof (cases r1)
      case (Inl e)
      with a d Inr v have "s1 = s\<lparr>buf := b\<lparr>position := p1\<rparr>\<rparr>"
        by (simp add: tryReadValue_try_def)
      moreover have "b\<lparr>position := p1\<rparr> = (buf s)\<lparr>position := p1\<rparr>"
        using fb by (cases b; cases "buf s") simp
      ultimately show ?thesis by metis
    next
      case (Inr rd)
      obtain r2 b2 where ad: "assertDelimiterAfterValue env
                       (skipWhitespaceIfAny (isWhitespaceASCII env) (b\<lparr>position := p1\<rparr>))
                       column_idx = (r2, b2)"
        by (metis prod.exhaust)
      from assertDelimiterAfterValue_frame [OF ad] skipWhitespaceIfAny_frame fb
      have "bytes b2 = bytes (buf s)" "checkpoint b2 = checkpoint (buf s)"
        by simp_all
      from eq [OF this] have b2: "b2 = (buf s)\<lparr>position := position b2\<rparr>" .
      from a d \<open>d = Inr dv\<close> v Inr ad have "s1 = s\<lparr>buf := b2\<rparr>"
        by (cases r2) (simp_all add: tryReadValue_try_def)
      with b2 show ?thesis by metis
    qed
  qed
qed

lemma tryReadValue_try_column:
  assumes contract:
      "case tryReadValue_deserialize env column_idx column (buf s) of
         (Inl e', c, p) \<Rightarrow> c = column
       | (Inr r, c, p) \<Rightarrow> length c = length column + 1 \<and> take (length column) c = column"
    and tr: "tryReadValue_try env s column column_idx = (Inl e, s1, column1, rb)"
  shows "(if rb then popBack 1 column1 else column1) = column
     \<and> (rb \<longleftrightarrow> length column1 = length column + 1)"
proof -
  obtain d b where d: "checkStringByFirstCharacterAndAssertTheRestCaseInsensitive ''DEFAULT'' (buf s) = (d, b)"
    by (cases "checkStringByFirstCharacterAndAssertTheRestCaseInsensitive ''DEFAULT'' (buf s)")
  show ?thesis
  proof (cases d)
    case (Inl e')
    with tr d show ?thesis
      by (simp add: tryReadValue_try_def)
  next
    case (Inr dv)
    show ?thesis
    proof (cases dv)
      case True
      with tr d Inr show ?thesis
        by (auto simp: tryReadValue_try_def popBack_def split: prod.splits sum.splits)
    next
      case False
      have bb: "b = buf s"
        using d Inr False checkString_False [of "''DEFAULT''" "buf s" b] by simp
      obtain r1 c1 p1 where v: "tryReadValue_deserialize env column_idx column (buf s) = (r1, c1, p1)"
        by (metis prod_cases3)
      show ?thesis
      proof (cases r1)
        case (Inl e1)
        with tr d Inr False bb v contract show ?thesis
          by (simp add: tryReadValue_try_def)
      next
        case (Inr rd)
        with v contract have c1: "length c1 = length column + 1" "take (length column) c1 = column"
          by simp_all
        from tr d \<open>d = Inr dv\<close> False bb v Inr have "rb \<and> column1 = c1"
          by (auto simp: tryReadValue_try_def split: prod.splits sum.splits)
        with c1 show ?thesis
          by (simp add: popBack_def)
      qed
    qed
  qed
qed

text \<open>
  C10. The deserializer of the column is a collaborator; the first hypothesis is its
  contract at this cell: when it throws it leaves the column as it was, and when it returns
  it has appended one value. Then, for every exception \<open>e\<close> that the \<^verbatim>\<open>try\<close> block of
  \<^verbatim>\<open>tryReadValue\<close> raises and that the \<^verbatim>\<open>catch\<close> treats as a parse error,
  \<^verbatim>\<open>rollback_on_exception\<close> is set exactly when the column is one value longer than at entry,
  the value popped is that one, and \<^verbatim>\<open>parseExpression\<close> is called on the column as it was
  at entry and on the buffer at the checkpoint, nothing else of the object changed.
\<close>

theorem C10_tryReadValue_rollback:
  assumes "case tryReadValue_deserialize env column_idx column (buf s) of
             (Inl e', c, p) \<Rightarrow> c = column
           | (Inr r, c, p) \<Rightarrow> length c = length column + 1 \<and> take (length column) c = column"
    and "tryReadValue_try env s column column_idx = (Inl e, s1, column1, rollback_on_exception)"
    and "isParseError env (code e)"
    and "code e \<noteq> ARGUMENT_OUT_OF_BOUND"
  shows "(rollback_on_exception \<longleftrightarrow> length column1 = length column + 1)
     \<and> (if rollback_on_exception then popBack 1 column1 else column1) = column
     \<and> s1\<lparr>buf := rollbackToCheckpoint (buf s1)\<rparr> = s\<lparr>buf := (buf s)\<lparr>position := checkpoint (buf s)\<rparr>\<rparr>
     \<and> tryReadValue env s column column_idx
         = parseExpression env (s\<lparr>buf := (buf s)\<lparr>position := checkpoint (buf s)\<rparr>\<rparr>)
             column column_idx"
proof -
  from tryReadValue_try_frame [OF assms(2)] obtain p
    where s1: "s1 = s\<lparr>buf := (buf s)\<lparr>position := p\<rparr>\<rparr>"
    by blast
  then have rb: "s1\<lparr>buf := rollbackToCheckpoint (buf s1)\<rparr>
      = s\<lparr>buf := (buf s)\<lparr>position := checkpoint (buf s)\<rparr>\<rparr>"
    by (simp add: rollbackToCheckpoint_def)
  from tryReadValue_try_column [OF assms(1,2)]
  have c1: "(if rollback_on_exception then popBack 1 column1 else column1) = column"
    and c2: "rollback_on_exception \<longleftrightarrow> length column1 = length column + 1"
    by blast+
  have "tryReadValue env s column column_idx
      = parseExpression env (s1\<lparr>buf := rollbackToCheckpoint (buf s1)\<rparr>)
          (if rollback_on_exception then popBack 1 column1 else column1) column_idx"
    using assms(2,3,4) by (simp add: tryReadValue_def)
  then have t: "tryReadValue env s column column_idx
      = parseExpression env (s\<lparr>buf := (buf s)\<lparr>position := checkpoint (buf s)\<rparr>\<rparr>)
          column column_idx"
    by (simp only: rb c1)
  from c2 c1 rb t show ?thesis
    by blast
qed

text \<open>
  C5. The cell does not start with the DEFAULT marker and the literal deserializer throws
  \<open>e\<close>, leaving the column as \<open>column1\<close> and the read position at \<open>p1\<close>. When \<open>e\<close> is
  not a parse error, or is \<^verbatim>\<open>ARGUMENT_OUT_OF_BOUND\<close>, \<^verbatim>\<open>tryReadValue\<close> ends with \<open>e\<close>, the
  column and the read position as the deserializer left them: no value is popped, the
  buffer is not rolled back and \<^verbatim>\<open>parseExpression\<close> is not called. Otherwise the buffer is
  rolled back to the checkpoint and \<^verbatim>\<open>parseExpression\<close> is called.
\<close>

theorem C5_tryReadValue_propagates:
  assumes "checkStringByFirstCharacterAndAssertTheRestCaseInsensitive ''DEFAULT'' (buf s)
             = (Inr False, b)"
    and "tryReadValue_deserialize env column_idx column (buf s) = (Inl e, column1, p1)"
  shows "(\<not> isParseError env (code e) \<or> code e = ARGUMENT_OUT_OF_BOUND
            \<longrightarrow> tryReadValue env s column column_idx
                  = (Inl e, s\<lparr>buf := (buf s)\<lparr>position := p1\<rparr>\<rparr>, column1))
     \<and> (isParseError env (code e) \<and> code e \<noteq> ARGUMENT_OUT_OF_BOUND
            \<longrightarrow> tryReadValue env s column column_idx
                  = parseExpression env (s\<lparr>buf := (buf s)\<lparr>position := checkpoint (buf s)\<rparr>\<rparr>)
                      column1 column_idx)"
proof -
  from checkString_False [OF assms(1)] have b: "b = buf s" .
  with assms have tr: "tryReadValue_try env s column column_idx
      = (Inl e, s\<lparr>buf := (buf s)\<lparr>position := p1\<rparr>\<rparr>, column1, False)"
    by (simp add: tryReadValue_try_def)
  then show ?thesis
    by (simp add: tryReadValue_def rollbackToCheckpoint_def)
qed

text \<open>
  C3, for a column in \<^verbatim>\<open>Streaming\<close>. The source tests for the marker DEFAULT in
  \<^verbatim>\<open>tryReadValue\<close> only (line 297), and \<^verbatim>\<open>readRow\<close> calls \<^verbatim>\<open>tryReadValue\<close> only for a column in
  \<^verbatim>\<open>Streaming\<close>. On that path the claim holds: a cell that is the marker in any case of
  letters, followed by the delimiter of the column, gets the default of the column's type
  appended and its bit in the mask set, whatever the type of the column and whatever the
  deserializers, the tokenizer, the parser and the evaluator are: none of them occurs in
  the result.
\<close>

theorem C3_default_in_streaming:
  assumes "parser_type_for_column s ! column_idx = Streaming"
    and "checkStringByFirstCharacterAndAssertTheRestCaseInsensitive ''DEFAULT''
           (setCheckpoint (skipWhitespaceIfAny (isWhitespaceASCII env) (buf s))) = (Inr True, b1)"
    and "checkDelimiterAfterValue env (skipWhitespaceIfAny (isWhitespaceASCII env) b1) column_idx
           = (True, b2)"
  shows "readRow_column env s columns row_num column_idx
     = (Inr (),
        s\<lparr>buf := b2,
          block_missing_values := insert (column_idx, row_num) (block_missing_values s)\<rparr>,
        columns[column_idx := columns ! column_idx @ [getDefault env (types env ! column_idx)]])"
proof -
  have p: "b1\<lparr>position := position b1\<rparr> = b1"
    by simp
  let ?s = "s\<lparr>buf := setCheckpoint (skipWhitespaceIfAny (isWhitespaceASCII env) (buf s))\<rparr>"
  have "tryReadValue env ?s (columns ! column_idx) column_idx
      = (Inr False, ?s\<lparr>buf := b2\<rparr>,
         columns ! column_idx @ [getDefault env (types env ! column_idx)])"
    using assms(2,3)
    by (simp add: tryReadValue_def tryReadValue_try_def assertDelimiterAfterValue_def)
  with assms(1) show ?thesis
    by (simp add: readRow_column_def Let_def)
qed


theorem C10_tryReadValue_rollback_witness:
  "tryReadValue_try example_env (example_state ''1+2, 3)'') [] 0
     = (Inl (Exception CANNOT_PARSE_INPUT_ASSERTION_FAILED None),
        (example_state ''1+2, 3)'')\<lparr>buf := \<lparr>bytes = ''1+2, 3)'', position = 1, checkpoint = 0\<rparr>\<rparr>,
        [Int64 1], True)
   \<and> tryReadValue example_env (example_state ''1+2, 3)'') [] 0
     = parseExpression example_env
         ((example_state ''1+2, 3)'')\<lparr>buf := \<lparr>bytes = ''1+2, 3)'', position = 0, checkpoint = 0\<rparr>\<rparr>)
         [] 0"
proof -
  let ?s = "example_state ''1+2, 3)''"
  have b: "buf ?s = \<lparr>bytes = ''1+2, 3)'', position = 0, checkpoint = 0\<rparr>"
    by (simp add: example_state_def ValuesBlockInputFormat_ctor_def)
  have d: "tryReadValue_deserialize example_env 0 [] (buf ?s) = (Inr True, [Int64 1], 1)"
    by code_simp
  have t: "tryReadValue_try example_env ?s [] 0
     = (Inl (Exception CANNOT_PARSE_INPUT_ASSERTION_FAILED None),
        ?s\<lparr>buf := \<lparr>bytes = ''1+2, 3)'', position = 1, checkpoint = 0\<rparr>\<rparr>, [Int64 1], True)"
    by code_simp
  have c: "case tryReadValue_deserialize example_env 0 [] (buf ?s) of
             (Inl e', c, p) \<Rightarrow> c = []
           | (Inr r, c, p) \<Rightarrow> length c = length ([]::IColumn) + 1 \<and> take (length ([]::IColumn)) c = []"
    by (simp add: d)
  have e: "isParseError example_env
             (code (Exception CANNOT_PARSE_INPUT_ASSERTION_FAILED None))"
    "code (Exception CANNOT_PARSE_INPUT_ASSERTION_FAILED None) \<noteq> ARGUMENT_OUT_OF_BOUND"
    by (simp_all add: example_env_def example_isParseError_def)
  from C10_tryReadValue_rollback [OF c t e] t b show ?thesis
    by simp
qed

theorem C5_tryReadValue_propagates_witness:
  "tryReadValue
      (example_env\<lparr>deserializeTextQuoted :=
         (\<lambda>i c b. (Inl (Exception ARGUMENT_OUT_OF_BOUND None), c, position b + 1))\<rparr>)
      (example_state ''9, 1)'') [] 0
     = (Inl (Exception ARGUMENT_OUT_OF_BOUND None),
        (example_state ''9, 1)'')\<lparr>buf := \<lparr>bytes = ''9, 1)'', position = 1, checkpoint = 0\<rparr>\<rparr>,
        [])
   \<and> tryReadValue
      (example_env\<lparr>deserializeTextQuoted :=
         (\<lambda>i c b. (Inl (Exception LOGICAL_ERROR None), c, position b + 1))\<rparr>)
      (example_state ''9, 1)'') [] 0
     = (Inl (Exception LOGICAL_ERROR None),
        (example_state ''9, 1)'')\<lparr>buf := \<lparr>bytes = ''9, 1)'', position = 1, checkpoint = 0\<rparr>\<rparr>,
        [])
   \<and> tryReadValue example_env (example_state ''a+1, 1)'') [] 0
     = parseExpression example_env
         ((example_state ''a+1, 1)'')\<lparr>buf := \<lparr>bytes = ''a+1, 1)'', position = 0, checkpoint = 0\<rparr>\<rparr>)
         [] 0"
proof -
  let ?e1 = "example_env\<lparr>deserializeTextQuoted :=
         (\<lambda>i c b. (Inl (Exception ARGUMENT_OUT_OF_BOUND None), c, position b + 1))\<rparr>"
  let ?e2 = "example_env\<lparr>deserializeTextQuoted :=
         (\<lambda>i c b. (Inl (Exception LOGICAL_ERROR None), c, position b + 1))\<rparr>"
  let ?s = "example_state ''9, 1)''"
  let ?t = "example_state ''a+1, 1)''"
  have b: "buf ?s = \<lparr>bytes = ''9, 1)'', position = 0, checkpoint = 0\<rparr>"
    "buf ?t = \<lparr>bytes = ''a+1, 1)'', position = 0, checkpoint = 0\<rparr>"
    by (simp_all add: example_state_def ValuesBlockInputFormat_ctor_def)
  have d: "checkStringByFirstCharacterAndAssertTheRestCaseInsensitive ''DEFAULT'' (buf ?s)
             = (Inr False, buf ?s)"
    "checkStringByFirstCharacterAndAssertTheRestCaseInsensitive ''DEFAULT'' (buf ?t)
             = (Inr False, buf ?t)"
    by code_simp+
  have r: "tryReadValue_deserialize ?e1 0 [] (buf ?s)
             = (Inl (Exception ARGUMENT_OUT_OF_BOUND None), [], 1)"
    "tryReadValue_deserialize ?e2 0 [] (buf ?s) = (Inl (Exception LOGICAL_ERROR None), [], 1)"
    "tryReadValue_deserialize example_env 0 [] (buf ?t) = (Inl (Exception (OtherError 72) None), [], 0)"
    by code_simp+
  have e: "isParseError ?e2 LOGICAL_ERROR = False"
    "isParseError example_env (OtherError 72)"
    by (simp_all add: example_env_def example_isParseError_def)
  from C5_tryReadValue_propagates [OF d(1) r(1)] C5_tryReadValue_propagates [OF d(1) r(2)]
    C5_tryReadValue_propagates [OF d(2) r(3)] e b
  show ?thesis
    by simp
qed

theorem C3_default_in_streaming_witness:
  "readRow_column example_env (example_state ''  Default , 5)'') [[], []] 0 0
     = (Inr (),
        (example_state ''  Default , 5)'')
          \<lparr>buf := \<lparr>bytes = ''  Default , 5)'', position = 11, checkpoint = 2\<rparr>,
            block_missing_values := {(0, 0)}\<rparr>,
        [[Int64 0], []])"
proof -
  let ?s = "example_state ''  Default , 5)''"
  have p: "parser_type_for_column ?s ! 0 = Streaming"
    by (simp add: example_state_def ValuesBlockInputFormat_ctor_def)
  have d: "checkStringByFirstCharacterAndAssertTheRestCaseInsensitive ''DEFAULT''
           (setCheckpoint (skipWhitespaceIfAny (isWhitespaceASCII example_env) (buf ?s)))
         = (Inr True, \<lparr>bytes = ''  Default , 5)'', position = 9, checkpoint = 2\<rparr>)"
    by code_simp
  have c: "checkDelimiterAfterValue example_env
           (skipWhitespaceIfAny (isWhitespaceASCII example_env)
              \<lparr>bytes = ''  Default , 5)'', position = 9, checkpoint = 2\<rparr>) 0
         = (True, \<lparr>bytes = ''  Default , 5)'', position = 11, checkpoint = 2\<rparr>)"
    by code_simp
  have m: "block_missing_values ?s = {}" "[[], []] ! 0 = ([]::IColumn)"
    "getDefault example_env (types example_env ! 0) = Int64 0"
    by (simp_all add: example_state_def ValuesBlockInputFormat_ctor_def example_env_def
        example_getDefault_def)
  from C3_default_in_streaming [OF p d c, of "[[], []]" 0] m show ?thesis
    by simp
qed

text \<open>
  C3, for a column in one of the two other states: the source does not do what the claim
  asks. \<^verbatim>\<open>readRow\<close> hands the cell to \<^verbatim>\<open>tryParseExpressionUsingTemplate\<close> or to
  \<^verbatim>\<open>parseExpression\<close>, and neither tests for the marker. With the second (last) column in
  \<^verbatim>\<open>SingleExpressionEvaluation\<close> and the cell \<^verbatim>\<open>default)\<close>, the cell is tokenized and parsed
  as an expression (a name), and the evaluation of the name throws; no default is appended
  and no bit is set. With the column in \<^verbatim>\<open>BatchTemplate\<close>, the template does not match, its
  accumulated row is flushed, and \<^verbatim>\<open>parseExpression\<close> does the same. Read from the start,
  the rows \<^verbatim>\<open>(1, 2), (3, default)\<close> give a batch of two rows with the bit of the second
  column in the second row set, while the rows \<^verbatim>\<open>(1, 1+2), (3, default)\<close>, whose first row
  leaves the second column in \<^verbatim>\<open>BatchTemplate\<close>, end in the exception of the evaluator.
\<close>

theorem C3_default_not_streaming_counterexample:
  "readRow_column example_env
      ((example_state ''default)'')
         \<lparr>parser_type_for_column := [Streaming, SingleExpressionEvaluation]\<rparr>) [[], []] 0 1
     = (Inl (Exception (OtherError 47) None),
        (example_state ''default)'')
          \<lparr>buf := \<lparr>bytes = ''default)'', position = 8, checkpoint = 0\<rparr>,
            tokens := Some [\<lparr>tok_type = Identifier, tok_begin = 0\<rparr>,
                            \<lparr>tok_type = ClosingRoundBracket, tok_begin = 7\<rparr>,
                            \<lparr>tok_type = EndOfStream, tok_begin = 8\<rparr>],
            token_iterator := Some 2,
            parser_type_for_column := [Streaming, SingleExpressionEvaluation]\<rparr>,
        [[], []])
   \<and> fst (readRow_column example_env
      ((example_state ''default)'')
         \<lparr>parser_type_for_column := [Streaming, BatchTemplate],
           templates := [None, Some \<lparr>shape = ASTFunction, rows = [4]\<rparr>]\<rparr>) [[], []] 0 1)
     = Inl (Exception (OtherError 47) None)
   \<and> block_missing_values (fst (snd (readRow_column example_env
      ((example_state ''default)'')
         \<lparr>parser_type_for_column := [Streaming, BatchTemplate],
           templates := [None, Some \<lparr>shape = ASTFunction, rows = [4]\<rparr>]\<rparr>) [[], []] 0 1)))
     = {}
   \<and> snd (snd (readRow_column example_env
      ((example_state ''default)'')
         \<lparr>parser_type_for_column := [Streaming, BatchTemplate],
           templates := [None, Some \<lparr>shape = ASTFunction, rows = [4]\<rparr>]\<rparr>) [[], []] 0 1))
     = [[], [Int64 4]]
   \<and> fst (read example_env (example_state ''(1, 2), (3, default)''))
     = Inr (Some (Chunk [[Int64 1, Int64 3], [Int64 2, Int64 0]] 2))
   \<and> block_missing_values (snd (read example_env (example_state ''(1, 2), (3, default)'')))
     = {(1, 1)}
   \<and> fst (read example_env (example_state ''(1, 1+2), (3, default)''))
     = Inl (Exception (OtherError 47) None)
   \<and> block_missing_values (snd (read example_env (example_state ''(1, 1+2), (3, default)'')))
     = {}"
  by code_simp

section \<open>Properties of the full-expression path\<close>

text \<open>
  C4. Whenever \<^verbatim>\<open>parseExpression\<close> returns without an exception, the expression parser
  has parsed an expression from the iterator \<open>ti\<close> to the iterator \<open>ti'\<close>, and the token
  at \<open>ti'\<close>, the one that follows the expression, is a comma when the column is not
  the last one and the closing round bracket when it is. The check is on that one token:
  the source does not accept a comma before the closing bracket here, so the condition
  that the claim states for the last column (the closing bracket, optionally preceded by
  a comma) is implied.
\<close>

theorem C4_parseExpression_delimiter:
  assumes "parseExpression env s column column_idx = (Inr rd, s', column')"
  shows "\<exists>toks ti s1 ti' ast.
           readUntilTheEndOfRowAndReTokenize env s = (Inr (toks, ti), s1)
         \<and> parser_parse env toks ti = Inr (Some (ti', ast))
         \<and> tok_type (tokenAt toks ti')
             = (if column_idx + 1 \<noteq> num_columns env then Comma else ClosingRoundBracket)"
proof -
  obtain r1 s1 where p: "parseExpression_parse env s column_idx = (r1, s1)"
    by (cases "parseExpression_parse env s column_idx")
  with assms obtain toks ti_start ti ast where r1: "r1 = Inr (toks, ti_start, ti, ast)"
    by (cases r1) (auto simp: parseExpression_def)
  from p [unfolded r1] show ?thesis
    by (auto simp: parseExpression_parse_def
        split: prod.splits sum.splits if_splits option.splits)
qed


theorem C4_parseExpression_delimiter_witness:
  "(\<exists>toks ti s1 ti' ast.
      readUntilTheEndOfRowAndReTokenize example_env (example_state ''a+1, 2)'')
        = (Inr (toks, ti), s1)
    \<and> example_parse toks ti = Inr (Some (ti', ast))
    \<and> tok_type (tokenAt toks ti') = Comma)
   \<and> (\<exists>toks ti s1 ti' ast.
      readUntilTheEndOfRowAndReTokenize example_env (example_state ''a+1 )'')
        = (Inr (toks, ti), s1)
    \<and> example_parse toks ti = Inr (Some (ti', ast))
    \<and> tok_type (tokenAt toks ti') = ClosingRoundBracket)
   \<and> fst (parseExpression example_env (example_state ''a+1 , )'') [] 1)
       = Inl (Exception SYNTAX_ERROR None)"
proof -
  have a: "fst (parseExpression example_env (example_state ''a+1, 2)'') [] 0) = Inr True"
    and b: "fst (parseExpression example_env (example_state ''a+1 )'') [] 1) = Inr True"
    and c: "fst (parseExpression example_env (example_state ''a+1 , )'') [] 1)
       = Inl (Exception SYNTAX_ERROR None)"
    by code_simp+
  have n: "num_columns example_env = 2" "parser_parse example_env = example_parse"
    by (simp_all add: example_env_def)
  from a obtain s' c' where
    "parseExpression example_env (example_state ''a+1, 2)'') [] 0 = (Inr True, s', c')"
    by (metis prod.collapse)
  from C4_parseExpression_delimiter [OF this] n
  have x: "\<exists>toks ti s1 ti' ast.
      readUntilTheEndOfRowAndReTokenize example_env (example_state ''a+1, 2)'')
        = (Inr (toks, ti), s1)
    \<and> example_parse toks ti = Inr (Some (ti', ast))
    \<and> tok_type (tokenAt toks ti') = Comma"
    by simp
  from b obtain s'' c'' where
    "parseExpression example_env (example_state ''a+1 )'') [] 1 = (Inr True, s'', c'')"
    by (metis prod.collapse)
  from C4_parseExpression_delimiter [OF this] n
  have y: "\<exists>toks ti s1 ti' ast.
      readUntilTheEndOfRowAndReTokenize example_env (example_state ''a+1 )'')
        = (Inr (toks, ti), s1)
    \<and> example_parse toks ti = Inr (Some (ti', ast))
    \<and> tok_type (tokenAt toks ti') = ClosingRoundBracket"
    by simp
  from x y c show ?thesis
    by blast
qed

lemma parseExpression_probe_column:
  assumes "case deserializeTextQuoted env column_idx column (buf s) of
             (Inl e', c, p) \<Rightarrow> c = column
           | (Inr r, c, p) \<Rightarrow> popBack 1 c = column"
    and "parseExpression_probe env s column column_idx ast = (Inr False, s2, column2)"
  shows "column2 = column"
  using assms
  by (auto simp: parseExpression_probe_def split: if_splits prod.splits sum.splits bool.splits)

text \<open>
  C6. The hypotheses say that \<^verbatim>\<open>parseExpression\<close>, entered with the state \<open>s\<close> and the column
  \<open>column\<close>, reaches the evaluation of the expression (it parses, the probe of the literal
  deserializer does not succeed, no template takes the row, and expressions are
  interpreted) and that the value, after the replacement of nested nulls and the
  conversion to the column's type, is null, for a column type that is neither Nullable
  nor LowCardinality(Nullable). Then, with null-as-default on, the default of the type is
  appended and \<^verbatim>\<open>parseExpression\<close> returns false; with it off, the buffer is at the
  checkpoint, the exception is \<^verbatim>\<open>TYPE_MISMATCH\<close> and nothing is appended. \<open>column2\<close> is the
  column after the probe, which is the column at entry when the deserializer keeps its
  contract. With null-as-default on, \<^verbatim>\<open>readRow\<close> sets the bit of the cell on each of the
  three ways by which it enters \<^verbatim>\<open>parseExpression\<close>: directly, for a column in
  \<^verbatim>\<open>SingleExpressionEvaluation\<close>; for a column in \<^verbatim>\<open>Streaming\<close>, after \<^verbatim>\<open>tryReadValue\<close> has
  caught a parse error other than \<^verbatim>\<open>ARGUMENT_OUT_OF_BOUND\<close> and has rolled back; and for a
  column in \<^verbatim>\<open>BatchTemplate\<close>, after the template did not match the row and its
  accumulated rows were flushed.
\<close>

theorem C6_null_into_non_nullable:
  assumes "parseExpression_parse env s column_idx = (Inr (toks, ti_start, ti, ast), s1)"
    and "parseExpression_probe env s1 column column_idx ast = (Inr False, s2, column2)"
    and "parseExpression_deduce env
           (s2\<lparr>parser_type_for_column :=
                 (parser_type_for_column s2)[column_idx := SingleExpressionEvaluation]\<rparr>)
           column_idx toks ti_start ti ast = (Inr False, s3)"
    and "interpret_expressions (format_settings env)"
    and "evaluateConstantExpression env ast = Inr (value_raw, value_type)"
    and "(if null_as_default (format_settings env)
          then tryToReplaceNullFieldsInComplexTypesWithDefaultValues (getDefault env) value_raw
                 (types env ! column_idx)
          else Inr value_raw) = Inr expression_value"
    and "convertFieldToType env expression_value (types env ! column_idx) value_type = Inr val"
    and "isNull val"
    and "\<not> isNullable (types env ! column_idx)"
    and "\<not> isLowCardinalityNullable (types env ! column_idx)"
  shows "(null_as_default (format_settings env) \<longrightarrow>
            parseExpression env s column column_idx
              = (Inr False,
                 s3\<lparr>buf := (buf s3)\<lparr>position := tok_begin (tokenAt toks ti)\<rparr>\<rparr>,
                 column2 @ [getDefault env (types env ! column_idx)]))
     \<and> (\<not> null_as_default (format_settings env) \<longrightarrow>
            parseExpression env s column column_idx
              = (Inl (Exception TYPE_MISMATCH None),
                 s3\<lparr>buf := (buf s3)\<lparr>position := checkpoint (buf s3)\<rparr>\<rparr>,
                 column2))
     \<and> ((case deserializeTextQuoted env column_idx column (buf s1) of
             (Inl e', c, p) \<Rightarrow> c = column
           | (Inr r, c, p) \<Rightarrow> popBack 1 c = column) \<longrightarrow> column2 = column)
     \<and> (null_as_default (format_settings env)
          \<and> parser_type_for_column s0 ! column_idx = SingleExpressionEvaluation
          \<and> s = s0\<lparr>buf := setCheckpoint (skipWhitespaceIfAny (isWhitespaceASCII env) (buf s0))\<rparr>
          \<and> column = columns ! column_idx \<longrightarrow>
            readRow_column env s0 columns row_num column_idx
              = (Inr (),
                 s3\<lparr>buf := (buf s3)\<lparr>position := tok_begin (tokenAt toks ti)\<rparr>,
                    block_missing_values := insert (column_idx, row_num) (block_missing_values s3)\<rparr>,
                 columns[column_idx := column2 @ [getDefault env (types env ! column_idx)]]))
     \<and> (null_as_default (format_settings env)
          \<and> parser_type_for_column s0 ! column_idx = Streaming
          \<and> tryReadValue_try env
                (s0\<lparr>buf := setCheckpoint (skipWhitespaceIfAny (isWhitespaceASCII env) (buf s0))\<rparr>)
                (columns ! column_idx) column_idx = (Inl e, s_try, column_try, rollback_on_exception)
          \<and> isParseError env (code e) \<and> code e \<noteq> ARGUMENT_OUT_OF_BOUND
          \<and> s = s_try\<lparr>buf := rollbackToCheckpoint (buf s_try)\<rparr>
          \<and> column = (if rollback_on_exception then popBack 1 column_try else column_try) \<longrightarrow>
            readRow_column env s0 columns row_num column_idx
              = (Inr (),
                 s3\<lparr>buf := (buf s3)\<lparr>position := tok_begin (tokenAt toks ti)\<rparr>,
                    block_missing_values := insert (column_idx, row_num) (block_missing_values s3)\<rparr>,
                 columns[column_idx := column2 @ [getDefault env (types env ! column_idx)]]))
     \<and> (null_as_default (format_settings env)
          \<and> parser_type_for_column s0 ! column_idx = BatchTemplate
          \<and> readUntilTheEndOfRowAndReTokenize env
                (s0\<lparr>buf := setCheckpoint (skipWhitespaceIfAny (isWhitespaceASCII env) (buf s0))\<rparr>)
              = (Inr (row_tokens, start), s_row)
          \<and> templates s_row ! column_idx = Some tpl
          \<and> template_parseExpression env tpl (buf s_row) row_tokens start = (Inr False, tpl_row, p_row, ti_row)
          \<and> template_evaluateAll env tpl_row (block_missing_values s_row) column_idx
                (types env ! column_idx)
                (if columns ! column_idx = [] then 0 else length (columns ! column_idx))
              = (Inr evaluated, tpl_flushed, missing)
          \<and> s = s_row\<lparr>templates := (templates s_row)[column_idx := None],
                    buf := rollbackToCheckpoint (buf s_row),
                    token_iterator := Some start,
                    block_missing_values := missing\<rparr>
          \<and> column = (if columns ! column_idx = [] then evaluated
                       else columns ! column_idx @ evaluated) \<longrightarrow>
            readRow_column env s0 columns row_num column_idx
              = (Inr (),
                 s3\<lparr>buf := (buf s3)\<lparr>position := tok_begin (tokenAt toks ti)\<rparr>,
                    block_missing_values := insert (column_idx, row_num) (block_missing_values s3)\<rparr>,
                 columns[column_idx := column2 @ [getDefault env (types env ! column_idx)]]))"
proof -
  have ev: "parseExpression env s column column_idx
      = parseExpression_evaluate env s3 column2 column_idx toks ti ast"
    using assms(1,2,3) by (simp add: parseExpression_def)
  have a: "parseExpression env s column column_idx
              = (Inr False,
                 s3\<lparr>buf := (buf s3)\<lparr>position := tok_begin (tokenAt toks ti)\<rparr>\<rparr>,
                 column2 @ [getDefault env (types env ! column_idx)])"
    if "null_as_default (format_settings env)"
    using that assms(4-10) by (simp add: ev parseExpression_evaluate_def)
  have b: "parseExpression env s column column_idx
              = (Inl (Exception TYPE_MISMATCH None),
                 s3\<lparr>buf := (buf s3)\<lparr>position := checkpoint (buf s3)\<rparr>\<rparr>,
                 column2)"
    if "\<not> null_as_default (format_settings env)"
    using that assms(4-10)
    by (simp add: ev parseExpression_evaluate_def rollbackToCheckpoint_def)
  have c: "column2 = column"
    if "case deserializeTextQuoted env column_idx column (buf s1) of
             (Inl e', c, p) \<Rightarrow> c = column
           | (Inr r, c, p) \<Rightarrow> popBack 1 c = column"
    using parseExpression_probe_column [OF that assms(2)] .
  have d: "readRow_column env s0 columns row_num column_idx
              = (Inr (),
                 s3\<lparr>buf := (buf s3)\<lparr>position := tok_begin (tokenAt toks ti)\<rparr>,
                    block_missing_values := insert (column_idx, row_num) (block_missing_values s3)\<rparr>,
                 columns[column_idx := column2 @ [getDefault env (types env ! column_idx)]])"
    if "null_as_default (format_settings env)"
      and "parser_type_for_column s0 ! column_idx = SingleExpressionEvaluation"
      and "s = s0\<lparr>buf := setCheckpoint (skipWhitespaceIfAny (isWhitespaceASCII env) (buf s0))\<rparr>"
      and "column = columns ! column_idx"
    using that(2) a [OF that(1), unfolded that(3,4)]
    by (simp add: readRow_column_def Let_def)
  have f: "readRow_column env s0 columns row_num column_idx
              = (Inr (),
                 s3\<lparr>buf := (buf s3)\<lparr>position := tok_begin (tokenAt toks ti)\<rparr>,
                    block_missing_values := insert (column_idx, row_num) (block_missing_values s3)\<rparr>,
                 columns[column_idx := column2 @ [getDefault env (types env ! column_idx)]])"
    if "null_as_default (format_settings env)"
      and "parser_type_for_column s0 ! column_idx = Streaming"
      and "tryReadValue_try env
                (s0\<lparr>buf := setCheckpoint (skipWhitespaceIfAny (isWhitespaceASCII env) (buf s0))\<rparr>)
                (columns ! column_idx) column_idx = (Inl e, s_try, column_try, rollback_on_exception)"
      and "isParseError env (code e)" and "code e \<noteq> ARGUMENT_OUT_OF_BOUND"
      and "s = s_try\<lparr>buf := rollbackToCheckpoint (buf s_try)\<rparr>"
      and "column = (if rollback_on_exception then popBack 1 column_try else column_try)"
  proof -
    have "tryReadValue env
            (s0\<lparr>buf := setCheckpoint (skipWhitespaceIfAny (isWhitespaceASCII env) (buf s0))\<rparr>)
            (columns ! column_idx) column_idx
        = parseExpression env s column column_idx"
      using that(3-7) by (simp add: tryReadValue_def)
    with a [OF that(1)] that(2) show ?thesis
      by (simp add: readRow_column_def Let_def)
  qed
  have g: "readRow_column env s0 columns row_num column_idx
              = (Inr (),
                 s3\<lparr>buf := (buf s3)\<lparr>position := tok_begin (tokenAt toks ti)\<rparr>,
                    block_missing_values := insert (column_idx, row_num) (block_missing_values s3)\<rparr>,
                 columns[column_idx := column2 @ [getDefault env (types env ! column_idx)]])"
    if "null_as_default (format_settings env)"
      and "parser_type_for_column s0 ! column_idx = BatchTemplate"
      and "readUntilTheEndOfRowAndReTokenize env
                (s0\<lparr>buf := setCheckpoint (skipWhitespaceIfAny (isWhitespaceASCII env) (buf s0))\<rparr>)
              = (Inr (row_tokens, start), s_row)"
      and "templates s_row ! column_idx = Some tpl"
      and "template_parseExpression env tpl (buf s_row) row_tokens start = (Inr False, tpl_row, p_row, ti_row)"
      and "template_evaluateAll env tpl_row (block_missing_values s_row) column_idx
                (types env ! column_idx)
                (if columns ! column_idx = [] then 0 else length (columns ! column_idx))
              = (Inr evaluated, tpl_flushed, missing)"
      and "s = s_row\<lparr>templates := (templates s_row)[column_idx := None],
                    buf := rollbackToCheckpoint (buf s_row),
                    token_iterator := Some start,
                    block_missing_values := missing\<rparr>"
      and "column = (if columns ! column_idx = [] then evaluated
                       else columns ! column_idx @ evaluated)"
  proof -
    have "tryParseExpressionUsingTemplate env
            (s0\<lparr>buf := setCheckpoint (skipWhitespaceIfAny (isWhitespaceASCII env) (buf s0))\<rparr>)
            (columns ! column_idx) column_idx
        = parseExpression env s column column_idx"
      using that(3-8) by (simp add: tryParseExpressionUsingTemplate_def)
    with a [OF that(1)] that(2) show ?thesis
      by (simp add: readRow_column_def Let_def)
  qed
  show ?thesis
  proof (intro conjI impI)
    assume "null_as_default (format_settings env)"
    then show "parseExpression env s column column_idx
              = (Inr False,
                 s3\<lparr>buf := (buf s3)\<lparr>position := tok_begin (tokenAt toks ti)\<rparr>\<rparr>,
                 column2 @ [getDefault env (types env ! column_idx)])"
      by (rule a)
  next
    assume "\<not> null_as_default (format_settings env)"
    then show "parseExpression env s column column_idx
              = (Inl (Exception TYPE_MISMATCH None),
                 s3\<lparr>buf := (buf s3)\<lparr>position := checkpoint (buf s3)\<rparr>\<rparr>,
                 column2)"
      by (rule b)
  next
    assume "case deserializeTextQuoted env column_idx column (buf s1) of
             (Inl e', c, p) \<Rightarrow> c = column
           | (Inr r, c, p) \<Rightarrow> popBack 1 c = column"
    then show "column2 = column"
      by (rule c)
  next
    assume "null_as_default (format_settings env)
          \<and> parser_type_for_column s0 ! column_idx = SingleExpressionEvaluation
          \<and> s = s0\<lparr>buf := setCheckpoint (skipWhitespaceIfAny (isWhitespaceASCII env) (buf s0))\<rparr>
          \<and> column = columns ! column_idx"
    then show "readRow_column env s0 columns row_num column_idx
              = (Inr (),
                 s3\<lparr>buf := (buf s3)\<lparr>position := tok_begin (tokenAt toks ti)\<rparr>,
                    block_missing_values := insert (column_idx, row_num) (block_missing_values s3)\<rparr>,
                 columns[column_idx := column2 @ [getDefault env (types env ! column_idx)]])"
      using d by blast
  next
    assume "null_as_default (format_settings env)
          \<and> parser_type_for_column s0 ! column_idx = Streaming
          \<and> tryReadValue_try env
                (s0\<lparr>buf := setCheckpoint (skipWhitespaceIfAny (isWhitespaceASCII env) (buf s0))\<rparr>)
                (columns ! column_idx) column_idx = (Inl e, s_try, column_try, rollback_on_exception)
          \<and> isParseError env (code e) \<and> code e \<noteq> ARGUMENT_OUT_OF_BOUND
          \<and> s = s_try\<lparr>buf := rollbackToCheckpoint (buf s_try)\<rparr>
          \<and> column = (if rollback_on_exception then popBack 1 column_try else column_try)"
    then show "readRow_column env s0 columns row_num column_idx
              = (Inr (),
                 s3\<lparr>buf := (buf s3)\<lparr>position := tok_begin (tokenAt toks ti)\<rparr>,
                    block_missing_values := insert (column_idx, row_num) (block_missing_values s3)\<rparr>,
                 columns[column_idx := column2 @ [getDefault env (types env ! column_idx)]])"
      using f by blast
  next
    assume "null_as_default (format_settings env)
          \<and> parser_type_for_column s0 ! column_idx = BatchTemplate
          \<and> readUntilTheEndOfRowAndReTokenize env
                (s0\<lparr>buf := setCheckpoint (skipWhitespaceIfAny (isWhitespaceASCII env) (buf s0))\<rparr>)
              = (Inr (row_tokens, start), s_row)
          \<and> templates s_row ! column_idx = Some tpl
          \<and> template_parseExpression env tpl (buf s_row) row_tokens start = (Inr False, tpl_row, p_row, ti_row)
          \<and> template_evaluateAll env tpl_row (block_missing_values s_row) column_idx
                (types env ! column_idx)
                (if columns ! column_idx = [] then 0 else length (columns ! column_idx))
              = (Inr evaluated, tpl_flushed, missing)
          \<and> s = s_row\<lparr>templates := (templates s_row)[column_idx := None],
                    buf := rollbackToCheckpoint (buf s_row),
                    token_iterator := Some start,
                    block_missing_values := missing\<rparr>
          \<and> column = (if columns ! column_idx = [] then evaluated
                       else columns ! column_idx @ evaluated)"
    then show "readRow_column env s0 columns row_num column_idx
              = (Inr (),
                 s3\<lparr>buf := (buf s3)\<lparr>position := tok_begin (tokenAt toks ti)\<rparr>,
                    block_missing_values := insert (column_idx, row_num) (block_missing_values s3)\<rparr>,
                 columns[column_idx := column2 @ [getDefault env (types env ! column_idx)]])"
      using g by blast
  qed
qed


theorem C6_null_into_non_nullable_witness:
  "fst (parseExpression (example_null_env True)
          ((example_state ''a, 1)'')
             \<lparr>parser_type_for_column := [SingleExpressionEvaluation, Streaming]\<rparr>) [] 0)
     = Inr False
   \<and> snd (snd (parseExpression (example_null_env True)
          ((example_state ''a, 1)'')
             \<lparr>parser_type_for_column := [SingleExpressionEvaluation, Streaming]\<rparr>) [] 0))
     = [Int64 0]
   \<and> (0, 0) \<in> block_missing_values (fst (snd (readRow_column (example_null_env True)
          ((example_state ''a, 1)'')
             \<lparr>parser_type_for_column := [SingleExpressionEvaluation, Streaming]\<rparr>)
          [[], []] 0 0)))
   \<and> fst (parseExpression (example_null_env False)
          ((example_state ''a, 1)'')
             \<lparr>parser_type_for_column := [SingleExpressionEvaluation, Streaming]\<rparr>) [] 0)
     = Inl (Exception TYPE_MISMATCH None)
   \<and> snd (snd (parseExpression (example_null_env False)
          ((example_state ''a, 1)'')
             \<lparr>parser_type_for_column := [SingleExpressionEvaluation, Streaming]\<rparr>) [] 0))
     = []
   \<and> position (buf (fst (snd (parseExpression (example_null_env False)
          ((example_state ''a, 1)'')
             \<lparr>parser_type_for_column := [SingleExpressionEvaluation, Streaming]\<rparr>) [] 0))))
     = 0
   \<and> (0, 0) \<in> block_missing_values (fst (snd (readRow_column (example_null_env True)
          (example_state ''a, 1)'') [[], []] 0 0)))
   \<and> snd (snd (readRow_column (example_null_env True)
          (example_state ''a, 1)'') [[], []] 0 0))
     = [[Int64 0], []]
   \<and> (0, 1) \<in> block_missing_values (fst (snd (readRow_column (example_null_env True)
          ((example_state ''a, 1)'')
             \<lparr>parser_type_for_column := [BatchTemplate, Streaming],
               templates := [Some \<lparr>shape = ASTFunction, rows = [4]\<rparr>, None]\<rparr>)
          [[Int64 9], []] 1 0)))
   \<and> snd (snd (readRow_column (example_null_env True)
          ((example_state ''a, 1)'')
             \<lparr>parser_type_for_column := [BatchTemplate, Streaming],
               templates := [Some \<lparr>shape = ASTFunction, rows = [4]\<rparr>, None]\<rparr>)
          [[Int64 9], []] 1 0))
     = [[Int64 9, Int64 4, Int64 0], []]"
proof -
  let ?s = "(example_state ''a, 1)'')
             \<lparr>parser_type_for_column := [SingleExpressionEvaluation, Streaming]\<rparr>"
  let ?toks = "[\<lparr>tok_type = Identifier, tok_begin = 0\<rparr>, \<lparr>tok_type = Comma, tok_begin = 1\<rparr>,
                \<lparr>tok_type = Literal, tok_begin = 3\<rparr>,
                \<lparr>tok_type = ClosingRoundBracket, tok_begin = 4\<rparr>,
                \<lparr>tok_type = EndOfStream, tok_begin = 5\<rparr>]"
  have facts: "\<And>flag.
       interpret_expressions (format_settings (example_null_env flag))
     \<and> null_as_default (format_settings (example_null_env flag)) = flag
     \<and> evaluateConstantExpression (example_null_env flag) ASTIdentifier
         = Inr (Null, DataTypeNullable DataTypeInt32)
     \<and> types (example_null_env flag) ! 0 = DataTypeInt32
     \<and> convertFieldToType (example_null_env flag) Null DataTypeInt32
           (DataTypeNullable DataTypeInt32) = Inr Null
     \<and> getDefault (example_null_env flag) DataTypeInt32 = Int64 0
     \<and> isWhitespaceASCII (example_null_env flag) = example_isWhitespaceASCII"
    by (simp add: example_null_env_def example_env_def example_getDefault_def)
  have repl: "\<And>flag. (if flag
          then tryToReplaceNullFieldsInComplexTypesWithDefaultValues
                 (getDefault (example_null_env flag)) Null DataTypeInt32
          else Inr Null) = Inr Null"
    by simp
  have prep: "?s = ?s\<lparr>buf := setCheckpoint
                 (skipWhitespaceIfAny example_isWhitespaceASCII (buf ?s))\<rparr>"
    by (simp add: example_state_def ValuesBlockInputFormat_ctor_def setCheckpoint_def
        skipWhitespaceIfAny_def example_isWhitespaceASCII_def)
  have st: "parser_type_for_column ?s ! 0 = SingleExpressionEvaluation"
    "[[], []] ! 0 = ([]::IColumn)"
    "checkpoint (buf ?s) = 0"
    by (simp_all add: example_state_def ValuesBlockInputFormat_ctor_def)
  have run: "parseExpression_parse (example_null_env flag) ?s 0
        = (Inr (?toks, 0, 2, ASTIdentifier), snd (parseExpression_parse (example_null_env flag) ?s 0))
     \<and> parseExpression_probe (example_null_env flag)
          (snd (parseExpression_parse (example_null_env flag) ?s 0)) [] 0 ASTIdentifier
        = (Inr False,
           fst (snd (parseExpression_probe (example_null_env flag)
                  (snd (parseExpression_parse (example_null_env flag) ?s 0)) [] 0 ASTIdentifier)),
           [])
     \<and> parseExpression_deduce (example_null_env flag)
          ((fst (snd (parseExpression_probe (example_null_env flag)
                  (snd (parseExpression_parse (example_null_env flag) ?s 0)) [] 0 ASTIdentifier)))
             \<lparr>parser_type_for_column :=
                (parser_type_for_column
                   (fst (snd (parseExpression_probe (example_null_env flag)
                      (snd (parseExpression_parse (example_null_env flag) ?s 0)) [] 0
                      ASTIdentifier))))
                  [0 := SingleExpressionEvaluation]\<rparr>)
          0 ?toks 0 2 ASTIdentifier
        = (Inr False,
           snd (parseExpression_deduce (example_null_env flag)
          ((fst (snd (parseExpression_probe (example_null_env flag)
                  (snd (parseExpression_parse (example_null_env flag) ?s 0)) [] 0 ASTIdentifier)))
             \<lparr>parser_type_for_column :=
                (parser_type_for_column
                   (fst (snd (parseExpression_probe (example_null_env flag)
                      (snd (parseExpression_parse (example_null_env flag) ?s 0)) [] 0
                      ASTIdentifier))))
                  [0 := SingleExpressionEvaluation]\<rparr>)
          0 ?toks 0 2 ASTIdentifier))
     \<and> checkpoint (buf (snd (parseExpression_deduce (example_null_env flag)
          ((fst (snd (parseExpression_probe (example_null_env flag)
                  (snd (parseExpression_parse (example_null_env flag) ?s 0)) [] 0 ASTIdentifier)))
             \<lparr>parser_type_for_column :=
                (parser_type_for_column
                   (fst (snd (parseExpression_probe (example_null_env flag)
                      (snd (parseExpression_parse (example_null_env flag) ?s 0)) [] 0
                      ASTIdentifier))))
                  [0 := SingleExpressionEvaluation]\<rparr>)
          0 ?toks 0 2 ASTIdentifier))) = 0"
    for flag
    by (cases flag; simp only: prod_eq_iff fst_conv snd_conv; code_simp)
  note t = C6_null_into_non_nullable
    [where env = "example_null_env True" and s = ?s and column = "[]" and column_idx = 0
       and value_raw = Null and expression_value = Null and val = Null
       and s0 = ?s and columns = "[[], []]" and row_num = 0,
     OF run [of True, THEN conjunct1] run [of True, THEN conjunct2, THEN conjunct1]
        run [of True, THEN conjunct2, THEN conjunct2, THEN conjunct1]]
  note f = C6_null_into_non_nullable
    [where env = "example_null_env False" and s = ?s and column = "[]" and column_idx = 0
       and value_raw = Null and expression_value = Null and val = Null
       and s0 = ?s and columns = "[[], []]" and row_num = 0,
     OF run [of False, THEN conjunct1] run [of False, THEN conjunct2, THEN conjunct1]
        run [of False, THEN conjunct2, THEN conjunct2, THEN conjunct1]]
  from t facts [of True] repl [of True] prep st
  have a: "parseExpression (example_null_env True) ?s [] 0
      = (Inr False, fst (snd (parseExpression (example_null_env True) ?s [] 0)), [Int64 0])"
    and b: "(0, 0) \<in> block_missing_values (fst (snd (readRow_column (example_null_env True)
          ?s [[], []] 0 0)))"
    by simp_all
  from f facts [of False] repl [of False] run [of False]
  have c: "parseExpression (example_null_env False) ?s [] 0
      = (Inl (Exception TYPE_MISMATCH None),
         fst (snd (parseExpression (example_null_env False) ?s [] 0)), [])"
    and d: "position (buf (fst (snd (parseExpression (example_null_env False) ?s [] 0)))) = 0"
    by simp_all
  let ?E = "example_null_env True"
  let ?u = "example_state ''a, 1)''"
  let ?S = "?u\<lparr>buf := rollbackToCheckpoint (buf ?u)\<rparr>"
  let ?S1 = "?S\<lparr>tokens := Some ?toks, token_iterator := Some 2\<rparr>"
  let ?S3 = "?S1\<lparr>parser_type_for_column := [SingleExpressionEvaluation, Streaming]\<rparr>"
  have bt: "tryReadValue_try ?E
        (?u\<lparr>buf := setCheckpoint (skipWhitespaceIfAny (isWhitespaceASCII ?E) (buf ?u))\<rparr>)
        ([[], []] ! 0) 0
      = (Inl (Exception (OtherError 72) None), ?u, [], False)"
    by code_simp
  have be: "isParseError ?E (code (Exception (OtherError 72) None))"
    "code (Exception (OtherError 72) None) \<noteq> ARGUMENT_OUT_OF_BOUND"
    by (simp_all add: example_null_env_def example_env_def example_isParseError_def)
  have bp: "parseExpression_parse ?E ?S 0 = (Inr (?toks, 0, 2, ASTIdentifier), ?S1)"
    by code_simp
  have bq: "parseExpression_probe ?E ?S1 [] 0 ASTIdentifier = (Inr False, ?S1, [])"
    by code_simp
  have bd: "parseExpression_deduce ?E
        (?S1\<lparr>parser_type_for_column :=
               (parser_type_for_column ?S1)[0 := SingleExpressionEvaluation]\<rparr>)
        0 ?toks 0 2 ASTIdentifier
      = (Inr False, ?S3)"
    by code_simp
  have bs: "parser_type_for_column ?u ! 0 = Streaming"
    by (simp add: example_state_def ValuesBlockInputFormat_ctor_def)
  note rb = C6_null_into_non_nullable
    [where env = ?E and s = ?S and column = "[]" and column_idx = 0
       and value_raw = Null and expression_value = Null and val = Null
       and s0 = ?u and columns = "[[], []]" and row_num = 0
       and e = "Exception (OtherError 72) None" and s_try = ?u and column_try = "[]"
       and rollback_on_exception = False,
     OF bp bq bd]
  from rb facts [of True] repl [of True] bt be bs
  have e: "readRow_column ?E ?u [[], []] 0 0
      = (Inr (),
         ?S3\<lparr>buf := (buf ?S3)\<lparr>position := tok_begin (tokenAt ?toks 2)\<rparr>,
              block_missing_values := insert (0, 0) (block_missing_values ?S3)\<rparr>,
         [[], []][0 := [] @ [Int64 0]])"
    by simp
  let ?tpl = "\<lparr>shape = ASTFunction, rows = [4]\<rparr>"
  let ?v = "(example_state ''a, 1)'')
             \<lparr>parser_type_for_column := [BatchTemplate, Streaming],
               templates := [Some ?tpl, None]\<rparr>"
  let ?V1 = "?v\<lparr>tokens := Some ?toks, token_iterator := Some 0\<rparr>"
  let ?W = "?V1\<lparr>templates := (templates ?V1)[0 := None],
               buf := rollbackToCheckpoint (buf ?V1),
               token_iterator := Some 0,
               block_missing_values := {}\<rparr>"
  let ?W1 = "?W\<lparr>token_iterator := Some 2\<rparr>"
  let ?W3 = "?W1\<lparr>parser_type_for_column := [SingleExpressionEvaluation, Streaming]\<rparr>"
  have ct: "readUntilTheEndOfRowAndReTokenize ?E
        (?v\<lparr>buf := setCheckpoint (skipWhitespaceIfAny (isWhitespaceASCII ?E) (buf ?v))\<rparr>)
      = (Inr (?toks, 0), ?V1)"
    by code_simp
  have cm: "templates ?V1 ! 0 = Some ?tpl"
    by simp
  have cx: "template_parseExpression ?E ?tpl (buf ?V1) ?toks 0 = (Inr False, ?tpl, 0, 0)"
    by code_simp
  have cy: "template_evaluateAll ?E ?tpl (block_missing_values ?V1) 0 (types ?E ! 0)
        (if [[Int64 9], []] ! 0 = [] then 0 else length ([[Int64 9], []] ! 0))
      = (Inr [Int64 4], \<lparr>shape = ASTFunction, rows = []\<rparr>, {})"
    by (simp add: example_null_env_def example_env_def example_template_evaluateAll_def
        example_state_def ValuesBlockInputFormat_ctor_def)
  have cp: "parseExpression_parse ?E ?W 0 = (Inr (?toks, 0, 2, ASTIdentifier), ?W1)"
    by code_simp
  have cq: "parseExpression_probe ?E ?W1 [Int64 9, Int64 4] 0 ASTIdentifier
      = (Inr False, ?W1, [Int64 9, Int64 4])"
    by code_simp
  have cd: "parseExpression_deduce ?E
        (?W1\<lparr>parser_type_for_column :=
               (parser_type_for_column ?W1)[0 := SingleExpressionEvaluation]\<rparr>)
        0 ?toks 0 2 ASTIdentifier
      = (Inr False, ?W3)"
    by code_simp
  have cs: "parser_type_for_column ?v ! 0 = BatchTemplate"
    by simp
  note rc = C6_null_into_non_nullable
    [where env = ?E and s = ?W and column = "[Int64 9, Int64 4]" and column_idx = 0
       and value_raw = Null and expression_value = Null and val = Null
       and s0 = ?v and columns = "[[Int64 9], []]" and row_num = 1
       and row_tokens = ?toks and start = 0 and s_row = ?V1 and tpl = ?tpl and tpl_row = ?tpl
       and p_row = 0 and ti_row = 0 and evaluated = "[Int64 4]"
       and tpl_flushed = "\<lparr>shape = ASTFunction, rows = []\<rparr>" and missing = "{}",
     OF cp cq cd]
  from rc facts [of True] repl [of True] ct cm cx cy cs
  have g: "readRow_column ?E ?v [[Int64 9], []] 1 0
      = (Inr (),
         ?W3\<lparr>buf := (buf ?W3)\<lparr>position := tok_begin (tokenAt ?toks 2)\<rparr>,
              block_missing_values := insert (0, 1) (block_missing_values ?W3)\<rparr>,
         [[Int64 9], []][0 := [Int64 9, Int64 4] @ [Int64 0]])"
    by simp
  from a b c d e g show ?thesis
    by (simp add: prod_eq_iff)
qed

section \<open>Properties of the template path and of the end of the data\<close>

lemma reTokenize_frame:
  "reTokenize env s = (r, s1)
     \<Longrightarrow> templates s1 = templates s \<and> block_missing_values s1 = block_missing_values s
       \<and> parser_type_for_column s1 = parser_type_for_column s
       \<and> bytes (buf s1) = bytes (buf s) \<and> checkpoint (buf s1) = checkpoint (buf s)"
  by (auto simp: reTokenize_def Let_def rollbackToCheckpoint_def split: if_splits)

lemma readUntilTheEndOfRowAndReTokenize_cases:
  "(\<exists>toks ti. readUntilTheEndOfRowAndReTokenize env s
        = (Inr (toks, ti), s\<lparr>token_iterator := Some ti\<rparr>))
   \<or> (\<exists>ti. readUntilTheEndOfRowAndReTokenize env s
        = reTokenize env (s\<lparr>token_iterator := Some ti\<rparr>))
   \<or> readUntilTheEndOfRowAndReTokenize env s = reTokenize env s"
proof (cases "tokens s")
  case None
  then show ?thesis
    by (simp add: readUntilTheEndOfRowAndReTokenize_def)
next
  case toks: (Some toks)
  show ?thesis
  proof (cases "token_iterator s")
    case None
    with toks show ?thesis
      by (simp add: readUntilTheEndOfRowAndReTokenize_def)
  next
    case (Some ti)
    let ?ti = "advanceTokenIterator toks ti (position (buf s))"
    show ?thesis
    proof (cases "tok_begin (tokenAt toks ti) \<le> length (bytes (buf s))")
      case False
      with toks Some have "readUntilTheEndOfRowAndReTokenize env s = reTokenize env s"
        by (simp add: readUntilTheEndOfRowAndReTokenize_def)
      then show ?thesis
        by blast
    next
      case True
      show ?thesis
      proof (cases "\<not> isError (tokenAt toks ?ti) \<and> \<not> isEnd (tokenAt toks ?ti)")
        case True
        with toks Some \<open>tok_begin (tokenAt toks ti) \<le> length (bytes (buf s))\<close>
        have "readUntilTheEndOfRowAndReTokenize env s
            = (Inr (toks, ?ti), s\<lparr>token_iterator := Some ?ti\<rparr>)"
          by (simp add: readUntilTheEndOfRowAndReTokenize_def Let_def)
        then show ?thesis
          by blast
      next
        case False
        with toks Some \<open>tok_begin (tokenAt toks ti) \<le> length (bytes (buf s))\<close>
        have "readUntilTheEndOfRowAndReTokenize env s
            = reTokenize env (s\<lparr>token_iterator := Some ?ti\<rparr>)"
          by (auto simp: readUntilTheEndOfRowAndReTokenize_def Let_def)
        then show ?thesis
          by blast
      qed
    qed
  qed
qed

lemma readUntilTheEndOfRowAndReTokenize_frame:
  assumes "readUntilTheEndOfRowAndReTokenize env s = (r, s1)"
  shows "templates s1 = templates s \<and> block_missing_values s1 = block_missing_values s
       \<and> parser_type_for_column s1 = parser_type_for_column s
       \<and> bytes (buf s1) = bytes (buf s) \<and> checkpoint (buf s1) = checkpoint (buf s)"
proof -
  from readUntilTheEndOfRowAndReTokenize_cases [of env s]
  consider toks ti where "readUntilTheEndOfRowAndReTokenize env s
        = (Inr (toks, ti), s\<lparr>token_iterator := Some ti\<rparr>)"
    | ti where "readUntilTheEndOfRowAndReTokenize env s
        = reTokenize env (s\<lparr>token_iterator := Some ti\<rparr>)"
    | "readUntilTheEndOfRowAndReTokenize env s = reTokenize env s"
    by blast
  then show ?thesis
  proof cases
    case 1
    with assms show ?thesis
      by auto
  next
    case 2
    with assms have "reTokenize env (s\<lparr>token_iterator := Some ti\<rparr>) = (r, s1)"
      by simp
    from reTokenize_frame [OF this] show ?thesis
      by simp
  next
    case 3
    with assms have "reTokenize env s = (r, s1)"
      by simp
    from reTokenize_frame [OF this] show ?thesis .
  qed
qed

lemma parseExpression_probe_appends:
  assumes "\<forall>b. case deserializeTextQuoted env column_idx column b of
                 (Inl e', c, p) \<Rightarrow> c = column
               | (Inr r, c, p) \<Rightarrow> (\<exists>v. c = column @ [v])"
    and "parseExpression_probe env s column column_idx ast = (r, s1, column1)"
  shows "column1 = column \<or> (r = Inr True \<and> (\<exists>v. column1 = column @ [v]))"
proof (cases "parser_type_for_column s ! column_idx \<noteq> Streaming \<and> isASTLiteral env ast")
  case False
  with assms(2) show ?thesis
    by (auto simp: parseExpression_probe_def)
next
  case True
  obtain r0 c p where d: "deserializeTextQuoted env column_idx column (buf s) = (r0, c, p)"
    by (metis prod_cases3)
  have ct: "case r0 of Inl e' \<Rightarrow> c = column | Inr r \<Rightarrow> (\<exists>v. c = column @ [v])"
    using spec [OF assms(1), of "buf s"] d by (simp split: sum.splits)
  show ?thesis
  proof (cases r0)
    case (Inl e)
    with ct have "c = column"
      by simp
    moreover have "column1 = c"
      using assms(2) True d Inl by (simp add: parseExpression_probe_def split: if_splits)
    ultimately show ?thesis
      by simp
  next
    case (Inr u)
    with ct obtain v where "c = column @ [v]"
      by auto
    obtain ok b2 where cd: "checkDelimiterAfterValue env
                     (skipWhitespaceIfAny (isWhitespaceASCII env) ((buf s)\<lparr>position := p\<rparr>))
                     column_idx = (ok, b2)"
      by (metis prod.exhaust)
    show ?thesis
    proof (cases ok)
      case True
      with assms(2) \<open>parser_type_for_column s ! column_idx \<noteq> Streaming \<and> isASTLiteral env ast\<close>
        d Inr cd \<open>c = column @ [v]\<close>
      show ?thesis
        by (auto simp: parseExpression_probe_def)
    next
      case False
      with assms(2) \<open>parser_type_for_column s ! column_idx \<noteq> Streaming \<and> isASTLiteral env ast\<close>
        d Inr cd \<open>c = column @ [v]\<close>
      show ?thesis
        by (simp add: parseExpression_probe_def popBack_def)
    qed
  qed
qed

lemma parseExpression_evaluate_appends:
  "\<exists>vs. length vs \<le> 1
     \<and> snd (snd (parseExpression_evaluate env s column column_idx toks ti ast)) = column @ vs"
proof -
  have "snd (snd (parseExpression_evaluate env s column column_idx toks ti ast)) = column
      \<or> (\<exists>v. snd (snd (parseExpression_evaluate env s column column_idx toks ti ast))
             = column @ [v])"
    by (auto simp: parseExpression_evaluate_def Let_def split: sum.splits prod.splits)
  then show ?thesis
  proof
    assume "snd (snd (parseExpression_evaluate env s column column_idx toks ti ast)) = column"
    then have "length ([]::IColumn) \<le> 1
        \<and> snd (snd (parseExpression_evaluate env s column column_idx toks ti ast)) = column @ []"
      by simp
    then show ?thesis by blast
  next
    assume "\<exists>v. snd (snd (parseExpression_evaluate env s column column_idx toks ti ast))
             = column @ [v]"
    then obtain v where
      "snd (snd (parseExpression_evaluate env s column column_idx toks ti ast)) = column @ [v]"
      by blast
    then have "length [v] \<le> 1
        \<and> snd (snd (parseExpression_evaluate env s column column_idx toks ti ast)) = column @ [v]"
      by simp
    then show ?thesis by blast
  qed
qed

lemma parseExpression_appends:
  assumes "\<forall>b. case deserializeTextQuoted env column_idx column b of
                 (Inl e', c, p) \<Rightarrow> c = column
               | (Inr r, c, p) \<Rightarrow> (\<exists>v. c = column @ [v])"
  shows "\<exists>vs. length vs \<le> 1
           \<and> snd (snd (parseExpression env s column column_idx)) = column @ vs"
proof -
  have nil: "\<exists>vs. length vs \<le> 1 \<and> c = column @ vs" if "c = column" for c :: IColumn
    using that by (intro exI [of _ "[]"]) simp
  have one: "\<exists>vs. length vs \<le> 1 \<and> c = column @ vs" if "c = column @ [v]" for c :: IColumn and v
    using that by (intro exI [of _ "[v]"]) simp
  obtain r1 s1 where p: "parseExpression_parse env s column_idx = (r1, s1)"
    by (cases "parseExpression_parse env s column_idx")
  show ?thesis
  proof (cases r1)
    case (Inl e)
    with p have "snd (snd (parseExpression env s column column_idx)) = column"
      by (simp add: parseExpression_def)
    then show ?thesis
      by (rule nil)
  next
    case (Inr x)
    obtain toks ti_start ti ast where x: "x = (toks, ti_start, ti, ast)"
      by (cases x)
    obtain r2 s2 c2 where q: "parseExpression_probe env s1 column column_idx ast = (r2, s2, c2)"
      by (metis prod_cases3)
    from parseExpression_probe_appends [OF assms q]
    have c2: "c2 = column \<or> (r2 = Inr True \<and> (\<exists>v. c2 = column @ [v]))" .
    note u = parseExpression_unfold [OF p [unfolded Inr x] q]
    obtain r3 s3 where d: "parseExpression_deduce env
                       (s2\<lparr>parser_type_for_column :=
                             (parser_type_for_column s2)[column_idx := SingleExpressionEvaluation]\<rparr>)
                       column_idx toks ti_start ti ast = (r3, s3)"
      by (metis prod.exhaust)
    show ?thesis
    proof (cases r2)
      case (Inl e)
      with u c2 have "snd (snd (parseExpression env s column column_idx)) = column"
        by simp
      then show ?thesis
        by (rule nil)
    next
      case r2: (Inr b)
      show ?thesis
      proof (cases b)
        case True
        with u r2 have "snd (snd (parseExpression env s column column_idx)) = c2"
          by simp
        with c2 nil [of c2] one [of c2] show ?thesis
          by auto
      next
        case False
        with c2 r2 have cc: "c2 = column"
          by simp
        show ?thesis
        proof (cases r3)
          case (Inl e)
          with u r2 False d cc have "snd (snd (parseExpression env s column column_idx)) = column"
            by simp
          then show ?thesis
            by (rule nil)
        next
          case r3: (Inr b3)
          show ?thesis
          proof (cases b3)
            case True
            with u r2 \<open>\<not> b\<close> d cc r3
            have "snd (snd (parseExpression env s column column_idx)) = column"
              by simp
            then show ?thesis
              by (rule nil)
          next
            case b3: False
            with u r2 \<open>\<not> b\<close> d cc r3
            have "parseExpression env s column column_idx
                = parseExpression_evaluate env s3 column column_idx toks ti ast"
              by simp
            with parseExpression_evaluate_appends [of env s3 column column_idx toks ti ast]
            show ?thesis
              by simp
          qed
        qed
      qed
    qed
  qed
qed


lemma parseExpression_parse_templates:
  "templates (snd (parseExpression_parse env s column_idx)) = templates s"
proof -
  obtain r0 s1 where r: "readUntilTheEndOfRowAndReTokenize env s = (r0, s1)"
    by (cases "readUntilTheEndOfRowAndReTokenize env s")
  from readUntilTheEndOfRowAndReTokenize_frame [OF r] have t: "templates s1 = templates s"
    by simp
  show ?thesis
  proof (cases r0)
    case (Inl e)
    with r t show ?thesis
      by (simp add: parseExpression_parse_def)
  next
    case (Inr x)
    obtain toks ti where x: "x = (toks, ti)"
      by (cases x)
    show ?thesis
    proof (cases "parser_parse env toks ti")
      case (Inl e)
      with r t Inr x show ?thesis
        by (simp add: parseExpression_parse_def)
    next
      case parsed: (Inr y)
      show ?thesis
      proof (cases y)
        case None
        with r t Inr x parsed show ?thesis
          by (simp add: parseExpression_parse_def)
      next
        case (Some z)
        obtain ti' ast where "z = (ti', ast)"
          by (cases z)
        with r t Inr x parsed Some show ?thesis
          by (simp add: parseExpression_parse_def)
      qed
    qed
  qed
qed

lemma parseExpression_probe_templates:
  "templates (fst (snd (parseExpression_probe env s column column_idx ast))) = templates s"
  by (simp add: parseExpression_probe_def split: prod.splits sum.splits bool.splits)

lemma shouldDeduceNewTemplate_frame:
  "shouldDeduceNewTemplate env s column_idx = (r, s1)
     \<Longrightarrow> templates s1 = templates s \<and> templates_cache s1 = templates_cache s
       \<and> buf s1 = buf s \<and> parser_type_for_column s1 = parser_type_for_column s
       \<and> tokens s1 = tokens s \<and> token_iterator s1 = token_iterator s
       \<and> block_missing_values s1 = block_missing_values s"
  by (auto simp: shouldDeduceNewTemplate_def split: if_splits)

lemma parseExpression_deduce_matched:
  assumes "templates st ! column_idx = None"
    and "shouldDeduceNewTemplate env st column_idx = (True, st_allowed)"
    and "getFromCacheOrConstruct env (templates_cache st_allowed) (types env ! column_idx)
           (\<not> isNullable (types env ! column_idx) \<and> null_as_default (format_settings env))
           row_toks ti_start ti ast (if column_idx + 1 = num_columns env then '')'' else '','')
         = (Inr (template_structure, found_in_cache), cache)"
    and "template_parseExpression env (ConstantExpressionTemplate_ctor env template_structure)
           (rollbackToCheckpoint (buf st_allowed)) row_toks ti_start
         = (Inr True, tpl_new, p_new, ti_new)"
  shows "parseExpression_deduce env st column_idx row_toks ti_start ti ast
     = (Inr True,
        st_allowed
          \<lparr>buf := (rollbackToCheckpoint (buf st_allowed))\<lparr>position := p_new\<rparr>,
            parser_type_for_column := (parser_type_for_column st_allowed)[column_idx := BatchTemplate],
            attempts_to_deduce_template :=
              (if found_in_cache then attempts_to_deduce_template st_allowed
               else incrementAt (attempts_to_deduce_template st_allowed) column_idx),
            attempts_to_deduce_template_cached :=
              (if found_in_cache then incrementAt (attempts_to_deduce_template_cached st_allowed) column_idx
               else attempts_to_deduce_template_cached st_allowed),
            rows_parsed_using_template := incrementAt (rows_parsed_using_template st_allowed) column_idx,
            templates := (templates st_allowed)[column_idx := Some tpl_new],
            templates_cache := cache\<rparr>)"
proof -
  from shouldDeduceNewTemplate_frame [OF assms(2)] assms(1)
  have n: "templates st_allowed ! column_idx = None"
    by simp
  show ?thesis
  proof (cases found_in_cache)
    case True
    with assms(2-4) n show ?thesis
      by (simp add: parseExpression_deduce_def Let_def)
  next
    case False
    with assms(2-4) n show ?thesis
      by (simp add: parseExpression_deduce_def Let_def)
  qed
qed

text \<open>
  C1. A column has the template \<open>tpl\<close>; the row is tokenized, and the template's
  \<^verbatim>\<open>parseExpression\<close> returns false on it. \<^verbatim>\<open>evaluateAll\<close> is then called on the template
  with everything it has accumulated, and what it returns is appended to the column;
  the template of the column is reset, the buffer goes back to the checkpoint and the
  iterator to the start of the cell, and the result of the function is the result of
  \<^verbatim>\<open>parseExpression\<close> on that state and column. When the literal deserializer keeps its
  contract, \<^verbatim>\<open>parseExpression\<close> appends at most one value, the row's own, after the values
  of the accumulated rows.

  The discarded template is not used again: a template is installed only by the deduction
  step of \<^verbatim>\<open>parseExpression\<close>, which runs when \<^verbatim>\<open>shouldDeduceNewTemplate\<close> allows it and the
  column has no template. It then takes a structure from the cache or constructs one,
  makes a new template of it, and matches the row against that template from the
  checkpoint; when the row matches, the new template is the column's template, the column
  is in \<^verbatim>\<open>BatchTemplate\<close>, and the counters of the attempt and of the rows parsed with
  templates are incremented. For the mismatching row itself: when it is parsed and is not
  read as a literal, the state \<open>st\<close> before the deduction has no template for the column;
  if the heuristic allows the deduction and the new template matches, the function
  returns true with the new template installed, and if the heuristic does not allow it,
  no template is made and the function is the evaluation of the expression.
\<close>

theorem C1_template_mismatch:
  assumes "readUntilTheEndOfRowAndReTokenize env s = (Inr (toks, start), s1)"
    and "templates s ! column_idx = Some tpl"
    and "template_parseExpression env tpl (buf s1) toks start = (Inr False, tpl1, p1, ti1)"
    and "template_evaluateAll env tpl1 (block_missing_values s) column_idx
           (types env ! column_idx) (if column = [] then 0 else length column)
           = (Inr evaluated, tpl2, missing)"
    and "column_idx < length (templates s)"
  shows "tryParseExpressionUsingTemplate env s column column_idx
           = parseExpression env
               (s1\<lparr>templates := (templates s)[column_idx := None],
                   buf := (buf s1)\<lparr>position := checkpoint (buf s)\<rparr>,
                   token_iterator := Some start,
                   block_missing_values := missing\<rparr>)
               (column @ evaluated) column_idx
     \<and> templates
           (s1\<lparr>templates := (templates s)[column_idx := None],
               buf := (buf s1)\<lparr>position := checkpoint (buf s)\<rparr>,
               token_iterator := Some start,
               block_missing_values := missing\<rparr>) ! column_idx = None
     \<and> ((\<forall>b. case deserializeTextQuoted env column_idx (column @ evaluated) b of
                 (Inl e', c, p) \<Rightarrow> c = column @ evaluated
               | (Inr r, c, p) \<Rightarrow> (\<exists>v. c = column @ evaluated @ [v]))
          \<longrightarrow> (\<exists>vs. length vs \<le> 1
                \<and> snd (snd (tryParseExpressionUsingTemplate env s column column_idx))
                    = column @ evaluated @ vs))
     \<and> (templates st ! column_idx = None
          \<and> shouldDeduceNewTemplate env st column_idx = (True, st_allowed)
          \<and> getFromCacheOrConstruct env (templates_cache st_allowed) (types env ! column_idx)
                (\<not> isNullable (types env ! column_idx) \<and> null_as_default (format_settings env))
                row_toks ti_start ti ast (if column_idx + 1 = num_columns env then '')'' else '','')
              = (Inr (template_structure, found_in_cache), cache)
          \<and> template_parseExpression env (ConstantExpressionTemplate_ctor env template_structure)
                (rollbackToCheckpoint (buf st_allowed)) row_toks ti_start
              = (Inr True, tpl_new, p_new, ti_new)
          \<longrightarrow> parseExpression_deduce env st column_idx row_toks ti_start ti ast
                = (Inr True,
                   st_allowed
                     \<lparr>buf := (rollbackToCheckpoint (buf st_allowed))\<lparr>position := p_new\<rparr>,
                       parser_type_for_column :=
                         (parser_type_for_column st_allowed)[column_idx := BatchTemplate],
                       attempts_to_deduce_template :=
                         (if found_in_cache then attempts_to_deduce_template st_allowed
                          else incrementAt (attempts_to_deduce_template st_allowed) column_idx),
                       attempts_to_deduce_template_cached :=
                         (if found_in_cache
                          then incrementAt (attempts_to_deduce_template_cached st_allowed) column_idx
                          else attempts_to_deduce_template_cached st_allowed),
                       rows_parsed_using_template :=
                         incrementAt (rows_parsed_using_template st_allowed) column_idx,
                       templates := (templates st_allowed)[column_idx := Some tpl_new],
                       templates_cache := cache\<rparr>))
     \<and> (parseExpression_parse env
            (s1\<lparr>templates := (templates s)[column_idx := None],
                buf := (buf s1)\<lparr>position := checkpoint (buf s)\<rparr>,
                token_iterator := Some start,
                block_missing_values := missing\<rparr>) column_idx
              = (Inr (row_toks, ti_start, ti, ast), s_parsed)
          \<and> parseExpression_probe env s_parsed (column @ evaluated) column_idx ast
              = (Inr False, s_probed, column_probed)
          \<and> st = s_probed\<lparr>parser_type_for_column :=
                     (parser_type_for_column s_probed)[column_idx := SingleExpressionEvaluation]\<rparr>
          \<longrightarrow>
            (shouldDeduceNewTemplate env st column_idx = (True, st_allowed)
             \<and> getFromCacheOrConstruct env (templates_cache st_allowed) (types env ! column_idx)
                (\<not> isNullable (types env ! column_idx) \<and> null_as_default (format_settings env))
                row_toks ti_start ti ast (if column_idx + 1 = num_columns env then '')'' else '','')
              = (Inr (template_structure, found_in_cache), cache)
             \<and> template_parseExpression env (ConstantExpressionTemplate_ctor env template_structure)
                (rollbackToCheckpoint (buf st_allowed)) row_toks ti_start
              = (Inr True, tpl_new, p_new, ti_new)
             \<longrightarrow> tryParseExpressionUsingTemplate env s column column_idx
                = (Inr True,
                   st_allowed
                     \<lparr>buf := (rollbackToCheckpoint (buf st_allowed))\<lparr>position := p_new\<rparr>,
                       parser_type_for_column :=
                         (parser_type_for_column st_allowed)[column_idx := BatchTemplate],
                       attempts_to_deduce_template :=
                         (if found_in_cache then attempts_to_deduce_template st_allowed
                          else incrementAt (attempts_to_deduce_template st_allowed) column_idx),
                       attempts_to_deduce_template_cached :=
                         (if found_in_cache
                          then incrementAt (attempts_to_deduce_template_cached st_allowed) column_idx
                          else attempts_to_deduce_template_cached st_allowed),
                       rows_parsed_using_template :=
                         incrementAt (rows_parsed_using_template st_allowed) column_idx,
                       templates := (templates st_allowed)[column_idx := Some tpl_new],
                       templates_cache := cache\<rparr>,
                   column_probed))
          \<and> (\<not> fst (shouldDeduceNewTemplate env st column_idx)
             \<longrightarrow> tryParseExpressionUsingTemplate env s column column_idx
                = parseExpression_evaluate env st column_probed column_idx row_toks ti ast))"
proof -
  note fr = readUntilTheEndOfRowAndReTokenize_frame [OF assms(1)]
  let ?s = "s1\<lparr>templates := (templates s)[column_idx := None],
               buf := (buf s1)\<lparr>position := checkpoint (buf s)\<rparr>,
               token_iterator := Some start,
               block_missing_values := missing\<rparr>"
  have col: "(if column = [] then evaluated else column @ evaluated) = column @ evaluated"
    by simp
  have a: "tryParseExpressionUsingTemplate env s column column_idx
      = parseExpression env ?s (column @ evaluated) column_idx"
    using assms(1-4) fr
    by (simp add: tryParseExpressionUsingTemplate_def rollbackToCheckpoint_def col
        del: append_Nil)
  have b: "templates ?s ! column_idx = None"
    using assms(5) by simp
  have c: "\<exists>vs. length vs \<le> 1
             \<and> snd (snd (tryParseExpressionUsingTemplate env s column column_idx))
                 = column @ evaluated @ vs"
    if "\<forall>b. case deserializeTextQuoted env column_idx (column @ evaluated) b of
                 (Inl e', c, p) \<Rightarrow> c = column @ evaluated
               | (Inr r, c, p) \<Rightarrow> (\<exists>v. c = column @ evaluated @ [v])"
  proof -
    from that
    have "\<forall>b. case deserializeTextQuoted env column_idx (column @ evaluated) b of
                 (Inl e', c, p) \<Rightarrow> c = column @ evaluated
               | (Inr r, c, p) \<Rightarrow> (\<exists>v. c = (column @ evaluated) @ [v])"
      by (simp only: append_assoc simp_thms)
    from parseExpression_appends [OF this, of ?s] a show ?thesis
      by simp
  qed
  have d: "parseExpression_deduce env st column_idx row_toks ti_start ti ast
                = (Inr True,
                   st_allowed
                     \<lparr>buf := (rollbackToCheckpoint (buf st_allowed))\<lparr>position := p_new\<rparr>,
                       parser_type_for_column :=
                         (parser_type_for_column st_allowed)[column_idx := BatchTemplate],
                       attempts_to_deduce_template :=
                         (if found_in_cache then attempts_to_deduce_template st_allowed
                          else incrementAt (attempts_to_deduce_template st_allowed) column_idx),
                       attempts_to_deduce_template_cached :=
                         (if found_in_cache
                          then incrementAt (attempts_to_deduce_template_cached st_allowed) column_idx
                          else attempts_to_deduce_template_cached st_allowed),
                       rows_parsed_using_template :=
                         incrementAt (rows_parsed_using_template st_allowed) column_idx,
                       templates := (templates st_allowed)[column_idx := Some tpl_new],
                       templates_cache := cache\<rparr>)"
    if "templates st ! column_idx = None"
      and "shouldDeduceNewTemplate env st column_idx = (True, st_allowed)"
      and "getFromCacheOrConstruct env (templates_cache st_allowed) (types env ! column_idx)
                (\<not> isNullable (types env ! column_idx) \<and> null_as_default (format_settings env))
                row_toks ti_start ti ast (if column_idx + 1 = num_columns env then '')'' else '','')
              = (Inr (template_structure, found_in_cache), cache)"
      and "template_parseExpression env (ConstantExpressionTemplate_ctor env template_structure)
                (rollbackToCheckpoint (buf st_allowed)) row_toks ti_start
              = (Inr True, tpl_new, p_new, ti_new)"
    using that by (rule parseExpression_deduce_matched)
  have none: "templates st ! column_idx = None"
    and unfold: "tryParseExpressionUsingTemplate env s column column_idx =
       (case parseExpression_deduce env st column_idx row_toks ti_start ti ast of
          (Inl e, s3) \<Rightarrow> (Inl e, s3, column_probed)
        | (Inr True, s3) \<Rightarrow> (Inr True, s3, column_probed)
        | (Inr False, s3) \<Rightarrow>
            parseExpression_evaluate env s3 column_probed column_idx row_toks ti ast)"
    if p: "parseExpression_parse env ?s column_idx = (Inr (row_toks, ti_start, ti, ast), s_parsed)"
      and q: "parseExpression_probe env s_parsed (column @ evaluated) column_idx ast
              = (Inr False, s_probed, column_probed)"
      and m: "st = s_probed\<lparr>parser_type_for_column :=
                     (parser_type_for_column s_probed)[column_idx := SingleExpressionEvaluation]\<rparr>"
  proof -
    from parseExpression_parse_templates [of env ?s column_idx] p
    have "templates s_parsed = templates ?s"
      by simp
    moreover from parseExpression_probe_templates [of env s_parsed "column @ evaluated" column_idx ast] q
    have "templates s_probed = templates s_parsed"
      by simp
    ultimately show "templates st ! column_idx = None"
      using b m by simp
    from parseExpression_unfold [OF p q] a m
    show "tryParseExpressionUsingTemplate env s column column_idx =
       (case parseExpression_deduce env st column_idx row_toks ti_start ti ast of
          (Inl e, s3) \<Rightarrow> (Inl e, s3, column_probed)
        | (Inr True, s3) \<Rightarrow> (Inr True, s3, column_probed)
        | (Inr False, s3) \<Rightarrow>
            parseExpression_evaluate env s3 column_probed column_idx row_toks ti ast)"
      by simp
  qed
  have e: "tryParseExpressionUsingTemplate env s column column_idx
                = (Inr True,
                   st_allowed
                     \<lparr>buf := (rollbackToCheckpoint (buf st_allowed))\<lparr>position := p_new\<rparr>,
                       parser_type_for_column :=
                         (parser_type_for_column st_allowed)[column_idx := BatchTemplate],
                       attempts_to_deduce_template :=
                         (if found_in_cache then attempts_to_deduce_template st_allowed
                          else incrementAt (attempts_to_deduce_template st_allowed) column_idx),
                       attempts_to_deduce_template_cached :=
                         (if found_in_cache
                          then incrementAt (attempts_to_deduce_template_cached st_allowed) column_idx
                          else attempts_to_deduce_template_cached st_allowed),
                       rows_parsed_using_template :=
                         incrementAt (rows_parsed_using_template st_allowed) column_idx,
                       templates := (templates st_allowed)[column_idx := Some tpl_new],
                       templates_cache := cache\<rparr>,
                   column_probed)"
    if "parseExpression_parse env ?s column_idx = (Inr (row_toks, ti_start, ti, ast), s_parsed)"
      and "parseExpression_probe env s_parsed (column @ evaluated) column_idx ast
              = (Inr False, s_probed, column_probed)"
      and "st = s_probed\<lparr>parser_type_for_column :=
                     (parser_type_for_column s_probed)[column_idx := SingleExpressionEvaluation]\<rparr>"
      and "shouldDeduceNewTemplate env st column_idx = (True, st_allowed)"
      and "getFromCacheOrConstruct env (templates_cache st_allowed) (types env ! column_idx)
                (\<not> isNullable (types env ! column_idx) \<and> null_as_default (format_settings env))
                row_toks ti_start ti ast (if column_idx + 1 = num_columns env then '')'' else '','')
              = (Inr (template_structure, found_in_cache), cache)"
      and "template_parseExpression env (ConstantExpressionTemplate_ctor env template_structure)
                (rollbackToCheckpoint (buf st_allowed)) row_toks ti_start
              = (Inr True, tpl_new, p_new, ti_new)"
    using unfold [OF that(1-3)] d [OF none [OF that(1-3)] that(4-6)]
    by simp
  have f: "tryParseExpressionUsingTemplate env s column column_idx
                = parseExpression_evaluate env st column_probed column_idx row_toks ti ast"
    if "parseExpression_parse env ?s column_idx = (Inr (row_toks, ti_start, ti, ast), s_parsed)"
      and "parseExpression_probe env s_parsed (column @ evaluated) column_idx ast
              = (Inr False, s_probed, column_probed)"
      and "st = s_probed\<lparr>parser_type_for_column :=
                     (parser_type_for_column s_probed)[column_idx := SingleExpressionEvaluation]\<rparr>"
      and "\<not> fst (shouldDeduceNewTemplate env st column_idx)"
  proof -
    from shouldDeduceNewTemplate_false [OF that(4)]
    have "parseExpression_deduce env st column_idx row_toks ti_start ti ast = (Inr False, st)"
      by (simp add: parseExpression_deduce_def)
    with unfold [OF that(1-3)] show ?thesis
      by simp
  qed
  from a b c d e f show ?thesis
    by blast
qed


theorem C1_template_mismatch_witness:
  "tryParseExpressionUsingTemplate example_env
      ((example_state ''7, 1)'')
         \<lparr>parser_type_for_column := [BatchTemplate, Streaming],
           templates := [Some \<lparr>shape = ASTFunction, rows = [4, 13]\<rparr>, None]\<rparr>)
      [Int64 9] 0
     = parseExpression example_env
         ((example_state ''7, 1)'')
            \<lparr>tokens := Some [\<lparr>tok_type = Literal, tok_begin = 0\<rparr>,
                             \<lparr>tok_type = Comma, tok_begin = 1\<rparr>,
                             \<lparr>tok_type = Literal, tok_begin = 3\<rparr>,
                             \<lparr>tok_type = ClosingRoundBracket, tok_begin = 4\<rparr>,
                             \<lparr>tok_type = EndOfStream, tok_begin = 5\<rparr>],
              token_iterator := Some 0,
              parser_type_for_column := [BatchTemplate, Streaming],
              templates := [None, None]\<rparr>)
         [Int64 9, Int64 4, Int64 13] 0
   \<and> snd (snd (tryParseExpressionUsingTemplate example_env
      ((example_state ''7, 1)'')
         \<lparr>parser_type_for_column := [BatchTemplate, Streaming],
           templates := [Some \<lparr>shape = ASTFunction, rows = [4, 13]\<rparr>, None]\<rparr>)
      [Int64 9] 0))
     = [Int64 9, Int64 4, Int64 13, Int64 7]
   \<and> fst (tryParseExpressionUsingTemplate example_env
      ((example_state ''1+2, 3)'')
         \<lparr>parser_type_for_column := [BatchTemplate, Streaming],
           templates := [Some \<lparr>shape = ASTIdentifier, rows = [4]\<rparr>, None]\<rparr>)
      [Int64 9] 0)
     = Inr True
   \<and> templates (fst (snd (tryParseExpressionUsingTemplate example_env
      ((example_state ''1+2, 3)'')
         \<lparr>parser_type_for_column := [BatchTemplate, Streaming],
           templates := [Some \<lparr>shape = ASTIdentifier, rows = [4]\<rparr>, None]\<rparr>)
      [Int64 9] 0)))
     = [Some \<lparr>shape = ASTFunction, rows = [0]\<rparr>, None]
   \<and> parser_type_for_column (fst (snd (tryParseExpressionUsingTemplate example_env
      ((example_state ''1+2, 3)'')
         \<lparr>parser_type_for_column := [BatchTemplate, Streaming],
           templates := [Some \<lparr>shape = ASTIdentifier, rows = [4]\<rparr>, None]\<rparr>)
      [Int64 9] 0)))
     = [BatchTemplate, Streaming]
   \<and> snd (snd (tryParseExpressionUsingTemplate example_env
      ((example_state ''1+2, 3)'')
         \<lparr>parser_type_for_column := [BatchTemplate, Streaming],
           templates := [Some \<lparr>shape = ASTIdentifier, rows = [4]\<rparr>, None]\<rparr>)
      [Int64 9] 0))
     = [Int64 9, Int64 4]"
proof -
  let ?s = "(example_state ''7, 1)'')
         \<lparr>parser_type_for_column := [BatchTemplate, Streaming],
           templates := [Some \<lparr>shape = ASTFunction, rows = [4, 13]\<rparr>, None]\<rparr>"
  let ?toks = "[\<lparr>tok_type = Literal, tok_begin = 0\<rparr>,
                \<lparr>tok_type = Comma, tok_begin = 1\<rparr>,
                \<lparr>tok_type = Literal, tok_begin = 3\<rparr>,
                \<lparr>tok_type = ClosingRoundBracket, tok_begin = 4\<rparr>,
                \<lparr>tok_type = EndOfStream, tok_begin = 5\<rparr>]"
  let ?s1 = "?s\<lparr>tokens := Some ?toks, token_iterator := Some 0\<rparr>"
  have h1: "readUntilTheEndOfRowAndReTokenize example_env ?s = (Inr (?toks, 0), ?s1)"
    by code_simp
  have h2: "templates ?s ! 0 = Some \<lparr>shape = ASTFunction, rows = [4, 13]\<rparr>"
    by simp
  have h3: "template_parseExpression example_env \<lparr>shape = ASTFunction, rows = [4, 13]\<rparr>
              (buf ?s1) ?toks 0
            = (Inr False, \<lparr>shape = ASTFunction, rows = [4, 13]\<rparr>, 0, 0)"
    by code_simp
  have h4: "template_evaluateAll example_env \<lparr>shape = ASTFunction, rows = [4, 13]\<rparr>
              (block_missing_values ?s) 0 (types example_env ! 0)
              (if [Int64 9] = [] then 0 else length [Int64 9])
            = (Inr [Int64 4, Int64 13], \<lparr>shape = ASTFunction, rows = []\<rparr>, {})"
    by (simp add: example_env_def example_template_evaluateAll_def example_state_def
        ValuesBlockInputFormat_ctor_def)
  have h5: "0 < length (templates ?s)"
    by simp
  have st: "?s1\<lparr>templates := (templates ?s)[0 := None],
               buf := (buf ?s1)\<lparr>position := checkpoint (buf ?s)\<rparr>,
               token_iterator := Some 0,
               block_missing_values := {}\<rparr>
            = (example_state ''7, 1)'')
                \<lparr>tokens := Some ?toks, token_iterator := Some 0,
                  parser_type_for_column := [BatchTemplate, Streaming],
                  templates := [None, None]\<rparr>"
    by (simp add: example_state_def ValuesBlockInputFormat_ctor_def)
  have fin: "snd (snd (tryParseExpressionUsingTemplate example_env ?s [Int64 9] 0))
     = [Int64 9, Int64 4, Int64 13, Int64 7]"
    by code_simp
  let ?tplI = "\<lparr>shape = ASTIdentifier, rows = [4]\<rparr>"
  let ?t = "(example_state ''1+2, 3)'')
         \<lparr>parser_type_for_column := [BatchTemplate, Streaming],
           templates := [Some ?tplI, None]\<rparr>"
  let ?toks2 = "[\<lparr>tok_type = Literal, tok_begin = 0\<rparr>,
                 \<lparr>tok_type = Punctuation, tok_begin = 1\<rparr>,
                 \<lparr>tok_type = Literal, tok_begin = 2\<rparr>,
                 \<lparr>tok_type = Comma, tok_begin = 3\<rparr>,
                 \<lparr>tok_type = Literal, tok_begin = 5\<rparr>,
                 \<lparr>tok_type = ClosingRoundBracket, tok_begin = 6\<rparr>,
                 \<lparr>tok_type = EndOfStream, tok_begin = 7\<rparr>]"
  let ?t1 = "?t\<lparr>tokens := Some ?toks2, token_iterator := Some 0\<rparr>"
  let ?fb = "?t1\<lparr>templates := (templates ?t)[0 := None],
               buf := (buf ?t1)\<lparr>position := checkpoint (buf ?t)\<rparr>,
               token_iterator := Some 0,
               block_missing_values := {}\<rparr>"
  let ?fb1 = "?fb\<lparr>token_iterator := Some 4\<rparr>"
  let ?st = "?fb1\<lparr>parser_type_for_column :=
                (parser_type_for_column ?fb1)[0 := SingleExpressionEvaluation]\<rparr>"
  have k1: "readUntilTheEndOfRowAndReTokenize example_env ?t = (Inr (?toks2, 0), ?t1)"
    by code_simp
  have k2: "templates ?t ! 0 = Some ?tplI"
    by simp
  have k3: "template_parseExpression example_env ?tplI (buf ?t1) ?toks2 0
            = (Inr False, ?tplI, 0, 0)"
    by code_simp
  have k4: "template_evaluateAll example_env ?tplI (block_missing_values ?t) 0
              (types example_env ! 0) (if [Int64 9] = [] then 0 else length [Int64 9])
            = (Inr [Int64 4], \<lparr>shape = ASTIdentifier, rows = []\<rparr>, {})"
    by (simp add: example_env_def example_template_evaluateAll_def example_state_def
        ValuesBlockInputFormat_ctor_def)
  have k5: "0 < length (templates ?t)"
    by simp
  have kp: "parseExpression_parse example_env ?fb 0 = (Inr (?toks2, 0, 4, ASTFunction), ?fb1)"
    by code_simp
  have kq: "parseExpression_probe example_env ?fb1 ([Int64 9] @ [Int64 4]) 0 ASTFunction
            = (Inr False, ?fb1, [Int64 9, Int64 4])"
    by code_simp
  have ks: "shouldDeduceNewTemplate example_env ?st 0 = (True, ?st)"
    by (simp add: shouldDeduceNewTemplate_def attempts_weighted_def max_attempts_def
        example_env_def example_state_def ValuesBlockInputFormat_ctor_def)
  have kg: "getFromCacheOrConstruct example_env (templates_cache ?st) (types example_env ! 0)
              (\<not> isNullable (types example_env ! 0) \<and> null_as_default (format_settings example_env))
              ?toks2 0 4 ASTFunction (if 0 + 1 = num_columns example_env then '')'' else '','')
            = (Inr (ASTFunction, False), [ASTFunction])"
    by code_simp
  have kt: "template_parseExpression example_env
              (ConstantExpressionTemplate_ctor example_env ASTFunction)
              (rollbackToCheckpoint (buf ?st)) ?toks2 0
            = (Inr True, \<lparr>shape = ASTFunction, rows = [0]\<rparr>, 4, 4)"
    by code_simp
  note fresh = C1_template_mismatch
    [where st = ?st and st_allowed = ?st and row_toks = ?toks2 and ti_start = 0 and ti = 4
       and ast = ASTFunction and template_structure = ASTFunction and found_in_cache = False
       and cache = "[ASTFunction]" and tpl_new = "\<lparr>shape = ASTFunction, rows = [0]\<rparr>"
       and p_new = 4 and ti_new = 4 and s_parsed = ?fb1 and s_probed = ?fb1
       and column_probed = "[Int64 9, Int64 4]",
     OF k1 k2 k3 k4 k5]
  note eq = fresh
    [THEN conjunct2, THEN conjunct2, THEN conjunct2, THEN conjunct2, THEN mp,
     OF conjI [OF kp conjI [OF kq refl]], THEN conjunct1, THEN mp,
     OF conjI [OF ks conjI [OF kg kt]]]
  from eq
  have n1: "fst (tryParseExpressionUsingTemplate example_env ?t [Int64 9] 0) = Inr True"
    and n2: "templates (fst (snd (tryParseExpressionUsingTemplate example_env ?t [Int64 9] 0)))
      = [Some \<lparr>shape = ASTFunction, rows = [0]\<rparr>, None]"
    and n3: "parser_type_for_column
        (fst (snd (tryParseExpressionUsingTemplate example_env ?t [Int64 9] 0)))
      = [BatchTemplate, Streaming]"
    and n4: "snd (snd (tryParseExpressionUsingTemplate example_env ?t [Int64 9] 0))
      = [Int64 9, Int64 4]"
    by (simp_all add: example_state_def ValuesBlockInputFormat_ctor_def)
  from C1_template_mismatch [OF h1 h2 h3 h4 h5, THEN conjunct1] st fin n1 n2 n3 n4
  show ?thesis
    by simp
qed

lemma read_evaluate_nothing:
  "\<forall>i \<in> set is. case templates s ! i of
                     None \<Rightarrow> True
                   | Some tpl \<Rightarrow> template_rowsCount env tpl = 0
     \<Longrightarrow> read_evaluate env is s columns = (Inr (), s, columns)"
  by (induction "is") (auto split: option.splits)

text \<open>
  C9. \<^verbatim>\<open>read\<close> is called after rows have been read (\<^verbatim>\<open>total_rows\<close> is not zero), no
  template holds rows that are not evaluated yet, and, after the whitespace, the input is at
  a semicolon. When only whitespace follows the semicolon up to the end of the input,
  \<^verbatim>\<open>read\<close> returns the empty chunk; when anything else follows, it throws
  \<^verbatim>\<open>CANNOT_READ_ALL_DATA\<close>. In both cases the buffer is after that whitespace.
\<close>

theorem C9_statement_terminator:
  assumes "0 < max_block_size env"
    and "total_rows s \<noteq> 0"
    and "\<not> eof (skipWhitespaceIfAny (isWhitespaceASCII env) (buf s))"
    and "peek (skipWhitespaceIfAny (isWhitespaceASCII env) (buf s)) = CHR '';''"
    and "\<forall>i < num_columns env. case templates s ! i of
                                  None \<Rightarrow> True
                                | Some tpl \<Rightarrow> template_rowsCount env tpl = 0"
    and "b' = skipWhitespaceIfAny (isWhitespaceASCII env)
                ((skipWhitespaceIfAny (isWhitespaceASCII env) (buf s))
                   \<lparr>position := position (skipWhitespaceIfAny (isWhitespaceASCII env) (buf s)) + 1\<rparr>)"
  shows "(eof b' \<longrightarrow>
            read env s = (Inr None, s\<lparr>buf := b', block_missing_values := {}\<rparr>))
     \<and> (\<not> eof b' \<longrightarrow>
            read env s = (Inl (Exception CANNOT_READ_ALL_DATA None),
                          s\<lparr>buf := b', block_missing_values := {}\<rparr>))"
proof -
  let ?b = "skipWhitespaceIfAny (isWhitespaceASCII env) (buf s)"
  let ?s0 = "s\<lparr>block_missing_values := {}\<rparr>"
  let ?cols = "replicate (num_columns env) ([]::IColumn)"
  from assms(1) obtain k where k: "max_block_size env = Suc k"
    by (cases "max_block_size env") auto
  have rows: "read_rows env (max_block_size env) 0 ?s0 ?cols = (Inr 0, ?s0\<lparr>buf := ?b\<rparr>, ?cols)"
    using assms(4) by (simp add: k Let_def)
  have ev: "read_evaluate env [0..<length ?cols] (?s0\<lparr>buf := ?b\<rparr>) ?cols
      = (Inr (), ?s0\<lparr>buf := ?b\<rparr>, ?cols)"
    using assms(5) by (intro read_evaluate_nothing) simp
  have empty: "?cols = [] \<or> hd ?cols = []"
    by (cases "num_columns env") auto
  have suffix: "readSuffix env ?b
      = (if eof b' then (Inr (), b') else (Inl (Exception CANNOT_READ_ALL_DATA None), b'))"
    using assms(3,4,6) by (simp add: readSuffix_def Let_def hasUnreadData_def eof_def)
  show ?thesis
    using assms(2) rows ev empty suffix
    by (simp add: read_def Let_def del: read_rows.simps read_evaluate.simps)
qed


theorem C9_statement_terminator_witness:
  "fst (read example_env (snd (read example_env (example_state ''(1, 2) ;  '')))) = Inr None
   \<and> fst (read example_env (snd (read example_env (example_state ''(1, 2) ; x''))))
       = Inl (Exception CANNOT_READ_ALL_DATA None)"
proof -
  let ?s = "snd (read example_env (example_state ''(1, 2) ;  ''))"
  let ?t = "snd (read example_env (example_state ''(1, 2) ; x''))"
  let ?ws = "isWhitespaceASCII example_env"
  have m: "0 < max_block_size example_env" and n: "num_columns example_env = 2"
    by (simp_all add: example_env_def)
  have r: "total_rows ?s \<noteq> 0" "total_rows ?t \<noteq> 0"
    by code_simp+
  have e: "\<not> eof (skipWhitespaceIfAny ?ws (buf ?s))" "\<not> eof (skipWhitespaceIfAny ?ws (buf ?t))"
    by code_simp+
  have p: "peek (skipWhitespaceIfAny ?ws (buf ?s)) = CHR '';''"
    "peek (skipWhitespaceIfAny ?ws (buf ?t)) = CHR '';''"
    by code_simp+
  have tp: "templates ?s = [None, None]" "templates ?t = [None, None]"
    by code_simp+
  have none: "\<forall>i < num_columns example_env.
      case templates ?s ! i of None \<Rightarrow> True | Some tpl \<Rightarrow> template_rowsCount example_env tpl = 0"
    "\<forall>i < num_columns example_env.
      case templates ?t ! i of None \<Rightarrow> True | Some tpl \<Rightarrow> template_rowsCount example_env tpl = 0"
    by (simp_all add: n tp less_Suc_eq numeral_2_eq_2)
  have after: "eof (skipWhitespaceIfAny ?ws
                ((skipWhitespaceIfAny ?ws (buf ?s))
                   \<lparr>position := position (skipWhitespaceIfAny ?ws (buf ?s)) + 1\<rparr>))"
    "\<not> eof (skipWhitespaceIfAny ?ws
                ((skipWhitespaceIfAny ?ws (buf ?t))
                   \<lparr>position := position (skipWhitespaceIfAny ?ws (buf ?t)) + 1\<rparr>))"
    by code_simp+
  from C9_statement_terminator [OF m r(1) e(1) p(1) none(1) refl] after(1)
  have a: "fst (read example_env ?s) = Inr None"
    by simp
  from C9_statement_terminator [OF m r(2) e(2) p(2) none(2) refl] after(2)
  have b: "fst (read example_env ?t) = Inl (Exception CANNOT_READ_ALL_DATA None)"
    by simp
  from a b show ?thesis
    by simp
qed

end
